theory Spec2Isabelle
  imports Complex_Main
begin

section \<open>JavaScript values\<close>

text \<open>
  The calculator receives a device object of type \<^verbatim>\<open>any\<close>. Its callers pass rows of the
  \<^verbatim>\<open>devices\<close> table (\<^verbatim>\<open>DbDevice\<close>, snake\_case) or application objects
  (\<^verbatim>\<open>AppDevice\<close>, camelCase), so a field read yields a value of the field's type,
  \<^verbatim>\<open>null\<close>, or \<^verbatim>\<open>undefined\<close> when the object has no such field.

  Numbers are modelled as rationals: \<^verbatim>\<open>+\<close>, \<^verbatim>\<open>-\<close>, \<^verbatim>\<open>*\<close> and \<^verbatim>\<open>/\<close> are read as
  exact arithmetic, the rounding of IEEE doubles is left out, and a number field never
  holds \<^verbatim>\<open>NaN\<close> or an infinity (the columns are \<^verbatim>\<open>NUMERIC(10,2)\<close> and arrive as JSON).
\<close>

datatype 'a js = Undefined | Null | Val 'a

text \<open>Truthiness of a number-typed field: \<^verbatim>\<open>undefined\<close>, \<^verbatim>\<open>null\<close> and \<^verbatim>\<open>0\<close> are falsy.\<close>

fun truthy_num :: "rat js \<Rightarrow> bool" where
  "truthy_num (Val v) = (v \<noteq> 0)"
| "truthy_num _ = False"

text \<open>\<^verbatim>\<open>a || b\<close> on two fields of number type: \<^verbatim>\<open>a\<close> when it is truthy, else \<^verbatim>\<open>b\<close>.\<close>

definition lor :: "rat js \<Rightarrow> rat js \<Rightarrow> rat js" where
  "lor a b = (if truthy_num a then a else b)"

text \<open>\<^verbatim>\<open>a || n\<close> with a number literal on the right: the result is always a number.\<close>

fun lor_num :: "rat js \<Rightarrow> rat \<Rightarrow> rat" where
  "lor_num (Val v) n = (if v \<noteq> 0 then v else n)"
| "lor_num _ n = n"

text \<open>\<^verbatim>\<open>a ?? b\<close>: \<^verbatim>\<open>a\<close> unless it is \<^verbatim>\<open>null\<close> or \<^verbatim>\<open>undefined\<close>.\<close>

fun nullish :: "'a js \<Rightarrow> 'a js \<Rightarrow> 'a js" where
  "nullish (Val v) b = Val v"
| "nullish _ b = b"

fun nullish_lit :: "'a js \<Rightarrow> 'a \<Rightarrow> 'a" where
  "nullish_lit (Val v) d = v"
| "nullish_lit _ d = d"

text \<open>Truthiness of a boolean-typed and of a string-typed field.\<close>

fun truthy_bool :: "bool js \<Rightarrow> bool" where
  "truthy_bool (Val b) = b"
| "truthy_bool _ = False"

fun truthy_str :: "string js \<Rightarrow> bool" where
  "truthy_str (Val s) = (s \<noteq> [])"
| "truthy_str _ = False"


section \<open>Financial calculator (\<^verbatim>\<open>calculateDeviceFinancials\<close>)\<close>

text \<open>
  The fields of the device object that \<^verbatim>\<open>calculateDeviceFinancials\<close> and
  \<^verbatim>\<open>exportDevicesToExcel\<close> read, under both namings.
\<close>

record DeviceRow =
  device_id :: string
  status :: string
  purchase_date :: "string js"
  sale_date :: "string js"
  purchasePrice :: "rat js"
  purchase_price :: "rat js"
  repairCost :: "rat js"
  repair_cost :: "rat js"
  shippingBuy :: "rat js"
  shipping_buy :: "rat js"
  shippingSell :: "rat js"
  shipping_sell :: "rat js"
  salesFees :: "rat js"
  sales_fees :: "rat js"
  salePrice :: "rat js"
  sale_price :: "rat js"
  isDiffTax :: "bool js"
  is_diff_tax :: "bool js"

record CalculationResult =
  totalCosts :: rat
  taxableMargin :: rat
  actualProfit :: rat
  grossProfit :: rat
  vat :: rat
  netProfit :: rat
  isFinal :: bool

text \<open>The seven \<^verbatim>\<open>const\<close> bindings that resolve the inputs (source lines 272 to 281).\<close>

definition isSold :: "DeviceRow \<Rightarrow> bool" where
  "isSold device = (status device = ''SOLD'')"

definition purchasePrice_of :: "DeviceRow \<Rightarrow> rat" where
  "purchasePrice_of device = lor_num (lor (purchasePrice device) (purchase_price device)) 0"

definition repairCost_of :: "DeviceRow \<Rightarrow> rat" where
  "repairCost_of device = lor_num (lor (repairCost device) (repair_cost device)) 0"

definition shippingBuy_of :: "DeviceRow \<Rightarrow> rat" where
  "shippingBuy_of device = lor_num (lor (shippingBuy device) (shipping_buy device)) 0"

definition shippingSell_of :: "DeviceRow \<Rightarrow> rat" where
  "shippingSell_of device = lor_num (lor (shippingSell device) (shipping_sell device)) 0"

definition salesFees_of :: "DeviceRow \<Rightarrow> rat" where
  "salesFees_of device = lor_num (lor (salesFees device) (sales_fees device)) 0"

definition salePrice_of :: "DeviceRow \<Rightarrow> rat" where
  "salePrice_of device = lor_num (lor (salePrice device) (sale_price device)) 0"

definition isDiffTax_of :: "DeviceRow \<Rightarrow> bool" where
  "isDiffTax_of device = nullish_lit (nullish (isDiffTax device) (is_diff_tax device)) True"

definition calculateDeviceFinancials :: "DeviceRow \<Rightarrow> CalculationResult" where
  "calculateDeviceFinancials device =
    (let sold = isSold device;
         pp = purchasePrice_of device;
         rc = repairCost_of device;
         sb = shippingBuy_of device;
         ss = shippingSell_of device;
         sf = salesFees_of device;
         sp = salePrice_of device;
         diff = isDiffTax_of device;
         total = pp + rc + sb + ss + sf;
         margin = sp - pp;
         profit = sp - total;
         gross = profit;
         v = (if sold then
                (if diff then (if margin > 0 then margin * (19 / 119) else 0)
                 else sp * (19 / 119))
              else 0);
         net = profit - v
     in \<lparr> totalCosts = total, taxableMargin = margin, actualProfit = profit,
          grossProfit = gross, vat = v, netProfit = net, isFinal = sold \<rparr>)"


section \<open>Document layout engine (\<^verbatim>\<open>lib/pdf/eigenbeleg.ts\<close>)\<close>

subsection \<open>The jsPDF canvas\<close>

text \<open>
  jsPDF is an external library. Its document object is modelled by the part of its state
  that the calls of \<^verbatim>\<open>eigenbeleg.ts\<close> read or write: the current font size, font and
  colours, the page width, and the pages with what has been drawn on them. Every drawn
  item records the graphics state it was drawn with. \<^verbatim>\<open>addPage\<close> appends a page and makes
  it the current one, and nothing in the source selects an earlier page, so the current
  page is always the last: \<open>finished\<close> holds the pages before it.
\<close>

type_synonym rgb = "nat \<times> nat \<times> nat"

datatype item =
    Text string rat rat rat string string rgb
  | Line rat rat rat rat rgb
  | Image string string rat rat rat rat

record jsPDF =
  fontSize :: rat
  fontName :: string
  fontStyle :: string
  textColor :: rgb
  drawColor :: rgb
  pageSizeWidth :: rat
  finished :: "item list list"
  current :: "item list"

text \<open>\<^verbatim>\<open>new jsPDF()\<close>: one empty page, the library's default graphics state.\<close>

definition new_jsPDF :: "rat \<Rightarrow> jsPDF" where
  "new_jsPDF width = \<lparr> fontSize = 16, fontName = ''helvetica'', fontStyle = ''normal'',
     textColor = (0, 0, 0), drawColor = (0, 0, 0), pageSizeWidth = width,
     finished = [], current = [] \<rparr>"

definition allPages :: "jsPDF \<Rightarrow> item list list" where
  "allPages d = finished d @ [current d]"

definition setFontSize :: "rat \<Rightarrow> jsPDF \<Rightarrow> jsPDF" where
  "setFontSize n d = d\<lparr>fontSize := n\<rparr>"

definition setFont :: "string \<Rightarrow> string \<Rightarrow> jsPDF \<Rightarrow> jsPDF" where
  "setFont name style d = d\<lparr>fontName := name, fontStyle := style\<rparr>"

definition setTextColor :: "rgb \<Rightarrow> jsPDF \<Rightarrow> jsPDF" where
  "setTextColor c d = d\<lparr>textColor := c\<rparr>"

definition setDrawColor :: "rgb \<Rightarrow> jsPDF \<Rightarrow> jsPDF" where
  "setDrawColor c d = d\<lparr>drawColor := c\<rparr>"

definition draw :: "item \<Rightarrow> jsPDF \<Rightarrow> jsPDF" where
  "draw it d = d\<lparr>current := current d @ [it]\<rparr>"

definition text_item :: "string \<Rightarrow> rat \<Rightarrow> rat \<Rightarrow> jsPDF \<Rightarrow> item" where
  "text_item s x y d = Text s x y (fontSize d) (fontName d) (fontStyle d) (textColor d)"

text \<open>jsPDF's \<^verbatim>\<open>text(s, x, y)\<close>.\<close>

definition doc_text :: "string \<Rightarrow> rat \<Rightarrow> rat \<Rightarrow> jsPDF \<Rightarrow> jsPDF" where
  "doc_text s x y d = draw (text_item s x y d) d"

definition line :: "rat \<Rightarrow> rat \<Rightarrow> rat \<Rightarrow> rat \<Rightarrow> jsPDF \<Rightarrow> jsPDF" where
  "line x1 y1 x2 y2 d = draw (Line x1 y1 x2 y2 (drawColor d)) d"

definition addPage :: "jsPDF \<Rightarrow> jsPDF" where
  "addPage d = d\<lparr>finished := finished d @ [current d], current := []\<rparr>"

text \<open>
  \<^verbatim>\<open>addImage\<close> throws when the image data cannot be decoded; \<open>None\<close> is the exception.
  Whether a data URL decodes is a fact of the outside world (\<open>decodes\<close>).
\<close>

definition addImage ::
  "(string \<Rightarrow> bool) \<Rightarrow> string \<Rightarrow> string \<Rightarrow> rat \<Rightarrow> rat \<Rightarrow> rat \<Rightarrow> rat \<Rightarrow> jsPDF \<Rightarrow> jsPDF option" where
  "addImage decodes imageData format x y w h d =
     (if decodes imageData then Some (draw (Image imageData format x y w h) d) else None)"

text \<open>
  \<^verbatim>\<open>splitTextToSize\<close> wraps a string to a width with the metrics of the current font. The
  metrics are the library's, so the wrapping function is a parameter.
\<close>

type_synonym splitter = "rat \<Rightarrow> string \<Rightarrow> string \<Rightarrow> string \<Rightarrow> rat \<Rightarrow> string list"

definition splitTextToSize :: "splitter \<Rightarrow> string \<Rightarrow> rat \<Rightarrow> jsPDF \<Rightarrow> string list" where
  "splitTextToSize split s maxWidth d = split (fontSize d) (fontName d) (fontStyle d) s maxWidth"


subsection \<open>Layout constants and the \<^verbatim>\<open>PdfWriter\<close> class\<close>

definition MARGIN_LEFT :: rat where "MARGIN_LEFT = 25"
definition MARGIN_RIGHT :: rat where "MARGIN_RIGHT = 25"
definition LABEL_X :: rat where "LABEL_X = MARGIN_LEFT"
definition VALUE_X :: rat where "VALUE_X = 85"
definition PAGE_BOTTOM :: rat where "PAGE_BOTTOM = 270"
definition FOOTER_Y :: rat where "FOOTER_Y = 280"
definition LINE_HEIGHT :: rat where "LINE_HEIGHT = 5"

definition labelColor :: rgb where "labelColor = (100, 100, 100)"
definition valueColor :: rgb where "valueColor = (30, 30, 30)"
definition lineColor :: rgb where "lineColor = (200, 200, 200)"

text \<open>The field \<open>ypos\<close> is the source's cursor \<^verbatim>\<open>y\<close>.\<close>

record PdfWriter =
  doc :: jsPDF
  ypos :: rat
  pageWidth :: rat
  maxValueWidth :: rat
  footerText :: string

definition new_PdfWriter :: "jsPDF \<Rightarrow> PdfWriter" where
  "new_PdfWriter d = \<lparr> doc = d, ypos = 25, pageWidth = pageSizeWidth d,
     maxValueWidth = pageSizeWidth d - VALUE_X - MARGIN_RIGHT, footerText = [] \<rparr>"

text \<open>A call on \<^verbatim>\<open>this.doc\<close> (or on \<^verbatim>\<open>doc\<close>, the same object) inside a writer.\<close>

definition on_doc :: "(jsPDF \<Rightarrow> jsPDF) \<Rightarrow> PdfWriter \<Rightarrow> PdfWriter" where
  "on_doc f w = w\<lparr>doc := f (doc w)\<rparr>"

definition setFooter :: "string \<Rightarrow> PdfWriter \<Rightarrow> PdfWriter" where
  "setFooter t w = w\<lparr>footerText := t\<rparr>"

definition addFooter :: "PdfWriter \<Rightarrow> PdfWriter" where
  "addFooter w =
     (if footerText w = [] then w
      else (let w = on_doc (setFontSize 8) w;
                w = on_doc (setTextColor (150, 150, 150)) w;
                w = on_doc (doc_text (footerText w) LABEL_X FOOTER_Y) w
            in w))"

definition ensureSpace :: "rat \<Rightarrow> PdfWriter \<Rightarrow> PdfWriter" where
  "ensureSpace needed w =
     (if ypos w + needed > PAGE_BOTTOM then
        (let w = addFooter w;
             w = on_doc addPage w;
             w = w\<lparr>ypos := 25\<rparr>
         in w)
      else w)"

definition advance :: "rat \<Rightarrow> PdfWriter \<Rightarrow> PdfWriter" where
  "advance amount w = w\<lparr>ypos := ypos w + amount\<rparr>"

definition separator :: "PdfWriter \<Rightarrow> PdfWriter" where
  "separator w =
     (let w = ensureSpace 10 w;
          w = on_doc (setDrawColor lineColor) w;
          w = on_doc (line LABEL_X (ypos w) (pageWidth w - MARGIN_RIGHT) (ypos w)) w;
          w = advance 10 w
      in w)"

text \<open>The optional third argument of \<^verbatim>\<open>labelValue\<close>; each of its fields is optional too.\<close>

record LabelOpts =
  valueBold :: "bool js"
  valueFontSize :: "rat js"
  labelFontSize :: "rat js"

text \<open>\<^verbatim>\<open>opts?.field\<close>: \<^verbatim>\<open>undefined\<close> when \<^verbatim>\<open>opts\<close> is absent.\<close>

fun opt_chain :: "'o option \<Rightarrow> ('o \<Rightarrow> 'a js) \<Rightarrow> 'a js" where
  "opt_chain None f = Undefined"
| "opt_chain (Some opts) f = f opts"

text \<open>
  The loop of \<^verbatim>\<open>labelValue\<close> over the wrapped lines, as a recursion over the lines still to
  draw; \<open>i\<close> is the loop index, and \<^verbatim>\<open>i < lines.length - 1\<close> holds exactly when further
  lines remain.
\<close>

fun labelValue_loop :: "rat \<Rightarrow> nat \<Rightarrow> string list \<Rightarrow> PdfWriter \<Rightarrow> PdfWriter" where
  "labelValue_loop lineH i [] w = w"
| "labelValue_loop lineH i (l # ls) w =
     (let w = (if i > 0 then ensureSpace lineH w else w);
          w = on_doc (doc_text l VALUE_X (ypos w)) w;
          w = (if ls \<noteq> [] then advance lineH w else w)
      in labelValue_loop lineH (i + 1) ls w)"

definition labelValue ::
  "splitter \<Rightarrow> string \<Rightarrow> string \<Rightarrow> LabelOpts option \<Rightarrow> PdfWriter \<Rightarrow> PdfWriter" where
  "labelValue split label val opts w =
     (let fontSz = lor_num (opt_chain opts valueFontSize) 10;
          labelFontSz = lor_num (opt_chain opts labelFontSize) 10;
          style = (if truthy_bool (opt_chain opts valueBold) then ''bold'' else ''normal'');
          w = on_doc (setFontSize fontSz) w;
          w = on_doc (setFont ''helvetica'' style) w;
          lines = splitTextToSize split val (maxValueWidth w) (doc w);
          lineH = fontSz * (4 / 10);
          totalHeight = of_nat (length lines) * lineH;
          w = ensureSpace (min totalHeight (lineH + 2)) w;
          w = on_doc (setFontSize labelFontSz) w;
          w = on_doc (setFont ''helvetica'' ''normal'') w;
          w = on_doc (setTextColor labelColor) w;
          w = on_doc (doc_text label LABEL_X (ypos w)) w;
          w = on_doc (setFontSize fontSz) w;
          w = on_doc (setFont ''helvetica'' style) w;
          w = on_doc (setTextColor valueColor) w;
          w = labelValue_loop lineH 0 lines w;
          w = advance (lineH + 2) w
      in w)"

fun labelBlock_loop :: "rat \<Rightarrow> string list \<Rightarrow> PdfWriter \<Rightarrow> PdfWriter" where
  "labelBlock_loop lineH [] w = w"
| "labelBlock_loop lineH (v # vs) w =
     (let w = ensureSpace lineH w;
          w = on_doc (doc_text v VALUE_X (ypos w)) w;
          w = advance lineH w
      in labelBlock_loop lineH vs w)"

definition labelBlock :: "string \<Rightarrow> string list \<Rightarrow> PdfWriter \<Rightarrow> PdfWriter" where
  "labelBlock label vals w =
     (let lineH = LINE_HEIGHT;
          w = ensureSpace (lineH + 2) w;
          w = on_doc (setFontSize 10) w;
          w = on_doc (setFont ''helvetica'' ''normal'') w;
          w = on_doc (setTextColor labelColor) w;
          w = on_doc (doc_text label LABEL_X (ypos w)) w;
          w = on_doc (setTextColor valueColor) w;
          w = labelBlock_loop lineH vals w;
          w = advance 3 w
      in w)"


subsection \<open>Platform functions used by \<^verbatim>\<open>generateEigenbeleg\<close>\<close>

text \<open>\<^verbatim>\<open>a || lit\<close> on a string-typed value: the empty string is falsy.\<close>

fun lor_str :: "string js \<Rightarrow> string \<Rightarrow> string" where
  "lor_str (Val s) d = (if s \<noteq> [] then s else d)"
| "lor_str _ d = d"

text \<open>The string a truthy string-typed value holds, for \<^verbatim>\<open>if (x) { ... x ... }\<close>.\<close>

fun if_truthy :: "string js \<Rightarrow> string option" where
  "if_truthy (Val s) = (if s \<noteq> [] then Some s else None)"
| "if_truthy _ = None"

text \<open>\<^verbatim>\<open>Array.prototype.join\<close>.\<close>

fun join :: "string \<Rightarrow> string list \<Rightarrow> string" where
  "join sep [] = []"
| "join sep [x] = x"
| "join sep (x # y # ys) = x @ sep @ join sep (y # ys)"

text \<open>
  Strings are byte strings in UTF-8; the characters outside ASCII that the document uses
  are spelled out.
\<close>

definition euro :: string where "euro = [CHR 0xE2, CHR 0x82, CHR 0xAC]"
definition bullet :: string where "bullet = [CHR 0xE2, CHR 0x80, CHR 0xA2]"
definition a_uml :: string where "a_uml = [CHR 0xC3, CHR 0xA4]"
definition u_uml :: string where "u_uml = [CHR 0xC3, CHR 0xBC]"

text \<open>
  \<^verbatim>\<open>n.toLocaleString('de-DE', {minimumFractionDigits: 2, maximumFractionDigits: 2})\<close>
  is a built-in (ECMA-402). It is modelled as the locale data prescribe: the number is
  rounded to hundredths, halves away from zero; the integer part is written in decimal
  with a full stop between groups of three digits, then a comma and the two fraction
  digits; a negative number gets a leading minus sign. The rounding is that of the exact
  value; a price from the \<^verbatim>\<open>NUMERIC(10,2)\<close> column has no third fraction digit to round.
  \<open>digit_char\<close> is only ever applied to a number below 10.
\<close>

definition digit_char :: "nat \<Rightarrow> char" where
  "digit_char n = ''0123456789'' ! n"

fun decimal :: "nat \<Rightarrow> string" where
  "decimal n = (if n < 10 then [digit_char n] else decimal (n div 10) @ [digit_char (n mod 10)])"

declare decimal.simps [simp del]

text \<open>Grouping works on the digits in reverse, least significant first.\<close>

fun group3 :: "string \<Rightarrow> string" where
  "group3 (a # b # c # d # rest) = a # b # c # CHR ''.'' # group3 (d # rest)"
| "group3 ds = ds"

definition toLocaleString_de2 :: "rat \<Rightarrow> string" where
  "toLocaleString_de2 x =
     (let cents = nat \<lfloor>\<bar>x\<bar> * 100 + 1 / 2\<rfloor>;
          whole = cents div 100;
          frac = cents mod 100
      in (if x < 0 then ''-'' else []) @ rev (group3 (rev (decimal whole))) @ '',''
           @ [digit_char (frac div 10), digit_char (frac mod 10)])"

text \<open>
  What \<^verbatim>\<open>fetch\<close> can do: reject (\<open>NetworkError\<close>), or resolve to a response with its
  \<^verbatim>\<open>ok\<close> flag, its body already in base64 (\<open>None\<close> when reading the body rejects) and
  its \<^verbatim>\<open>content-type\<close> header (\<^verbatim>\<open>null\<close> when there is none).
\<close>

datatype FetchResult = NetworkError | Response bool "string option" "string js"

text \<open>
  The outside world of one call of \<^verbatim>\<open>generateEigenbeleg\<close>: the page width of a fresh
  jsPDF document, the library's text wrapping, the network, whether jsPDF can decode an
  image, the date formatting of the runtime, and the identifier that
  \<^verbatim>\<open>crypto.randomUUID()\<close> returns.
\<close>

record Env =
  page_width :: rat
  wrap :: splitter
  fetch :: "string \<Rightarrow> FetchResult"
  decodes :: "string \<Rightarrow> bool"
  toLocaleDateString :: "string \<Rightarrow> string"
  randomUUID :: string


subsection \<open>\<^verbatim>\<open>generateEigenbeleg\<close>\<close>

record CompanyProfile =
  company_name :: string
  owner_name :: string
  street :: string
  house_number :: string
  postal_code :: string
  city :: string
  country :: string
  vat_id :: "string js"
  tax_id :: "string js"
  email :: string
  phone :: "string js"
  logo_url :: "string js"

text \<open>
  The \<^verbatim>\<open>Device\<close> interface of \<^verbatim>\<open>eigenbeleg.ts\<close>; the fields carry the prefix \<open>d_\<close> because
  \<open>DeviceRow\<close> has fields of the same names with other types.
\<close>

record Device =
  d_id :: string
  d_model :: string
  d_storage :: string
  d_color :: string
  d_seller_name :: "string js"
  d_purchase_price :: rat
  d_purchase_date :: string

record EigenbelegOptions =
  recipientName :: string
  reason :: "string js"

text \<open>The \<^verbatim>\<open>try\<close> block returns \<^verbatim>\<open>null\<close> (\<open>None\<close>) from its \<^verbatim>\<open>catch\<close> and for a response that is not OK.\<close>

definition loadLogoAsBase64 :: "(string \<Rightarrow> FetchResult) \<Rightarrow> string \<Rightarrow> string option" where
  "loadLogoAsBase64 fetch_fn logoUrl =
     (case fetch_fn logoUrl of
        NetworkError \<Rightarrow> None
      | Response ok body content_type \<Rightarrow>
          (if \<not> ok then None
           else (case body of
                   None \<Rightarrow> None
                 | Some base64 \<Rightarrow>
                     (let contentType = lor_str content_type ''image/png''
                      in Some (''data:'' @ contentType @ '';base64,'' @ base64)))))"

definition defaultReason :: string where
  "defaultReason = ''Kein externer Beleg vorhanden''"

definition amountStr :: "Device \<Rightarrow> string" where
  "amountStr device = toLocaleString_de2 (d_purchase_price device) @ '' '' @ euro"

text \<open>
  The block \<^verbatim>\<open>Logo (if available)\<close> of \<^verbatim>\<open>generateEigenbeleg\<close> (lines 205 to 215). The
  \<^verbatim>\<open>catch\<close> around \<^verbatim>\<open>addImage\<close> is empty: when the call throws, the document stays as
  it was.
\<close>

definition drawLogo :: "Env \<Rightarrow> CompanyProfile \<Rightarrow> PdfWriter \<Rightarrow> PdfWriter" where
  "drawLogo env companyProfile w =
     (case if_truthy (logo_url companyProfile) of
        None \<Rightarrow> w
      | Some url \<Rightarrow>
          (case loadLogoAsBase64 (fetch env) url of
             None \<Rightarrow> w
           | Some logoData \<Rightarrow>
               (case addImage (decodes env) logoData ''PNG'' (pageWidth w - 65) 15 40 20 (doc w) of
                  None \<Rightarrow> w
                | Some d \<Rightarrow> w\<lparr>doc := d\<rparr>)))"

text \<open>
  The result is the document that \<^verbatim>\<open>doc.output('arraybuffer')\<close> serialises; the byte
  encoding itself is jsPDF's and is not modelled.
\<close>

definition generateEigenbeleg ::
  "Env \<Rightarrow> Device \<Rightarrow> CompanyProfile \<Rightarrow> EigenbelegOptions \<Rightarrow> jsPDF" where
  "generateEigenbeleg env device companyProfile options =
     (let w = new_PdfWriter (new_jsPDF (page_width env));
          footerParts = [email companyProfile] @
            (case if_truthy (phone companyProfile) of Some p \<Rightarrow> [p] | None \<Rightarrow> []);
          w = setFooter (join ('' '' @ bullet @ '' '') footerParts) w;
          w = drawLogo env companyProfile w;
          w = on_doc (setFont ''helvetica'' ''bold'') w;
          w = on_doc (setFontSize 22) w;
          w = on_doc (setTextColor (30, 30, 30)) w;
          w = on_doc (doc_text ''Eigenbeleg'' LABEL_X (ypos w)) w;
          w = advance 8 w;
          w = on_doc (setFont ''helvetica'' ''normal'') w;
          w = on_doc (setFontSize 10) w;
          w = on_doc (setTextColor (100, 100, 100)) w;
          w = on_doc (doc_text (''Eigenbeleg-Nummer '' @ d_id device) LABEL_X (ypos w)) w;
          w = advance 18 w;
          dateStr = toLocaleDateString env (d_purchase_date device);
          w = labelValue (wrap env) ''Belegdatum'' dateStr
                (Some \<lparr>valueBold = Val True, valueFontSize = Undefined, labelFontSize = Undefined\<rparr>) w;
          w = labelValue (wrap env) ''Gegenpartei'' (recipientName options)
                (Some \<lparr>valueBold = Val True, valueFontSize = Undefined, labelFontSize = Undefined\<rparr>) w;
          w = labelValue (wrap env) ''Beschreibung der Leistung''
                (''Ankauf '' @ d_model device @ '' '' @ d_storage device @ '' '' @ d_color device)
                None w;
          w = ensureSpace 5 w;
          w = on_doc (setFontSize 9) w;
          w = on_doc (setTextColor (100, 100, 100)) w;
          w = on_doc (doc_text (''Ger'' @ a_uml @ ''te-ID: '' @ d_id device) VALUE_X (ypos w)) w;
          w = on_doc (setFontSize 10) w;
          w = advance 8 w;
          w = labelValue (wrap env) ''Betrag'' (amountStr device)
                (Some \<lparr>valueBold = Val True, valueFontSize = Val 14, labelFontSize = Undefined\<rparr>) w;
          w = separator w;
          w = labelValue (wrap env) (''Grund f'' @ u_uml @ ''r Eigenbeleg'')
                (lor_str (reason options) defaultReason)
                (Some \<lparr>valueBold = Val True, valueFontSize = Undefined, labelFontSize = Undefined\<rparr>) w;
          w = separator w;
          w = labelBlock ''Erstellt durch''
                [owner_name companyProfile,
                 company_name companyProfile,
                 street companyProfile @ '' '' @ house_number companyProfile,
                 postal_code companyProfile @ '' '' @ city companyProfile] w;
          w = labelValue (wrap env) ''Erstellt am'' dateStr None w;
          w = (case if_truthy (tax_id companyProfile) of
                 Some t \<Rightarrow> labelValue (wrap env) ''Steuer-Nr.'' t None w
               | None \<Rightarrow> w);
          w = (case if_truthy (vat_id companyProfile) of
                 Some v \<Rightarrow> labelValue (wrap env) ''USt-IdNr.'' v None w
               | None \<Rightarrow> w);
          guid = randomUUID env;
          w = labelValue (wrap env) ''Digitale Signatur (GUID)'' guid
                (Some \<lparr>valueBold = Undefined, valueFontSize = Val 9, labelFontSize = Undefined\<rparr>) w;
          w = advance 8 w;
          w = ensureSpace 20 w;
          w = on_doc (setDrawColor (200, 200, 200)) w;
          w = on_doc (line LABEL_X (ypos w) (LABEL_X + 70) (ypos w)) w;
          w = advance 5 w;
          w = on_doc (setTextColor (100, 100, 100)) w;
          w = on_doc (setFontSize 9) w;
          w = on_doc (doc_text (''Inhaber '' @ company_name companyProfile) LABEL_X (ypos w)) w;
          w = addFooter w
      in doc w)"

text \<open>
  The options that the route handler \<^verbatim>\<open>POST\<close> builds from the request body (lines 20 to 22
  and 58 to 61); \<^verbatim>\<open>String.prototype.trim\<close> is the runtime's and is a parameter. The handler
  has rejected an absent or blank \<^verbatim>\<open>recipientName\<close> before.
\<close>

definition POST_options :: "(string \<Rightarrow> string) \<Rightarrow> string \<Rightarrow> string js \<Rightarrow> EigenbelegOptions" where
  "POST_options trim recipient body_reason =
     (let reason0 = lor_str body_reason []
      in \<lparr> recipientName = trim recipient,
           reason = (if trim reason0 \<noteq> [] then Val (trim reason0) else Undefined) \<rparr>)"


section \<open>Spreadsheet export (\<^verbatim>\<open>exportDevicesToExcel\<close>)\<close>

text \<open>A spreadsheet cell holds a number or a string; a row is an object, its keys in order.\<close>

datatype cell = Num rat | Str string

type_synonym row = "(string \<times> cell) list"

text \<open>The six accumulators declared before the \<^verbatim>\<open>map\<close> (lines 684 to 689).\<close>

record Totals =
  totalPurchasePrice :: rat
  totalRepairCost :: rat
  totalShippingCost :: rat
  totalOtherCosts :: rat
  totalSalePrice :: rat
  totalTax :: rat

definition zeroTotals :: Totals where
  "zeroTotals = \<lparr> totalPurchasePrice = 0, totalRepairCost = 0, totalShippingCost = 0,
     totalOtherCosts = 0, totalSalePrice = 0, totalTax = 0 \<rparr>"

definition check_mark :: string where "check_mark = [CHR 0xE2, CHR 0x9C, CHR 0x93]"

text \<open>
  \<^verbatim>\<open>x ? format(new Date(x), 'dd.MM.yyyy') : ''\<close>. The \<^verbatim>\<open>format\<close> of date-fns throws a
  \<^verbatim>\<open>RangeError\<close> on a string that is no date; the parameter \<open>fmt\<close> returns \<open>None\<close> then.
\<close>

definition date_cell :: "(string \<Rightarrow> string option) \<Rightarrow> string js \<Rightarrow> cell option" where
  "date_cell fmt x =
     (case if_truthy x of
        None \<Rightarrow> Some (Str [])
      | Some s \<Rightarrow> (case fmt s of None \<Rightarrow> None | Some t \<Rightarrow> Some (Str t)))"

text \<open>
  One call of the \<^verbatim>\<open>map\<close> callback (lines 692 to 735): it updates the accumulators and
  returns the row of the device; \<open>None\<close> is the exception of \<^verbatim>\<open>format\<close>.
\<close>

definition export_device ::
  "(string \<Rightarrow> string option) \<Rightarrow> Totals \<Rightarrow> DeviceRow \<Rightarrow> (Totals \<times> row) option" where
  "export_device fmt tot device =
     (let financials = calculateDeviceFinancials device;
          pPrice = lor_num (purchase_price device) 0;
          rCost = lor_num (repair_cost device) 0;
          shippingCost = lor_num (shipping_buy device) 0 + lor_num (shipping_sell device) 0;
          otherCosts = lor_num (sales_fees device) 0;
          tCosts = pPrice + rCost + shippingCost + otherCosts;
          sPrice = lor_num (sale_price device) 0;
          tax = vat financials;
          profitBeforeTax = actualProfit financials;
          profitAfterTax = netProfit financials;
          tot = (if status device = ''SOLD'' \<and> sPrice > 0 then
                   tot\<lparr> totalPurchasePrice := totalPurchasePrice tot + pPrice,
                        totalRepairCost := totalRepairCost tot + rCost,
                        totalShippingCost := totalShippingCost tot + shippingCost,
                        totalOtherCosts := totalOtherCosts tot + otherCosts,
                        totalSalePrice := totalSalePrice tot + sPrice,
                        totalTax := totalTax tot + tax \<rparr>
                 else tot)
      in (case date_cell fmt (purchase_date device) of
            None \<Rightarrow> None
          | Some einkaufsdatum \<Rightarrow>
         (case date_cell fmt (sale_date device) of
            None \<Rightarrow> None
          | Some verkaufsdatum \<Rightarrow>
              Some (tot,
                [(''Ger'' @ a_uml @ ''te-ID'', Str (device_id device)),
                 (''Einkaufsdatum'', einkaufsdatum),
                 (''Verkaufsdatum'', verkaufsdatum),
                 (''Besteuerungsart'',
                    Str (if truthy_bool (is_diff_tax device) then ''Differenzbesteuerung''
                         else ''Regelbesteuerung'')),
                 (''Differenzbesteuerung'',
                    Str (if truthy_bool (is_diff_tax device) then check_mark else [])),
                 (''Regelbesteuerung'',
                    Str (if truthy_bool (is_diff_tax device) then [] else check_mark)),
                 (''Einkaufspreis'', Num pPrice),
                 (''Reparaturkosten'', Num rCost),
                 (''Versandkosten'', Num shippingCost),
                 (''Sonstige Kosten'', Num otherCosts),
                 (''Gesamtkosten'', Num tCosts),
                 (''Verkaufspreis'', if sPrice > 0 then Num sPrice else Str []),
                 (''Steuerbetrag'', if tax > 0 then Num tax else Str []),
                 (''Gewinn vor Steuern'',
                    if status device = ''SOLD'' then Num profitBeforeTax else Str []),
                 (''Gewinn nach Steuern'',
                    if status device = ''SOLD'' then Num profitAfterTax else Str [])]))))"

text \<open>\<^verbatim>\<open>devices.map(...)\<close>: the callback runs on the devices in order.\<close>

fun export_map ::
  "(string \<Rightarrow> string option) \<Rightarrow> DeviceRow list \<Rightarrow> Totals \<Rightarrow> row list \<Rightarrow> (Totals \<times> row list) option" where
  "export_map fmt [] tot rows = Some (tot, rows)"
| "export_map fmt (device # devices) tot rows =
     (case export_device fmt tot device of
        None \<Rightarrow> None
      | Some (tot', r) \<Rightarrow> export_map fmt devices tot' (rows @ [r]))"

text \<open>
  What the function hands to the XLSX library: the device rows (\<^verbatim>\<open>excelData\<close>) and the
  rows of the totals section (\<^verbatim>\<open>totalsRows\<close>). The serialisation to a workbook is the
  library's and is not modelled.
\<close>

record ExportSheet =
  excelData :: "row list"
  totalsRows :: "cell list list"

definition totals_row :: "string \<Rightarrow> rat \<Rightarrow> cell list" where
  "totals_row label v = [Str label, Str [], Str [], Str [], Str [], Str [], Num v]"

text \<open>
  The argument \<open>devices\<close> is what \<^verbatim>\<open>getDevices(filters)\<close> returned. \<open>Inl\<close> carries the
  \<^verbatim>\<open>error\<close> message of an unsuccessful result.
\<close>

definition exportDevicesToExcel ::
  "(string \<Rightarrow> string option) \<Rightarrow> DeviceRow list \<Rightarrow> string + ExportSheet" where
  "exportDevicesToExcel fmt devices =
     (if length devices = 0 then Inl (''Keine Ger'' @ a_uml @ ''te zum Exportieren gefunden'')
      else (case export_map fmt devices zeroTotals [] of
              None \<Rightarrow> Inl ''Export fehlgeschlagen''
            | Some (tot, rows) \<Rightarrow>
                (let totalAllCosts = totalPurchasePrice tot + totalRepairCost tot
                       + totalShippingCost tot + totalOtherCosts tot;
                     totalProfitBeforeTax = totalSalePrice tot - totalAllCosts;
                     totalProfitAfterTax = totalProfitBeforeTax - totalTax tot
                 in Inr \<lparr> excelData = rows,
                      totalsRows =
                        [totals_row ''Gesamte Einkaufskosten'' (totalPurchasePrice tot),
                         totals_row ''Gesamte Reparaturkosten'' (totalRepairCost tot),
                         totals_row ''Gesamte Versandkosten'' (totalShippingCost tot),
                         totals_row ''Gesamte sonstige Kosten'' (totalOtherCosts tot),
                         totals_row ''Gesamtkosten gesamt'' totalAllCosts,
                         totals_row ''Gesamtumsatz'' (totalSalePrice tot),
                         totals_row ''Gesamtsteuer'' (totalTax tot),
                         totals_row ''Gesamtgewinn vor Steuern'' totalProfitBeforeTax,
                         totals_row ''Gesamtgewinn nach Steuern'' totalProfitAfterTax] \<rparr>)))"


section \<open>Notions used to state the properties\<close>

text \<open>A field is absent when reading it gives \<^verbatim>\<open>null\<close> or \<^verbatim>\<open>undefined\<close>.\<close>

fun absent :: "'a js \<Rightarrow> bool" where
  "absent (Val v) = False"
| "absent _ = True"

text \<open>A monetary field that, when present, is not negative.\<close>

fun nonneg :: "rat js \<Rightarrow> bool" where
  "nonneg (Val v) = (0 \<le> v)"
| "nonneg _ = True"

text \<open>A sold device bought for 1000 and sold for 1190, as a row of the table.\<close>

definition soldRow :: DeviceRow where
  "soldRow = \<lparr> device_id = ''D-1'', status = ''SOLD'',
     purchase_date = Val ''2024-01-05'', sale_date = Val ''2024-02-01'',
     purchasePrice = Undefined, purchase_price = Val 1000,
     repairCost = Undefined, repair_cost = Val 20,
     shippingBuy = Undefined, shipping_buy = Val 5,
     shippingSell = Undefined, shipping_sell = Null,
     salesFees = Undefined, sales_fees = Val 15,
     salePrice = Undefined, sale_price = Val 1190,
     isDiffTax = Undefined, is_diff_tax = Val True \<rparr>"

text \<open>
  The footer as it appears on a page: the footer text drawn at the footer position in the
  size and colour that \<^verbatim>\<open>addFooter\<close> sets.
\<close>

fun is_footer :: "string \<Rightarrow> item \<Rightarrow> bool" where
  "is_footer ft (Text s x y sz fn fs col) =
     (s = ft \<and> x = LABEL_X \<and> y = FOOTER_Y \<and> sz = 8 \<and> col = (150, 150, 150))"
| "is_footer ft _ = False"

definition footer_count :: "string \<Rightarrow> item list \<Rightarrow> nat" where
  "footer_count ft page = length (filter (is_footer ft) page)"

text \<open>
  The state of a writer between two operations: every finished page carries the footer
  once, the page being written does not carry it yet.
\<close>

definition footers_pending :: "string \<Rightarrow> PdfWriter \<Rightarrow> bool" where
  "footers_pending ft w \<longleftrightarrow>
     footerText w = ft \<and> list_all (\<lambda>p. footer_count ft p = 1) (finished (doc w))
     \<and> footer_count ft (current (doc w)) = 0"

text \<open>
  A sequence of drawing operations on a writer: the methods of \<^verbatim>\<open>PdfWriter\<close> that move
  the cursor or draw.
\<close>

datatype wop =
    EnsureSpace rat
  | Advance rat
  | Separator
  | LabelValue string string "LabelOpts option"
  | LabelBlock string "string list"

fun exec_op :: "splitter \<Rightarrow> wop \<Rightarrow> PdfWriter \<Rightarrow> PdfWriter" where
  "exec_op split (EnsureSpace n) w = ensureSpace n w"
| "exec_op split (Advance a) w = advance a w"
| "exec_op split Separator w = separator w"
| "exec_op split (LabelValue label val opts) w = labelValue split label val opts w"
| "exec_op split (LabelBlock label vals) w = labelBlock label vals w"

fun run_ops :: "splitter \<Rightarrow> wop list \<Rightarrow> PdfWriter \<Rightarrow> PdfWriter" where
  "run_ops split [] w = w"
| "run_ops split (op # ops) w = run_ops split ops (exec_op split op w)"

text \<open>The footer text that \<^verbatim>\<open>generateEigenbeleg\<close> sets for a company profile.\<close>

definition footer_of :: "CompanyProfile \<Rightarrow> string" where
  "footer_of companyProfile =
     join ('' '' @ bullet @ '' '')
       ([email companyProfile] @
        (case if_truthy (phone companyProfile) of Some p \<Rightarrow> [p] | None \<Rightarrow> []))"

text \<open>A text with given content at a given position, whatever its font and colour.\<close>

fun is_text_at :: "string \<Rightarrow> rat \<Rightarrow> rat \<Rightarrow> item \<Rightarrow> bool" where
  "is_text_at s x y (Text s' x' y' sz fn fs col) = (s' = s \<and> x' = x \<and> y' = y)"
| "is_text_at s x y _ = False"

text \<open>The texts of the value column among some items, in drawing order.\<close>

fun value_texts :: "item list \<Rightarrow> string list" where
  "value_texts [] = []"
| "value_texts (Text s x y sz fn fs col # its) =
     (if x = VALUE_X then s # value_texts its else value_texts its)"
| "value_texts (_ # its) = value_texts its"

text \<open>
  A field on a page: the label in the label column and, drawn right after it at the same
  height, the given first line of the value.
\<close>

fun field_in_page :: "string \<Rightarrow> string \<Rightarrow> item list \<Rightarrow> bool" where
  "field_in_page label v [] = False"
| "field_in_page label v [a] = False"
| "field_in_page label v (a # b # rest) =
     ((case a of
         Text s x y sz fn fs col \<Rightarrow> s = label \<and> x = LABEL_X \<and> is_text_at v VALUE_X y b
       | _ \<Rightarrow> False)
      \<or> field_in_page label v (b # rest))"

definition field_shown :: "string \<Rightarrow> string \<Rightarrow> item list list \<Rightarrow> bool" where
  "field_shown label first_line pgs = list_ex (field_in_page label first_line) pgs"

text \<open>
  A document continues another when it keeps the earlier pages and what was on the page
  being written, and only adds to that page and after it.
\<close>

definition continues :: "jsPDF \<Rightarrow> jsPDF \<Rightarrow> bool" where
  "continues d d' \<longleftrightarrow> (\<exists>tail new. allPages d' = finished d @ [current d @ tail] @ new)"

text \<open>
  The ways the logo can fail for a configured URL: the fetch rejects, the response is not
  OK, reading its body rejects, or jsPDF cannot decode the data URL built from it.
\<close>

definition logo_unavailable :: "Env \<Rightarrow> string \<Rightarrow> bool" where
  "logo_unavailable env url =
     (case fetch env url of
        NetworkError \<Rightarrow> True
      | Response ok body content_type \<Rightarrow>
          (case body of
             None \<Rightarrow> True
           | Some base64 \<Rightarrow>
               \<not> ok \<or> \<not> decodes env
                 (''data:'' @ lor_str content_type ''image/png'' @ '';base64,'' @ base64)))"

fun is_image :: "item \<Rightarrow> bool" where
  "is_image (Image imageData format x y w h) = True"
| "is_image _ = False"

definition no_image :: "jsPDF \<Rightarrow> bool" where
  "no_image d = list_all (list_all (\<lambda>it. \<not> is_image it)) (allPages d)"

text \<open>The devices that the export counts in its totals.\<close>

definition counted :: "DeviceRow \<Rightarrow> bool" where
  "counted d \<longleftrightarrow> status d = ''SOLD'' \<and> lor_num (sale_price d) 0 > 0"

definition counted_sum :: "(DeviceRow \<Rightarrow> rat) \<Rightarrow> DeviceRow list \<Rightarrow> rat" where
  "counted_sum f devices = sum_list (map f (filter counted devices))"

text \<open>The cell of a row under a key.\<close>

definition row_cell :: "string \<Rightarrow> row \<Rightarrow> cell option" where
  "row_cell key r = map_of r key"

text \<open>
  Sample inputs: a world whose text wrapping never breaks a line and whose network is
  down, a company profile with a logo URL and no tax identifiers, and a device bought
  for 250.
\<close>

definition plainEnv :: Env where
  "plainEnv = \<lparr> page_width = 210, wrap = (\<lambda>sz fn fs s width. [s]),
     fetch = (\<lambda>url. NetworkError), decodes = (\<lambda>imageData. False),
     toLocaleDateString = (\<lambda>s. ''05.01.2024''), randomUUID = ''3b241101-e2bb-4255-8caf-4136c566a962'' \<rparr>"

definition sampleProfile :: CompanyProfile where
  "sampleProfile = \<lparr> company_name = ''Handy GmbH'', owner_name = ''Erika Muster'',
     street = ''Hauptstr.'', house_number = ''1'', postal_code = ''10115'', city = ''Berlin'',
     country = ''DE'', vat_id = Null, tax_id = Null, email = ''info@example.com'',
     phone = Null, logo_url = Val ''https://example.com/logo.png'' \<rparr>"

definition sampleDevice :: Device where
  "sampleDevice = \<lparr> d_id = ''D-1'', d_model = ''iPhone 12'', d_storage = ''128GB'',
     d_color = ''black'', d_seller_name = Null, d_purchase_price = 250,
     d_purchase_date = ''2024-01-05'' \<rparr>"

text \<open>A writer on a fresh A4 document with a footer text set.\<close>

definition freshWriter :: "string \<Rightarrow> PdfWriter" where
  "freshWriter ft = setFooter ft (new_PdfWriter (new_jsPDF 210))"

text \<open>A text wrapping that makes three lines of every string.\<close>

definition wrap3 :: splitter where
  "wrap3 = (\<lambda>sz fn fs s width. [s, s @ ''2'', s @ ''3''])"

text \<open>The logo fails when a URL is configured and the logo is unavailable from it.\<close>

definition logo_fails :: "Env \<Rightarrow> CompanyProfile \<Rightarrow> bool" where
  "logo_fails env companyProfile =
     (case if_truthy (logo_url companyProfile) of
        None \<Rightarrow> False
      | Some url \<Rightarrow> logo_unavailable env url)"

text \<open>A trimming function for the samples: it strips the blanks at both ends.\<close>

definition trim_blanks :: "string \<Rightarrow> string" where
  "trim_blanks s = rev (dropWhile (\<lambda>c. c = CHR '' '') (rev (dropWhile (\<lambda>c. c = CHR '' '') s)))"

text \<open>A device still in stock, and a date formatting that succeeds on every string.\<close>

definition stockRow :: DeviceRow where
  "stockRow = soldRow\<lparr> device_id := ''D-2'', status := ''STOCK'', sale_date := Null,
     purchase_price := Val 300, sale_price := Null \<rparr>"

definition format_as_is :: "string \<Rightarrow> string option" where
  "format_as_is s = Some s"

text \<open>
  Three more worlds: one where the logo is served but cannot be decoded, one where the
  server answers 404, and one where the logo is served and decodes.
\<close>

definition brokenImageEnv :: Env where
  "brokenImageEnv = plainEnv\<lparr> fetch := (\<lambda>url. Response True (Some ''AAAA'') Null) \<rparr>"

definition notFoundEnv :: Env where
  "notFoundEnv = plainEnv\<lparr> fetch := (\<lambda>url. Response False (Some ''PGh0bWw+'') (Val ''text/html'')) \<rparr>"

definition goodLogoEnv :: Env where
  "goodLogoEnv = plainEnv\<lparr> fetch := (\<lambda>url. Response True (Some ''AAAA'') (Val ''image/jpeg'')),
     decodes := (\<lambda>imageData. True) \<rparr>"


subsection \<open>Reference readings for the calculator and the amount\<close>

text \<open>
  The sum of costs is stated against the record itself. \<open>num0\<close> reads a field as a
  number, an absent one as 0, and \<open>either_name\<close> is the value of a quantity that a record
  may carry under its camelCase or its snake-case name: the camelCase value when that is a
  number other than 0, the snake-case value otherwise.
\<close>

fun num0 :: "rat js \<Rightarrow> rat" where
  "num0 (Val v) = v"
| "num0 _ = 0"

definition either_name :: "rat js \<Rightarrow> rat js \<Rightarrow> rat" where
  "either_name camel snake = (if num0 camel \<noteq> 0 then num0 camel else num0 snake)"

text \<open>
  A device in stock whose costs are given under the camelCase names only, and one that
  mixes the two spellings: a camelCase purchase price of 0 beside a snake-case one, a
  camelCase repair cost of \<^verbatim>\<open>null\<close>, and a shipping cost given under both names.
\<close>

definition camelRow :: DeviceRow where
  "camelRow = \<lparr> device_id = ''D-3'', status = ''STOCK'',
     purchase_date = Val ''2024-03-01'', sale_date = Undefined,
     purchasePrice = Val 100, purchase_price = Undefined,
     repairCost = Val 20, repair_cost = Undefined,
     shippingBuy = Val 5, shipping_buy = Undefined,
     shippingSell = Val 0, shipping_sell = Undefined,
     salesFees = Val 15, sales_fees = Undefined,
     salePrice = Null, sale_price = Undefined,
     isDiffTax = Val True, is_diff_tax = Undefined \<rparr>"

definition mixedRow :: DeviceRow where
  "mixedRow = camelRow\<lparr> purchasePrice := Val 0, purchase_price := Val 80,
     repairCost := Null, repair_cost := Val 30,
     shippingSell := Val 7, shipping_sell := Val 9 \<rparr>"

text \<open>
  A reader of numbers written in the German format, used to say which number a formatted
  amount denotes: grouping points are skipped, the digits before the comma are the whole
  part, the digits after it count hundredths, and a minus sign negates.
\<close>

definition digit_val :: "char \<Rightarrow> nat" where
  "digit_val c = of_char c - 48"

definition digits_val :: "string \<Rightarrow> nat" where
  "digits_val s = foldl (\<lambda>n c. 10 * n + digit_val c) 0 s"

definition parse_de :: "string \<Rightarrow> rat" where
  "parse_de s =
     (let body = filter (\<lambda>c. c \<noteq> CHR ''.'' \<and> c \<noteq> CHR ''-'') s;
          whole = takeWhile (\<lambda>c. c \<noteq> CHR '','') body;
          frac = drop 1 (dropWhile (\<lambda>c. c \<noteq> CHR '','') body)
      in (if CHR ''-'' \<in> set s then - 1 else 1)
           * (of_nat (digits_val whole) + of_nat (digits_val frac) / 100))"

text \<open>The sample device with another purchase price.\<close>

definition pricedDevice :: "rat \<Rightarrow> Device" where
  "pricedDevice p = sampleDevice\<lparr> d_purchase_price := p \<rparr>"


section \<open>Properties of the financial calculator\<close>

lemmas resolve_defs =
  isSold_def purchasePrice_of_def repairCost_of_def shippingBuy_of_def shippingSell_of_def
  salesFees_of_def salePrice_of_def isDiffTax_of_def

lemma lor_num_lor_nonneg: "nonneg a \<Longrightarrow> nonneg b \<Longrightarrow> 0 \<le> lor_num (lor a b) 0"
  by (cases a; cases b) (simp_all add: lor_def)

lemma lor_absent_left: "absent a \<Longrightarrow> lor a b = lor (Val 0) b"
  by (cases a) (simp_all add: lor_def)

lemma lor_num_lor_absent_right: "absent b \<Longrightarrow> lor_num (lor a b) 0 = lor_num (lor a (Val 0)) 0"
  by (cases a; cases b) (simp_all add: lor_def)

lemma soldRow_financials:
  "calculateDeviceFinancials soldRow =
     \<lparr> totalCosts = 1040, taxableMargin = 190, actualProfit = 150, grossProfit = 150,
       vat = 3610 / 119, netProfit = 14240 / 119, isFinal = True \<rparr>"
  by (simp add: calculateDeviceFinancials_def soldRow_def resolve_defs lor_def Let_def)


text \<open>
  C1, as the code has it. The value of \<open>vat\<close> is 0 for a device that is not sold; for a
  sold device under differential taxation it is \<open>taxableMargin \<times> 19/119\<close> when the margin
  is positive and 0 otherwise; for a sold device under standard taxation it is
  \<open>salePrice \<times> 19/119\<close> whatever the margin. The value is negative exactly when the device
  is sold under standard taxation with a negative sale price, and so it is never negative
  when the sale price is not negative.
\<close>

theorem vat_by_cases:
  "vat (calculateDeviceFinancials d) =
     (if status d \<noteq> ''SOLD'' then 0
      else if isDiffTax_of d then
        (if taxableMargin (calculateDeviceFinancials d) > 0
         then taxableMargin (calculateDeviceFinancials d) * (19 / 119) else 0)
      else salePrice_of d * (19 / 119))
   \<and> (vat (calculateDeviceFinancials d) < 0 \<longleftrightarrow>
        status d = ''SOLD'' \<and> \<not> isDiffTax_of d \<and> salePrice_of d < 0)
   \<and> (0 \<le> salePrice_of d \<longrightarrow> 0 \<le> vat (calculateDeviceFinancials d))"
  by (auto simp add: calculateDeviceFinancials_def Let_def isSold_def
        mult_less_0_iff zero_le_mult_iff)

theorem vat_by_cases_witness:
  "0 \<le> salePrice_of soldRow \<and> vat (calculateDeviceFinancials soldRow) = 190 * (19 / 119)
   \<and> 0 \<le> vat (calculateDeviceFinancials soldRow)"
  using vat_by_cases [of soldRow]
  by (simp add: soldRow_financials) (simp add: soldRow_def resolve_defs lor_def)

text \<open>
  C1 as stated fails: a device sold under standard taxation for a negative price (a value
  the column type admits) has a negative \<open>vat\<close>.
\<close>

theorem vat_negative_counterexample:
  "vat (calculateDeviceFinancials
          (soldRow\<lparr>sale_price := Val (- 119), is_diff_tax := Val False\<rparr>)) = - 19"
  by (simp add: calculateDeviceFinancials_def soldRow_def resolve_defs lor_def Let_def)


text \<open>The two names of a field, read off the record.\<close>

lemma lor_num_lor_either: "lor_num (lor a b) 0 = either_name a b"
  by (cases a; cases b) (simp_all add: lor_def either_name_def)

lemma lor_num_lor_camel: "a = Val v \<Longrightarrow> v \<noteq> 0 \<Longrightarrow> lor_num (lor a b) 0 = v"
  by (simp add: lor_def)

lemma lor_num_lor_snake: "absent a \<or> a = Val 0 \<Longrightarrow> b = Val v \<Longrightarrow> lor_num (lor a b) 0 = v"
  by (cases a) (auto simp add: lor_def)


text \<open>
  C4. \<open>totalCosts\<close> is the sum of the purchase price, the repair cost, the two shipping
  legs and the sales fees, where each of the five is read off the record: the value under
  the camelCase name when that is a number other than 0, else the value under the
  snake-case name, and 0 when the field is absent under both names. When no monetary field
  is negative, \<open>totalCosts\<close> is at least the purchase price and at least the repair cost.
\<close>

theorem totalCosts_sum:
  "totalCosts (calculateDeviceFinancials d) =
     purchasePrice_of d + repairCost_of d + shippingBuy_of d + shippingSell_of d + salesFees_of d
   \<and> totalCosts (calculateDeviceFinancials d) =
       either_name (purchasePrice d) (purchase_price d)
     + either_name (repairCost d) (repair_cost d)
     + either_name (shippingBuy d) (shipping_buy d)
     + either_name (shippingSell d) (shipping_sell d)
     + either_name (salesFees d) (sales_fees d)
   \<and> (purchasePrice d = Val v \<and> v \<noteq> 0 \<longrightarrow> purchasePrice_of d = v)
   \<and> (repairCost d = Val v \<and> v \<noteq> 0 \<longrightarrow> repairCost_of d = v)
   \<and> (shippingBuy d = Val v \<and> v \<noteq> 0 \<longrightarrow> shippingBuy_of d = v)
   \<and> (shippingSell d = Val v \<and> v \<noteq> 0 \<longrightarrow> shippingSell_of d = v)
   \<and> (salesFees d = Val v \<and> v \<noteq> 0 \<longrightarrow> salesFees_of d = v)
   \<and> ((absent (purchasePrice d) \<or> purchasePrice d = Val 0) \<and> purchase_price d = Val v
        \<longrightarrow> purchasePrice_of d = v)
   \<and> ((absent (repairCost d) \<or> repairCost d = Val 0) \<and> repair_cost d = Val v
        \<longrightarrow> repairCost_of d = v)
   \<and> ((absent (shippingBuy d) \<or> shippingBuy d = Val 0) \<and> shipping_buy d = Val v
        \<longrightarrow> shippingBuy_of d = v)
   \<and> ((absent (shippingSell d) \<or> shippingSell d = Val 0) \<and> shipping_sell d = Val v
        \<longrightarrow> shippingSell_of d = v)
   \<and> ((absent (salesFees d) \<or> salesFees d = Val 0) \<and> sales_fees d = Val v
        \<longrightarrow> salesFees_of d = v)
   \<and> (absent (purchasePrice d) \<and> absent (purchase_price d) \<longrightarrow> purchasePrice_of d = 0)
   \<and> (absent (repairCost d) \<and> absent (repair_cost d) \<longrightarrow> repairCost_of d = 0)
   \<and> (absent (shippingBuy d) \<and> absent (shipping_buy d) \<longrightarrow> shippingBuy_of d = 0)
   \<and> (absent (shippingSell d) \<and> absent (shipping_sell d) \<longrightarrow> shippingSell_of d = 0)
   \<and> (absent (salesFees d) \<and> absent (sales_fees d) \<longrightarrow> salesFees_of d = 0)
   \<and> (nonneg (purchasePrice d) \<and> nonneg (purchase_price d)
        \<and> nonneg (repairCost d) \<and> nonneg (repair_cost d)
        \<and> nonneg (shippingBuy d) \<and> nonneg (shipping_buy d)
        \<and> nonneg (shippingSell d) \<and> nonneg (shipping_sell d)
        \<and> nonneg (salesFees d) \<and> nonneg (sales_fees d)
      \<longrightarrow> purchasePrice_of d \<le> totalCosts (calculateDeviceFinancials d)
          \<and> repairCost_of d \<le> totalCosts (calculateDeviceFinancials d))"
proof -
  have total: "totalCosts (calculateDeviceFinancials d) =
      purchasePrice_of d + repairCost_of d + shippingBuy_of d + shippingSell_of d + salesFees_of d"
    by (simp add: calculateDeviceFinancials_def Let_def)
  have raw: "totalCosts (calculateDeviceFinancials d) =
       either_name (purchasePrice d) (purchase_price d)
     + either_name (repairCost d) (repair_cost d)
     + either_name (shippingBuy d) (shipping_buy d)
     + either_name (shippingSell d) (shipping_sell d)
     + either_name (salesFees d) (sales_fees d)"
    unfolding total by (simp add: resolve_defs lor_num_lor_either)
  have camel:
    "purchasePrice d = Val v \<and> v \<noteq> 0 \<longrightarrow> purchasePrice_of d = v"
    "repairCost d = Val v \<and> v \<noteq> 0 \<longrightarrow> repairCost_of d = v"
    "shippingBuy d = Val v \<and> v \<noteq> 0 \<longrightarrow> shippingBuy_of d = v"
    "shippingSell d = Val v \<and> v \<noteq> 0 \<longrightarrow> shippingSell_of d = v"
    "salesFees d = Val v \<and> v \<noteq> 0 \<longrightarrow> salesFees_of d = v"
    by (simp_all add: resolve_defs lor_num_lor_camel)
  have snake:
    "(absent (purchasePrice d) \<or> purchasePrice d = Val 0) \<and> purchase_price d = Val v
        \<longrightarrow> purchasePrice_of d = v"
    "(absent (repairCost d) \<or> repairCost d = Val 0) \<and> repair_cost d = Val v
        \<longrightarrow> repairCost_of d = v"
    "(absent (shippingBuy d) \<or> shippingBuy d = Val 0) \<and> shipping_buy d = Val v
        \<longrightarrow> shippingBuy_of d = v"
    "(absent (shippingSell d) \<or> shippingSell d = Val 0) \<and> shipping_sell d = Val v
        \<longrightarrow> shippingSell_of d = v"
    "(absent (salesFees d) \<or> salesFees d = Val 0) \<and> sales_fees d = Val v
        \<longrightarrow> salesFees_of d = v"
    unfolding resolve_defs by (blast intro: lor_num_lor_snake)+
  have zero: "absent a \<Longrightarrow> absent b \<Longrightarrow> lor_num (lor a b) 0 = 0" for a b
    by (cases a; cases b) (simp_all add: lor_def)
  have both:
    "absent (purchasePrice d) \<and> absent (purchase_price d) \<longrightarrow> purchasePrice_of d = 0"
    "absent (repairCost d) \<and> absent (repair_cost d) \<longrightarrow> repairCost_of d = 0"
    "absent (shippingBuy d) \<and> absent (shipping_buy d) \<longrightarrow> shippingBuy_of d = 0"
    "absent (shippingSell d) \<and> absent (shipping_sell d) \<longrightarrow> shippingSell_of d = 0"
    "absent (salesFees d) \<and> absent (sales_fees d) \<longrightarrow> salesFees_of d = 0"
    by (simp_all add: resolve_defs zero)
  have mono: "nonneg (purchasePrice d) \<and> nonneg (purchase_price d)
        \<and> nonneg (repairCost d) \<and> nonneg (repair_cost d)
        \<and> nonneg (shippingBuy d) \<and> nonneg (shipping_buy d)
        \<and> nonneg (shippingSell d) \<and> nonneg (shipping_sell d)
        \<and> nonneg (salesFees d) \<and> nonneg (sales_fees d)
      \<longrightarrow> purchasePrice_of d \<le> totalCosts (calculateDeviceFinancials d)
          \<and> repairCost_of d \<le> totalCosts (calculateDeviceFinancials d)"
  proof (intro impI, elim conjE)
    assume "nonneg (purchasePrice d)" "nonneg (purchase_price d)"
       "nonneg (repairCost d)" "nonneg (repair_cost d)"
       "nonneg (shippingBuy d)" "nonneg (shipping_buy d)"
       "nonneg (shippingSell d)" "nonneg (shipping_sell d)"
       "nonneg (salesFees d)" "nonneg (sales_fees d)"
    then have "0 \<le> purchasePrice_of d" "0 \<le> repairCost_of d" "0 \<le> shippingBuy_of d"
         "0 \<le> shippingSell_of d" "0 \<le> salesFees_of d"
      by (simp_all add: resolve_defs lor_num_lor_nonneg)
    then show "purchasePrice_of d \<le> totalCosts (calculateDeviceFinancials d)
          \<and> repairCost_of d \<le> totalCosts (calculateDeviceFinancials d)"
      unfolding total by linarith
  qed
  show ?thesis
    by (intro conjI) (rule total raw camel snake both mono)+
qed

theorem totalCosts_sum_witness:
  "absent (shippingSell soldRow) \<and> absent (shipping_sell soldRow) \<and> shippingSell_of soldRow = 0
   \<and> nonneg (purchase_price soldRow)
   \<and> totalCosts (calculateDeviceFinancials soldRow) = 1000 + 20 + 5 + 0 + 15
   \<and> purchasePrice_of soldRow \<le> totalCosts (calculateDeviceFinancials soldRow)
   \<and> repairCost_of soldRow \<le> totalCosts (calculateDeviceFinancials soldRow)
   \<and> purchasePrice camelRow = Val 100 \<and> absent (purchase_price camelRow)
   \<and> purchasePrice_of camelRow = 100
   \<and> totalCosts (calculateDeviceFinancials camelRow) = 100 + 20 + 5 + 0 + 15
   \<and> purchasePrice mixedRow = Val 0 \<and> purchase_price mixedRow = Val 80
   \<and> purchasePrice_of mixedRow = 80
   \<and> repairCost mixedRow = Null \<and> repair_cost mixedRow = Val 30
   \<and> shippingSell mixedRow = Val 7 \<and> shipping_sell mixedRow = Val 9
   \<and> totalCosts (calculateDeviceFinancials mixedRow) = 80 + 30 + 5 + 7 + 15"
proof -
  have sold: "absent (shippingSell soldRow) \<and> absent (shipping_sell soldRow)
     \<and> shippingSell_of soldRow = 0 \<and> nonneg (purchase_price soldRow)
     \<and> totalCosts (calculateDeviceFinancials soldRow) = 1000 + 20 + 5 + 0 + 15
     \<and> purchasePrice_of soldRow \<le> totalCosts (calculateDeviceFinancials soldRow)
     \<and> repairCost_of soldRow \<le> totalCosts (calculateDeviceFinancials soldRow)"
    using totalCosts_sum [where d = soldRow and v = 0]
    by (simp add: soldRow_financials) (simp add: soldRow_def resolve_defs lor_def)
  have c: "purchasePrice camelRow = Val 100" "absent (purchase_price camelRow)"
    by (simp_all add: camelRow_def)
  have c1: "purchasePrice_of camelRow = 100"
    using totalCosts_sum [where d = camelRow and v = 100] c by simp
  have c2: "totalCosts (calculateDeviceFinancials camelRow) = 100 + 20 + 5 + 0 + 15"
    using totalCosts_sum [where d = camelRow and v = 100]
    by (simp add: camelRow_def either_name_def)
  have m: "purchasePrice mixedRow = Val 0" "purchase_price mixedRow = Val 80"
    "repairCost mixedRow = Null" "repair_cost mixedRow = Val 30"
    "shippingSell mixedRow = Val 7" "shipping_sell mixedRow = Val 9"
    by (simp_all add: mixedRow_def camelRow_def)
  have m1: "purchasePrice_of mixedRow = 80"
    using totalCosts_sum [where d = mixedRow and v = 80] m by simp
  have m2: "totalCosts (calculateDeviceFinancials mixedRow) = 80 + 30 + 5 + 7 + 15"
    using totalCosts_sum [where d = mixedRow and v = 80]
    by (simp add: mixedRow_def camelRow_def either_name_def)
  show ?thesis
    using sold c c1 c2 m m1 m2 by simp
qed




text \<open>
  C6. The calculator is a total function of the device record: no operation of its body
  can raise on a record whose fields hold a number, \<^verbatim>\<open>null\<close> or \<^verbatim>\<open>undefined\<close>. An absent
  monetary field, under either name, gives the result that the value 0 in that field
  gives; and when the taxation flag is absent under both names the result is that of
  differential taxation.
\<close>

theorem absent_fields_as_zero:
  "(absent a \<longrightarrow>
     calculateDeviceFinancials (d\<lparr>purchasePrice := a\<rparr>) = calculateDeviceFinancials (d\<lparr>purchasePrice := Val 0\<rparr>)
   \<and> calculateDeviceFinancials (d\<lparr>purchase_price := a\<rparr>) = calculateDeviceFinancials (d\<lparr>purchase_price := Val 0\<rparr>)
   \<and> calculateDeviceFinancials (d\<lparr>repairCost := a\<rparr>) = calculateDeviceFinancials (d\<lparr>repairCost := Val 0\<rparr>)
   \<and> calculateDeviceFinancials (d\<lparr>repair_cost := a\<rparr>) = calculateDeviceFinancials (d\<lparr>repair_cost := Val 0\<rparr>)
   \<and> calculateDeviceFinancials (d\<lparr>shippingBuy := a\<rparr>) = calculateDeviceFinancials (d\<lparr>shippingBuy := Val 0\<rparr>)
   \<and> calculateDeviceFinancials (d\<lparr>shipping_buy := a\<rparr>) = calculateDeviceFinancials (d\<lparr>shipping_buy := Val 0\<rparr>)
   \<and> calculateDeviceFinancials (d\<lparr>shippingSell := a\<rparr>) = calculateDeviceFinancials (d\<lparr>shippingSell := Val 0\<rparr>)
   \<and> calculateDeviceFinancials (d\<lparr>shipping_sell := a\<rparr>) = calculateDeviceFinancials (d\<lparr>shipping_sell := Val 0\<rparr>)
   \<and> calculateDeviceFinancials (d\<lparr>salesFees := a\<rparr>) = calculateDeviceFinancials (d\<lparr>salesFees := Val 0\<rparr>)
   \<and> calculateDeviceFinancials (d\<lparr>sales_fees := a\<rparr>) = calculateDeviceFinancials (d\<lparr>sales_fees := Val 0\<rparr>)
   \<and> calculateDeviceFinancials (d\<lparr>salePrice := a\<rparr>) = calculateDeviceFinancials (d\<lparr>salePrice := Val 0\<rparr>)
   \<and> calculateDeviceFinancials (d\<lparr>sale_price := a\<rparr>) = calculateDeviceFinancials (d\<lparr>sale_price := Val 0\<rparr>))
   \<and> (absent (isDiffTax d) \<and> absent (is_diff_tax d) \<longrightarrow>
        isDiffTax_of d \<and> calculateDeviceFinancials d = calculateDeviceFinancials (d\<lparr>isDiffTax := Val True\<rparr>))"
proof -
  have flag: "isDiffTax_of d \<and> calculateDeviceFinancials d = calculateDeviceFinancials (d\<lparr>isDiffTax := Val True\<rparr>)"
    if "absent (isDiffTax d)" "absent (is_diff_tax d)"
    using that
    by (cases "isDiffTax d"; cases "is_diff_tax d")
       (simp_all add: calculateDeviceFinancials_def resolve_defs)
  have money: "calculateDeviceFinancials (d\<lparr>purchasePrice := a\<rparr>) = calculateDeviceFinancials (d\<lparr>purchasePrice := Val 0\<rparr>)
   \<and> calculateDeviceFinancials (d\<lparr>purchase_price := a\<rparr>) = calculateDeviceFinancials (d\<lparr>purchase_price := Val 0\<rparr>)
   \<and> calculateDeviceFinancials (d\<lparr>repairCost := a\<rparr>) = calculateDeviceFinancials (d\<lparr>repairCost := Val 0\<rparr>)
   \<and> calculateDeviceFinancials (d\<lparr>repair_cost := a\<rparr>) = calculateDeviceFinancials (d\<lparr>repair_cost := Val 0\<rparr>)
   \<and> calculateDeviceFinancials (d\<lparr>shippingBuy := a\<rparr>) = calculateDeviceFinancials (d\<lparr>shippingBuy := Val 0\<rparr>)
   \<and> calculateDeviceFinancials (d\<lparr>shipping_buy := a\<rparr>) = calculateDeviceFinancials (d\<lparr>shipping_buy := Val 0\<rparr>)
   \<and> calculateDeviceFinancials (d\<lparr>shippingSell := a\<rparr>) = calculateDeviceFinancials (d\<lparr>shippingSell := Val 0\<rparr>)
   \<and> calculateDeviceFinancials (d\<lparr>shipping_sell := a\<rparr>) = calculateDeviceFinancials (d\<lparr>shipping_sell := Val 0\<rparr>)
   \<and> calculateDeviceFinancials (d\<lparr>salesFees := a\<rparr>) = calculateDeviceFinancials (d\<lparr>salesFees := Val 0\<rparr>)
   \<and> calculateDeviceFinancials (d\<lparr>sales_fees := a\<rparr>) = calculateDeviceFinancials (d\<lparr>sales_fees := Val 0\<rparr>)
   \<and> calculateDeviceFinancials (d\<lparr>salePrice := a\<rparr>) = calculateDeviceFinancials (d\<lparr>salePrice := Val 0\<rparr>)
   \<and> calculateDeviceFinancials (d\<lparr>sale_price := a\<rparr>) = calculateDeviceFinancials (d\<lparr>sale_price := Val 0\<rparr>)"
    if a: "absent a"
    by (simp add: calculateDeviceFinancials_def resolve_defs
          lor_absent_left [OF a] lor_num_lor_absent_right [OF a])
  show ?thesis using flag money by blast
qed

theorem absent_fields_as_zero_witness:
  "absent (Null :: rat js)
   \<and> calculateDeviceFinancials (soldRow\<lparr>repair_cost := Null\<rparr>)
       = calculateDeviceFinancials (soldRow\<lparr>repair_cost := Val 0\<rparr>)
   \<and> absent (isDiffTax (soldRow\<lparr>is_diff_tax := Undefined\<rparr>))
   \<and> absent (is_diff_tax (soldRow\<lparr>is_diff_tax := Undefined\<rparr>))
   \<and> vat (calculateDeviceFinancials (soldRow\<lparr>is_diff_tax := Undefined\<rparr>)) = 190 * (19 / 119)"
proof -
  let ?r = "soldRow\<lparr>is_diff_tax := Undefined\<rparr>"
  have n: "absent (Null :: rat js)" by simp
  have a: "absent (isDiffTax ?r)" "absent (is_diff_tax ?r)"
    by (simp_all add: soldRow_def)
  have "calculateDeviceFinancials ?r = calculateDeviceFinancials (?r\<lparr>isDiffTax := Val True\<rparr>)"
    using absent_fields_as_zero [of Null ?r] a by blast
  moreover have "vat (calculateDeviceFinancials (?r\<lparr>isDiffTax := Val True\<rparr>)) = 190 * (19 / 119)"
    by (simp add: calculateDeviceFinancials_def soldRow_def resolve_defs lor_def Let_def)
  moreover have "calculateDeviceFinancials (soldRow\<lparr>repair_cost := Null\<rparr>)
       = calculateDeviceFinancials (soldRow\<lparr>repair_cost := Val 0\<rparr>)"
    using absent_fields_as_zero [of Null soldRow] n by blast
  ultimately show ?thesis using n a by simp
qed


text \<open>
  C10. The monetary fields are resolved with \<^verbatim>\<open>||\<close>: a camelCase field holding 0 gives way
  to a snake\_case field holding a number other than 0 (with \<open>purchasePrice = 0\<close> and
  \<open>purchase_price = 100\<close> the calculator computes with 100), and a field holding 0 gives
  the result that the absent field gives. The taxation flag is resolved with \<^verbatim>\<open>??\<close>: an
  explicit \<open>isDiffTax = false\<close> is the resolved flag whatever \<open>is_diff_tax\<close> holds, and
  the result then differs from that of the absent flag.
\<close>

theorem falsy_or_versus_nullish:
  "(p \<noteq> 0 \<longrightarrow>
       purchasePrice_of (d\<lparr>purchasePrice := Val 0, purchase_price := Val p\<rparr>) = p
     \<and> repairCost_of (d\<lparr>repairCost := Val 0, repair_cost := Val p\<rparr>) = p
     \<and> shippingBuy_of (d\<lparr>shippingBuy := Val 0, shipping_buy := Val p\<rparr>) = p
     \<and> shippingSell_of (d\<lparr>shippingSell := Val 0, shipping_sell := Val p\<rparr>) = p
     \<and> salesFees_of (d\<lparr>salesFees := Val 0, sales_fees := Val p\<rparr>) = p
     \<and> salePrice_of (d\<lparr>salePrice := Val 0, sale_price := Val p\<rparr>) = p)
   \<and> purchasePrice_of (d\<lparr>purchasePrice := Val 0, purchase_price := Val 100\<rparr>) = 100
   \<and> calculateDeviceFinancials (d\<lparr>purchasePrice := Val 0\<rparr>) = calculateDeviceFinancials (d\<lparr>purchasePrice := Undefined\<rparr>)
   \<and> calculateDeviceFinancials (d\<lparr>repairCost := Val 0\<rparr>) = calculateDeviceFinancials (d\<lparr>repairCost := Undefined\<rparr>)
   \<and> calculateDeviceFinancials (d\<lparr>shippingBuy := Val 0\<rparr>) = calculateDeviceFinancials (d\<lparr>shippingBuy := Undefined\<rparr>)
   \<and> calculateDeviceFinancials (d\<lparr>shippingSell := Val 0\<rparr>) = calculateDeviceFinancials (d\<lparr>shippingSell := Undefined\<rparr>)
   \<and> calculateDeviceFinancials (d\<lparr>salesFees := Val 0\<rparr>) = calculateDeviceFinancials (d\<lparr>salesFees := Undefined\<rparr>)
   \<and> calculateDeviceFinancials (d\<lparr>salePrice := Val 0\<rparr>) = calculateDeviceFinancials (d\<lparr>salePrice := Undefined\<rparr>)
   \<and> \<not> isDiffTax_of (d\<lparr>isDiffTax := Val False\<rparr>)
   \<and> isDiffTax_of (d\<lparr>isDiffTax := Undefined\<rparr>) = nullish_lit (is_diff_tax d) True
   \<and> calculateDeviceFinancials (soldRow\<lparr>isDiffTax := Val False\<rparr>)
       \<noteq> calculateDeviceFinancials (soldRow\<lparr>isDiffTax := Undefined\<rparr>)"
proof -
  have differ: "calculateDeviceFinancials (soldRow\<lparr>isDiffTax := Val False\<rparr>)
       \<noteq> calculateDeviceFinancials (soldRow\<lparr>isDiffTax := Undefined\<rparr>)"
    by (simp add: calculateDeviceFinancials_def soldRow_def resolve_defs lor_def Let_def)
  have flag: "isDiffTax_of (d\<lparr>isDiffTax := Undefined\<rparr>) = nullish_lit (is_diff_tax d) True"
    by (simp add: resolve_defs)
  have zero: "lor (Val 0) b = lor Undefined b" for b
    by (simp add: lor_def)
  show ?thesis
    using differ flag
    by (simp add: calculateDeviceFinancials_def resolve_defs zero) (simp add: lor_def)
qed

theorem falsy_or_versus_nullish_witness:
  "(100 :: rat) \<noteq> 0
   \<and> totalCosts (calculateDeviceFinancials (soldRow\<lparr>purchasePrice := Val 0, purchase_price := Val 100\<rparr>)) = 140
   \<and> vat (calculateDeviceFinancials (soldRow\<lparr>isDiffTax := Val False\<rparr>)) = 190
   \<and> vat (calculateDeviceFinancials (soldRow\<lparr>isDiffTax := Undefined\<rparr>)) = 190 * (19 / 119)"
proof -
  have "purchasePrice_of (soldRow\<lparr>purchasePrice := Val 0, purchase_price := Val 100\<rparr>) = 100"
    using falsy_or_versus_nullish [of 100 soldRow] by simp
  then have "totalCosts (calculateDeviceFinancials (soldRow\<lparr>purchasePrice := Val 0, purchase_price := Val 100\<rparr>)) = 140"
    by (simp add: calculateDeviceFinancials_def Let_def)
       (simp add: soldRow_def resolve_defs lor_def)
  moreover have "vat (calculateDeviceFinancials (soldRow\<lparr>isDiffTax := Val False\<rparr>)) = 190"
    by (simp add: calculateDeviceFinancials_def soldRow_def resolve_defs lor_def Let_def)
  moreover have "vat (calculateDeviceFinancials (soldRow\<lparr>isDiffTax := Undefined\<rparr>)) = 190 * (19 / 119)"
    by (simp add: calculateDeviceFinancials_def soldRow_def resolve_defs lor_def Let_def)
  ultimately show ?thesis by simp
qed


section \<open>Properties of the document layout engine\<close>

subsection \<open>The canvas and the writer, step by step\<close>

lemmas layout_defs = MARGIN_LEFT_def MARGIN_RIGHT_def LABEL_X_def VALUE_X_def PAGE_BOTTOM_def
  FOOTER_Y_def LINE_HEIGHT_def

lemma setters_pages [simp]:
  "finished (setFontSize n d) = finished d" "current (setFontSize n d) = current d"
  "finished (setFont a b d) = finished d" "current (setFont a b d) = current d"
  "finished (setTextColor c d) = finished d" "current (setTextColor c d) = current d"
  "finished (setDrawColor c d) = finished d" "current (setDrawColor c d) = current d"
  by (simp_all add: setFontSize_def setFont_def setTextColor_def setDrawColor_def)

lemma setters_state [simp]:
  "fontSize (setFontSize n d) = n" "textColor (setFontSize n d) = textColor d"
  "fontName (setFontSize n d) = fontName d" "fontStyle (setFontSize n d) = fontStyle d"
  "fontSize (setFont a b d) = fontSize d" "textColor (setFont a b d) = textColor d"
  "fontName (setFont a b d) = a" "fontStyle (setFont a b d) = b"
  "fontSize (setTextColor c d) = fontSize d" "textColor (setTextColor c d) = c"
  "fontName (setTextColor c d) = fontName d" "fontStyle (setTextColor c d) = fontStyle d"
  "fontSize (setDrawColor c d) = fontSize d" "textColor (setDrawColor c d) = textColor d"
  "fontName (setDrawColor c d) = fontName d" "fontStyle (setDrawColor c d) = fontStyle d"
  by (simp_all add: setFontSize_def setFont_def setTextColor_def setDrawColor_def)

lemma draw_pages [simp]:
  "finished (draw it d) = finished d" "current (draw it d) = current d @ [it]"
  "finished (doc_text s x y d) = finished d"
  "current (doc_text s x y d) = current d @ [text_item s x y d]"
  "finished (line x1 y1 x2 y2 d) = finished d"
  "current (line x1 y1 x2 y2 d) = current d @ [Line x1 y1 x2 y2 (drawColor d)]"
  "finished (addPage d) = finished d @ [current d]" "current (addPage d) = []"
  by (simp_all add: draw_def doc_text_def line_def addPage_def)

lemma draw_state [simp]:
  "fontSize (doc_text s x y d) = fontSize d" "textColor (doc_text s x y d) = textColor d"
  "fontName (doc_text s x y d) = fontName d" "fontStyle (doc_text s x y d) = fontStyle d"
  "fontSize (line x1 y1 x2 y2 d) = fontSize d" "textColor (line x1 y1 x2 y2 d) = textColor d"
  "fontName (line x1 y1 x2 y2 d) = fontName d" "fontStyle (line x1 y1 x2 y2 d) = fontStyle d"
  "fontSize (addPage d) = fontSize d" "textColor (addPage d) = textColor d"
  "fontName (addPage d) = fontName d" "fontStyle (addPage d) = fontStyle d"
  by (simp_all add: draw_def doc_text_def line_def addPage_def)

lemma on_doc_simps [simp]:
  "doc (on_doc f w) = f (doc w)" "ypos (on_doc f w) = ypos w"
  "footerText (on_doc f w) = footerText w" "pageWidth (on_doc f w) = pageWidth w"
  "maxValueWidth (on_doc f w) = maxValueWidth w"
  by (simp_all add: on_doc_def)

lemma advance_simps [simp]:
  "doc (advance a w) = doc w" "ypos (advance a w) = ypos w + a"
  "footerText (advance a w) = footerText w" "pageWidth (advance a w) = pageWidth w"
  "maxValueWidth (advance a w) = maxValueWidth w"
  by (simp_all add: advance_def)

text \<open>What \<^verbatim>\<open>addFooter\<close> draws.\<close>

lemma addFooter_simps [simp]:
  "ypos (addFooter w) = ypos w" "footerText (addFooter w) = footerText w"
  "pageWidth (addFooter w) = pageWidth w" "maxValueWidth (addFooter w) = maxValueWidth w"
  "finished (doc (addFooter w)) = finished (doc w)"
  by (simp_all add: addFooter_def Let_def)

lemma addFooter_current:
  "current (doc (addFooter w)) =
     current (doc w) @
       (if footerText w = [] then []
        else [Text (footerText w) LABEL_X FOOTER_Y 8 (fontName (doc w)) (fontStyle (doc w)) (150, 150, 150)])"
  by (simp add: addFooter_def Let_def text_item_def)

lemma ensureSpace_simps [simp]:
  "footerText (ensureSpace n w) = footerText w" "pageWidth (ensureSpace n w) = pageWidth w"
  "maxValueWidth (ensureSpace n w) = maxValueWidth w"
  by (simp_all add: ensureSpace_def Let_def)

lemma ensureSpace_no_break:
  "\<not> ypos w + n > PAGE_BOTTOM \<Longrightarrow> ensureSpace n w = w"
  by (simp add: ensureSpace_def)

lemma ensureSpace_break:
  assumes "ypos w + n > PAGE_BOTTOM"
  shows "ypos (ensureSpace n w) = 25"
    and "current (doc (ensureSpace n w)) = []"
    and "finished (doc (ensureSpace n w)) = finished (doc w) @ [current (doc (addFooter w))]"
  using assms by (simp_all add: ensureSpace_def Let_def)

subsection \<open>The footer on every page\<close>

lemma footer_count_simps [simp]:
  "footer_count ft [] = 0"
  "footer_count ft (xs @ ys) = footer_count ft xs + footer_count ft ys"
  "footer_count ft (x # xs) = (if is_footer ft x then 1 else 0) + footer_count ft xs"
  by (simp_all add: footer_count_def)

lemma pending_on_doc_setters [simp]:
  "footers_pending ft (on_doc (setFontSize n) w) = footers_pending ft w"
  "footers_pending ft (on_doc (setFont a b) w) = footers_pending ft w"
  "footers_pending ft (on_doc (setTextColor c) w) = footers_pending ft w"
  "footers_pending ft (on_doc (setDrawColor c) w) = footers_pending ft w"
  "footers_pending ft (advance amt w) = footers_pending ft w"
  by (simp_all add: footers_pending_def)

lemma pending_line [simp]:
  "footers_pending ft (on_doc (line x1 y1 x2 y2) w) = footers_pending ft w"
  by (simp add: footers_pending_def)

lemma pending_text_value [simp]:
  "footers_pending ft (on_doc (doc_text s VALUE_X y) w) = footers_pending ft w"
  by (simp add: footers_pending_def text_item_def layout_defs)

lemma pending_text_color:
  "textColor (doc w) \<noteq> (150, 150, 150) \<Longrightarrow>
   footers_pending ft (on_doc (doc_text s x y) w) = footers_pending ft w"
  by (simp add: footers_pending_def text_item_def)

lemma pending_ensureSpace:
  assumes "ft \<noteq> []" "footers_pending ft w"
  shows "footers_pending ft (ensureSpace n w)"
proof (cases "ypos w + n > PAGE_BOTTOM")
  case False
  then show ?thesis using assms by (simp add: ensureSpace_no_break)
next
  case True
  show ?thesis
    using assms ensureSpace_break [OF True]
    by (simp add: footers_pending_def addFooter_current)
qed

lemma pending_labelValue_loop:
  "ft \<noteq> [] \<Longrightarrow> footers_pending ft w \<Longrightarrow> footers_pending ft (labelValue_loop lineH i ls w)"
  by (induction ls arbitrary: w i) (simp_all add: Let_def pending_ensureSpace)

lemma pending_labelBlock_loop:
  "ft \<noteq> [] \<Longrightarrow> footers_pending ft w \<Longrightarrow> footers_pending ft (labelBlock_loop lineH vs w)"
  by (induction vs arbitrary: w) (simp_all add: Let_def pending_ensureSpace)

lemma ensureSpace_textColor_label:
  "textColor (doc (on_doc (setTextColor labelColor) w)) \<noteq> (150, 150, 150)"
  by (simp add: labelColor_def)

lemma pending_labelValue:
  assumes "ft \<noteq> []" "footers_pending ft w"
  shows "footers_pending ft (labelValue split label val opts w)"
  unfolding labelValue_def Let_def
  using assms
  by (simp add: pending_labelValue_loop pending_ensureSpace pending_text_color labelColor_def)

lemma pending_labelBlock:
  assumes "ft \<noteq> []" "footers_pending ft w"
  shows "footers_pending ft (labelBlock label vals w)"
  unfolding labelBlock_def Let_def
  using assms
  by (simp add: pending_labelBlock_loop pending_ensureSpace pending_text_color labelColor_def)

lemma pending_separator:
  assumes "ft \<noteq> []" "footers_pending ft w"
  shows "footers_pending ft (separator w)"
  unfolding separator_def Let_def
  using assms by (simp add: pending_ensureSpace)

lemma pending_run_ops:
  "ft \<noteq> [] \<Longrightarrow> footers_pending ft w \<Longrightarrow> footers_pending ft (run_ops split ops w)"
proof (induction ops arbitrary: w)
  case Nil
  then show ?case by simp
next
  case (Cons op ops)
  have "footers_pending ft (exec_op split op w)"
    using Cons.prems
    by (cases op) (simp_all add: pending_ensureSpace pending_labelValue pending_labelBlock pending_separator)
  then show ?case using Cons by simp
qed

lemma pending_initial:
  "footers_pending ft (setFooter ft (new_PdfWriter (new_jsPDF pw)))"
  by (simp add: footers_pending_def setFooter_def new_PdfWriter_def new_jsPDF_def)

lemma pending_final:
  assumes "ft \<noteq> []" "footers_pending ft w"
  shows "list_all (\<lambda>p. footer_count ft p = 1) (allPages (doc (addFooter w)))"
  using assms by (simp add: footers_pending_def allPages_def addFooter_current)


lemma pending_drawLogo:
  "footers_pending ft w \<Longrightarrow> footers_pending ft (drawLogo env cp w)"
  by (auto simp add: drawLogo_def addImage_def footers_pending_def split: option.split)

lemma pending_intro:
  "ft \<noteq> [] \<Longrightarrow> footers_pending ft w \<Longrightarrow> footers_pending ft (ensureSpace n w) = True"
  "ft \<noteq> [] \<Longrightarrow> footers_pending ft w \<Longrightarrow> footers_pending ft (separator w) = True"
  "ft \<noteq> [] \<Longrightarrow> footers_pending ft w \<Longrightarrow> footers_pending ft (labelValue split label val opts w) = True"
  "ft \<noteq> [] \<Longrightarrow> footers_pending ft w \<Longrightarrow> footers_pending ft (labelBlock label vals w) = True"
  "footers_pending ft w \<Longrightarrow> footers_pending ft (drawLogo env cp w) = True"
  by (simp_all add: pending_ensureSpace pending_separator pending_labelValue pending_labelBlock
        pending_drawLogo)

lemma generateEigenbeleg_footers:
  assumes "footer_of cp \<noteq> []"
  shows "list_all (\<lambda>p. footer_count (footer_of cp) p = 1)
           (allPages (generateEigenbeleg env device cp options))"
proof -
  have init: "footers_pending (footer_of cp) (setFooter (footer_of cp) (new_PdfWriter (new_jsPDF (page_width env))))"
    by (rule pending_initial)
  show ?thesis
    unfolding generateEigenbeleg_def Let_def
    apply (rule pending_final [OF assms])
    using assms init
    apply (simp add: pending_intro pending_text_color footer_of_def split: option.split)
    done
qed


subsection \<open>Where a label and its value lines land\<close>

lemma value_texts_append [simp]:
  "value_texts (xs @ ys) = value_texts xs @ value_texts ys"
  by (induction xs rule: value_texts.induct) simp_all

lemma value_texts_text_item [simp]:
  "value_texts [text_item s VALUE_X y d] = [s]"
  by (simp add: text_item_def)

lemma value_texts_footer:
  "value_texts (current (doc (addFooter w))) = value_texts (current (doc w))"
  by (simp add: addFooter_current layout_defs)

text \<open>What \<^verbatim>\<open>ensureSpace\<close> does to the pages, in one statement for both outcomes.\<close>

lemma ensureSpace_pages:
  "\<exists>f. value_texts f = [] \<and> list_all (is_footer (footerText w)) f \<and>
     ((ensureSpace n w = w \<and> \<not> ypos w + n > PAGE_BOTTOM) \<or>
      (ypos w + n > PAGE_BOTTOM \<and> ypos (ensureSpace n w) = 25 \<and>
       finished (doc (ensureSpace n w)) = finished (doc w) @ [current (doc w) @ f] \<and>
       current (doc (ensureSpace n w)) = []))"
proof (cases "ypos w + n > PAGE_BOTTOM")
  case False
  then show ?thesis
    by (intro exI [of _ "[]"]) (simp add: ensureSpace_no_break)
next
  case True
  show ?thesis
    using True ensureSpace_break [OF True]
    by (intro exI [of _ "if footerText w = [] then []
          else [Text (footerText w) LABEL_X FOOTER_Y 8 (fontName (doc w)) (fontStyle (doc w)) (150, 150, 150)]"])
       (simp add: addFooter_current layout_defs)
qed

lemma labelValue_loop_pages:
  "\<exists>tail new. allPages (doc (labelValue_loop lineH (Suc k) ls w))
       = finished (doc w) @ [current (doc w) @ tail] @ new
     \<and> value_texts (tail @ concat new) = ls"
proof (induction ls arbitrary: w k)
  case Nil
  show ?case by (intro exI [of _ "[]"]) (simp add: allPages_def)
next
  case (Cons l ls)
  define w1 where "w1 = ensureSpace lineH w"
  define w2 where "w2 = on_doc (doc_text l VALUE_X (ypos w1)) w1"
  define w3 where "w3 = (if ls \<noteq> [] then advance lineH w2 else w2)"
  have step: "labelValue_loop lineH (Suc k) (l # ls) w = labelValue_loop lineH (Suc (Suc k)) ls w3"
    by (simp add: w1_def w2_def w3_def Let_def)
  obtain t' n' where ih:
    "allPages (doc (labelValue_loop lineH (Suc (Suc k)) ls w3))
       = finished (doc w3) @ [current (doc w3) @ t'] @ n'"
    "value_texts (t' @ concat n') = ls"
    using Cons.IH [of "Suc k" w3] by blast
  have w3: "finished (doc w3) = finished (doc w1)"
    "current (doc w3) = current (doc w1) @ [text_item l VALUE_X (ypos w1) (doc w1)]"
    by (simp_all add: w3_def w2_def)
  obtain f where f: "value_texts f = []"
    and cases: "(w1 = w \<and> \<not> ypos w + lineH > PAGE_BOTTOM) \<or>
      (ypos w + lineH > PAGE_BOTTOM \<and> ypos w1 = 25 \<and>
       finished (doc w1) = finished (doc w) @ [current (doc w) @ f] \<and> current (doc w1) = [])"
    using ensureSpace_pages [of w lineH] unfolding w1_def by blast
  from cases show ?case
  proof
    assume "w1 = w \<and> \<not> ypos w + lineH > PAGE_BOTTOM"
    then show ?thesis
      unfolding step using ih w3
      by (intro exI [of _ "text_item l VALUE_X (ypos w1) (doc w1) # t'"] exI [of _ n'])
         (simp add: text_item_def)
  next
    assume "ypos w + lineH > PAGE_BOTTOM \<and> ypos w1 = 25 \<and>
       finished (doc w1) = finished (doc w) @ [current (doc w) @ f] \<and> current (doc w1) = []"
    then show ?thesis
      unfolding step using ih w3 f
      by (intro exI [of _ f] exI [of _ "(text_item l VALUE_X (ypos w1) (doc w1) # t') # n'"])
         (simp add: text_item_def)
  qed
qed

lemma labelValue_pages:
  assumes lines: "split (lor_num (opt_chain opts valueFontSize) 10) ''helvetica''
             (if truthy_bool (opt_chain opts valueBold) then ''bold'' else ''normal'')
             val (maxValueWidth w) = l # ls"
  shows "\<exists>P pre a b tail new y.
      allPages (doc (labelValue split label val opts w)) = P @ [pre @ a # b # tail] @ new
    \<and> is_text_at label LABEL_X y a \<and> is_text_at l VALUE_X y b
    \<and> ((P = finished (doc w) \<and> pre = current (doc w)) \<or>
        (\<exists>f. P = finished (doc w) @ [current (doc w) @ f]
             \<and> list_all (is_footer (footerText w)) f \<and> pre = []))
    \<and> value_texts (tail @ concat new) = ls"
proof -
  define fontSz where "fontSz = lor_num (opt_chain opts valueFontSize) 10"
  define labelFontSz where "labelFontSz = lor_num (opt_chain opts labelFontSize) 10"
  define style where "style = (if truthy_bool (opt_chain opts valueBold) then ''bold'' else ''normal'')"
  define lineH where "lineH = fontSz * (4 / 10)"
  define w0 where "w0 = on_doc (setFont ''helvetica'' style) (on_doc (setFontSize fontSz) w)"
  define w1 where "w1 = ensureSpace (min (of_nat (length (l # ls)) * lineH) (lineH + 2)) w0"
  define a where "a = text_item label LABEL_X (ypos w1)
     (setTextColor labelColor (setFont ''helvetica'' ''normal'' (setFontSize labelFontSz (doc w1))))"
  define dv where "dv = setTextColor valueColor (setFont ''helvetica'' style (setFontSize fontSz
     (doc_text label LABEL_X (ypos w1) (setTextColor labelColor (setFont ''helvetica'' ''normal'' (setFontSize labelFontSz (doc w1)))))))"
  define b where "b = text_item l VALUE_X (ypos w1) dv"
  define w2 where "w2 = w1\<lparr>doc := doc_text l VALUE_X (ypos w1) dv\<rparr>"
  define w3 where "w3 = (if ls \<noteq> [] then advance lineH w2 else w2)"
  have lines': "splitTextToSize split val (maxValueWidth w0) (doc w0) = l # ls"
    using lines by (simp add: splitTextToSize_def w0_def fontSz_def style_def)
  have unfold: "labelValue split label val opts w
      = advance (lineH + 2) (labelValue_loop lineH (Suc 0) ls w3)"
    unfolding labelValue_def Let_def
    using lines
    by (simp add: w0_def w1_def w2_def w3_def dv_def fontSz_def style_def
          labelFontSz_def lineH_def on_doc_def splitTextToSize_def)
  obtain t n where loop:
    "allPages (doc (labelValue_loop lineH (Suc 0) ls w3)) = finished (doc w3) @ [current (doc w3) @ t] @ n"
    "value_texts (t @ concat n) = ls"
    using labelValue_loop_pages [of lineH 0 ls w3] by blast
  have w3: "finished (doc w3) = finished (doc w1)" "current (doc w3) = current (doc w1) @ [a, b]"
    by (simp_all add: w3_def w2_def dv_def a_def b_def)
  have pages: "allPages (doc (labelValue split label val opts w))
      = finished (doc w1) @ [current (doc w1) @ a # b # t] @ n"
    unfolding unfold using loop w3 by simp
  have ab: "is_text_at label LABEL_X (ypos w1) a" "is_text_at l VALUE_X (ypos w1) b"
    by (simp_all add: a_def b_def text_item_def)
  obtain f where f: "list_all (is_footer (footerText w0)) f"
    and cases: "(w1 = w0 \<and> \<not> ypos w0 + min (of_nat (length (l # ls)) * lineH) (lineH + 2) > PAGE_BOTTOM) \<or>
      (ypos w0 + min (of_nat (length (l # ls)) * lineH) (lineH + 2) > PAGE_BOTTOM \<and> ypos w1 = 25 \<and>
       finished (doc w1) = finished (doc w0) @ [current (doc w0) @ f] \<and> current (doc w1) = [])"
    using ensureSpace_pages [of w0] unfolding w1_def by blast
  have w0: "finished (doc w0) = finished (doc w)" "current (doc w0) = current (doc w)"
    "footerText w0 = footerText w"
    by (simp_all add: w0_def)
  from cases have "(finished (doc w1) = finished (doc w) \<and> current (doc w1) = current (doc w)) \<or>
        (\<exists>f. finished (doc w1) = finished (doc w) @ [current (doc w) @ f]
             \<and> list_all (is_footer (footerText w)) f \<and> current (doc w1) = [])"
    using f w0 by auto
  then show ?thesis
    using pages ab loop(2) by blast
qed


lemma labelBlock_loop_pages:
  "\<exists>tail new. allPages (doc (labelBlock_loop lineH vs w))
       = finished (doc w) @ [current (doc w) @ tail] @ new
     \<and> value_texts (tail @ concat new) = vs"
proof (induction vs arbitrary: w)
  case Nil
  show ?case by (intro exI [of _ "[]"]) (simp add: allPages_def)
next
  case (Cons v vs)
  define w1 where "w1 = ensureSpace lineH w"
  define w3 where "w3 = advance lineH (on_doc (doc_text v VALUE_X (ypos w1)) w1)"
  have step: "labelBlock_loop lineH (v # vs) w = labelBlock_loop lineH vs w3"
    by (simp add: w1_def w3_def Let_def)
  obtain t' n' where ih:
    "allPages (doc (labelBlock_loop lineH vs w3)) = finished (doc w3) @ [current (doc w3) @ t'] @ n'"
    "value_texts (t' @ concat n') = vs"
    using Cons.IH [of w3] by blast
  have w3: "finished (doc w3) = finished (doc w1)"
    "current (doc w3) = current (doc w1) @ [text_item v VALUE_X (ypos w1) (doc w1)]"
    by (simp_all add: w3_def)
  obtain f where f: "value_texts f = []"
    and cases: "(w1 = w \<and> \<not> ypos w + lineH > PAGE_BOTTOM) \<or>
      (ypos w + lineH > PAGE_BOTTOM \<and> ypos w1 = 25 \<and>
       finished (doc w1) = finished (doc w) @ [current (doc w) @ f] \<and> current (doc w1) = [])"
    using ensureSpace_pages [of w lineH] unfolding w1_def by blast
  from cases show ?case
  proof
    assume "w1 = w \<and> \<not> ypos w + lineH > PAGE_BOTTOM"
    then show ?thesis
      unfolding step using ih w3
      by (intro exI [of _ "text_item v VALUE_X (ypos w1) (doc w1) # t'"] exI [of _ n'])
         (simp add: text_item_def)
  next
    assume "ypos w + lineH > PAGE_BOTTOM \<and> ypos w1 = 25 \<and>
       finished (doc w1) = finished (doc w) @ [current (doc w) @ f] \<and> current (doc w1) = []"
    then show ?thesis
      unfolding step using ih w3 f
      by (intro exI [of _ f] exI [of _ "(text_item v VALUE_X (ypos w1) (doc w1) # t') # n'"])
         (simp add: text_item_def)
  qed
qed

text \<open>After a space check there is room for any smaller need.\<close>

lemma ensureSpace_room:
  "m \<le> n \<Longrightarrow> 25 + n \<le> PAGE_BOTTOM \<Longrightarrow> \<not> ypos (ensureSpace n w) + m > PAGE_BOTTOM"
  by (cases "ypos w + n > PAGE_BOTTOM") (simp_all add: ensureSpace_break ensureSpace_no_break)

lemma labelBlock_pages:
  "\<exists>P pre a b tail new y.
      allPages (doc (labelBlock label (v # vs) w)) = P @ [pre @ a # b # tail] @ new
    \<and> is_text_at label LABEL_X y a \<and> is_text_at v VALUE_X y b
    \<and> ((P = finished (doc w) \<and> pre = current (doc w)) \<or>
        (\<exists>f. P = finished (doc w) @ [current (doc w) @ f]
             \<and> list_all (is_footer (footerText w)) f \<and> pre = []))
    \<and> value_texts (tail @ concat new) = vs"
proof -
  define w1 where "w1 = ensureSpace (LINE_HEIGHT + 2) w"
  define dl where "dl = setTextColor labelColor (setFont ''helvetica'' ''normal'' (setFontSize 10 (doc w1)))"
  define a where "a = text_item label LABEL_X (ypos w1) dl"
  define w2 where "w2 = on_doc (setTextColor valueColor) (w1\<lparr>doc := doc_text label LABEL_X (ypos w1) dl\<rparr>)"
  define b where "b = text_item v VALUE_X (ypos w1) (doc w2)"
  define w3 where "w3 = advance LINE_HEIGHT (on_doc (doc_text v VALUE_X (ypos w2)) w2)"
  have room: "\<not> ypos w2 + LINE_HEIGHT > PAGE_BOTTOM"
    using ensureSpace_room [of LINE_HEIGHT "LINE_HEIGHT + 2" w]
    by (simp add: w2_def w1_def layout_defs)
  have unfold: "labelBlock label (v # vs) w = advance 3 (labelBlock_loop LINE_HEIGHT vs w3)"
    unfolding labelBlock_def Let_def
    using ensureSpace_no_break [OF room]
    by (simp add: w1_def w2_def w3_def dl_def on_doc_def Let_def)
  obtain t n where loop:
    "allPages (doc (labelBlock_loop LINE_HEIGHT vs w3)) = finished (doc w3) @ [current (doc w3) @ t] @ n"
    "value_texts (t @ concat n) = vs"
    using labelBlock_loop_pages [of LINE_HEIGHT vs w3] by blast
  have w3: "finished (doc w3) = finished (doc w1)" "current (doc w3) = current (doc w1) @ [a, b]"
    by (simp_all add: w3_def w2_def dl_def a_def b_def)
  have pages: "allPages (doc (labelBlock label (v # vs) w))
      = finished (doc w1) @ [current (doc w1) @ a # b # t] @ n"
    unfolding unfold using loop w3 by simp
  have ab: "is_text_at label LABEL_X (ypos w1) a" "is_text_at v VALUE_X (ypos w1) b"
    by (simp_all add: a_def b_def text_item_def)
  obtain f where f: "list_all (is_footer (footerText w)) f"
    and cases: "(w1 = w \<and> \<not> ypos w + (LINE_HEIGHT + 2) > PAGE_BOTTOM) \<or>
      (ypos w + (LINE_HEIGHT + 2) > PAGE_BOTTOM \<and> ypos w1 = 25 \<and>
       finished (doc w1) = finished (doc w) @ [current (doc w) @ f] \<and> current (doc w1) = [])"
    using ensureSpace_pages [of w] unfolding w1_def by blast
  from cases have "(finished (doc w1) = finished (doc w) \<and> current (doc w1) = current (doc w)) \<or>
        (\<exists>f. finished (doc w1) = finished (doc w) @ [current (doc w) @ f]
             \<and> list_all (is_footer (footerText w)) f \<and> current (doc w1) = [])"
    using f by auto
  then show ?thesis
    using pages ab loop(2) by blast
qed


subsection \<open>What is drawn stays drawn\<close>

lemma continues_refl: "continues d d"
  unfolding continues_def by (intro exI [of _ "[]"]) (simp add: allPages_def)

lemma continues_trans:
  assumes "continues d d'" "continues d' d''"
  shows "continues d d''"
proof -
  obtain t n where 1: "allPages d' = finished d @ [current d @ t] @ n"
    using assms(1) unfolding continues_def by blast
  obtain t' n' where 2: "allPages d'' = finished d' @ [current d' @ t'] @ n'"
    using assms(2) unfolding continues_def by blast
  show ?thesis
  proof (cases n rule: rev_cases)
    case Nil
    then have "finished d' = finished d" "current d' = current d @ t"
      using 1 by (simp_all add: allPages_def)
    then show ?thesis
      unfolding continues_def using 2
      by (intro exI [of _ "t @ t'"] exI [of _ n']) simp
  next
    case (snoc n0 c)
    then have "finished d' = finished d @ [current d @ t] @ n0" "current d' = c"
      using 1 by (simp_all add: allPages_def)
    then show ?thesis
      unfolding continues_def using 2
      by (intro exI [of _ t] exI [of _ "n0 @ [c @ t'] @ n'"]) simp
  qed
qed

lemma continues_same_pages:
  "finished d' = finished d \<Longrightarrow> current d' = current d \<Longrightarrow> continues d d'"
  unfolding continues_def by (intro exI [of _ "[]"]) (simp add: allPages_def)

lemma continues_draw: "continues d (draw it d)"
  unfolding continues_def by (intro exI [of _ "[it]"] exI [of _ "[]"]) (simp add: allPages_def)

lemma continues_addFooter: "continues (doc w) (doc (addFooter w))"
  unfolding continues_def
  by (intro exI [of _ "if footerText w = [] then []
        else [Text (footerText w) LABEL_X FOOTER_Y 8 (fontName (doc w)) (fontStyle (doc w)) (150, 150, 150)]"]
        exI [of _ "[]"])
     (simp add: allPages_def addFooter_current)

lemma continues_ensureSpace: "continues (doc w) (doc (ensureSpace n w))"
proof -
  obtain f where "(ensureSpace n w = w \<and> \<not> ypos w + n > PAGE_BOTTOM) \<or>
      (ypos w + n > PAGE_BOTTOM \<and> ypos (ensureSpace n w) = 25 \<and>
       finished (doc (ensureSpace n w)) = finished (doc w) @ [current (doc w) @ f] \<and>
       current (doc (ensureSpace n w)) = [])"
    using ensureSpace_pages [of w n] by blast
  then show ?thesis
  proof
    assume "ensureSpace n w = w \<and> \<not> ypos w + n > PAGE_BOTTOM"
    then show ?thesis by (simp add: continues_refl)
  next
    assume "ypos w + n > PAGE_BOTTOM \<and> ypos (ensureSpace n w) = 25 \<and>
       finished (doc (ensureSpace n w)) = finished (doc w) @ [current (doc w) @ f] \<and>
       current (doc (ensureSpace n w)) = []"
    then show ?thesis
      unfolding continues_def
      by (intro exI [of _ f] exI [of _ "[[]]"]) (simp add: allPages_def)
  qed
qed

text \<open>One step after a chain of steps.\<close>

lemma continues_step:
  "continues d e \<Longrightarrow> continues d (setFontSize n e)"
  "continues d e \<Longrightarrow> continues d (setFont fa fb e)"
  "continues d e \<Longrightarrow> continues d (setTextColor c e)"
  "continues d e \<Longrightarrow> continues d (setDrawColor c e)"
  "continues d e \<Longrightarrow> continues d (doc_text s x y e)"
  "continues d e \<Longrightarrow> continues d (line x1 y1 x2 y2 e)"
  "continues d (doc w) \<Longrightarrow> continues d (doc (addFooter w))"
  "continues d (doc w) \<Longrightarrow> continues d (doc (ensureSpace m w))"
proof -
  show "continues d e \<Longrightarrow> continues d (setFontSize n e)"
    by (erule continues_trans) (simp add: continues_same_pages)
  show "continues d e \<Longrightarrow> continues d (setFont fa fb e)"
    by (erule continues_trans) (simp add: continues_same_pages)
  show "continues d e \<Longrightarrow> continues d (setTextColor c e)"
    by (erule continues_trans) (simp add: continues_same_pages)
  show "continues d e \<Longrightarrow> continues d (setDrawColor c e)"
    by (erule continues_trans) (simp add: continues_same_pages)
  show "continues d e \<Longrightarrow> continues d (doc_text s x y e)"
    by (erule continues_trans) (simp add: doc_text_def continues_draw)
  show "continues d e \<Longrightarrow> continues d (line x1 y1 x2 y2 e)"
    by (erule continues_trans) (simp add: line_def continues_draw)
  show "continues d (doc w) \<Longrightarrow> continues d (doc (addFooter w))"
    by (erule continues_trans) (rule continues_addFooter)
  show "continues d (doc w) \<Longrightarrow> continues d (doc (ensureSpace m w))"
    by (erule continues_trans) (rule continues_ensureSpace)
qed

lemma continues_labelValue_loop:
  "continues d (doc w) \<Longrightarrow> continues d (doc (labelValue_loop lineH i ls w))"
  by (induction ls arbitrary: w i) (simp_all add: Let_def continues_step)

lemma continues_labelBlock_loop:
  "continues d (doc w) \<Longrightarrow> continues d (doc (labelBlock_loop lineH vs w))"
  by (induction vs arbitrary: w) (simp_all add: Let_def continues_step)

lemma continues_labelValue:
  "continues d (doc w) \<Longrightarrow> continues d (doc (labelValue split label val opts w))"
  unfolding labelValue_def Let_def
  by (simp add: continues_step continues_labelValue_loop)

lemma continues_labelBlock:
  "continues d (doc w) \<Longrightarrow> continues d (doc (labelBlock label vals w))"
  unfolding labelBlock_def Let_def
  by (simp add: continues_step continues_labelBlock_loop)

lemma continues_separator:
  "continues d (doc w) \<Longrightarrow> continues d (doc (separator w))"
  unfolding separator_def Let_def
  by (simp add: continues_step)

lemma continues_drawLogo:
  "continues d (doc w) \<Longrightarrow> continues d (doc (drawLogo env cp w))"
  by (auto simp add: drawLogo_def addImage_def split: option.split
        intro: continues_trans continues_draw)

text \<open>A field, once shown, stays shown.\<close>

lemma field_in_page_append:
  "field_in_page l v p \<Longrightarrow> field_in_page l v (p @ q)"
  by (induction l v p rule: field_in_page.induct) (auto split: item.splits)

lemma field_in_page_prepend:
  "field_in_page l v p \<Longrightarrow> field_in_page l v (q @ p)"
proof (induction q)
  case Nil
  then show ?case by simp
next
  case (Cons x q)
  then have "field_in_page l v (q @ p)" by simp
  then show ?case by (cases "q @ p") simp_all
qed

lemma field_in_page_here:
  "is_text_at l LABEL_X y a \<Longrightarrow> is_text_at v VALUE_X y b \<Longrightarrow> field_in_page l v (pre @ a # b # post)"
  by (rule field_in_page_prepend) (cases a; simp)

lemma field_shown_continues:
  assumes "continues d d'" "field_shown l v (allPages d)"
  shows "field_shown l v (allPages d')"
proof -
  obtain t n where pages: "allPages d' = finished d @ [current d @ t] @ n"
    using assms(1) unfolding continues_def by blast
  from assms(2) have "list_ex (field_in_page l v) (finished d) \<or> field_in_page l v (current d)"
    by (simp add: field_shown_def allPages_def)
  then show ?thesis
    unfolding field_shown_def pages
    by (auto simp add: field_in_page_append)
qed

lemma field_shown_labelValue:
  assumes "split (lor_num (opt_chain opts valueFontSize) 10) ''helvetica''
             (if truthy_bool (opt_chain opts valueBold) then ''bold'' else ''normal'')
             val (maxValueWidth w) = l # ls"
  shows "field_shown label l (allPages (doc (labelValue split label val opts w)))"
proof -
  obtain P pre a b tail new y where
    "allPages (doc (labelValue split label val opts w)) = P @ [pre @ a # b # tail] @ new"
    "is_text_at label LABEL_X y a" "is_text_at l VALUE_X y b"
    using labelValue_pages [where split = split and opts = opts and val = val and w = w
        and l = l and ls = ls and label = label] assms by blast
  then show ?thesis
    by (simp add: field_shown_def field_in_page_here)
qed


lemma loops_keep [simp]:
  "maxValueWidth (labelValue_loop lineH i ls w) = maxValueWidth w"
  "footerText (labelValue_loop lineH i ls w) = footerText w"
  "pageWidth (labelValue_loop lineH i ls w) = pageWidth w"
  by (induction ls arbitrary: w i) (simp_all add: Let_def)

lemma block_loop_keeps [simp]:
  "maxValueWidth (labelBlock_loop lineH vs w) = maxValueWidth w"
  "footerText (labelBlock_loop lineH vs w) = footerText w"
  "pageWidth (labelBlock_loop lineH vs w) = pageWidth w"
  by (induction vs arbitrary: w) (simp_all add: Let_def)

lemma methods_keep [simp]:
  "maxValueWidth (labelValue split label val opts w) = maxValueWidth w"
  "footerText (labelValue split label val opts w) = footerText w"
  "pageWidth (labelValue split label val opts w) = pageWidth w"
  "maxValueWidth (labelBlock label vals w) = maxValueWidth w"
  "footerText (labelBlock label vals w) = footerText w"
  "pageWidth (labelBlock label vals w) = pageWidth w"
  "maxValueWidth (separator w) = maxValueWidth w"
  "footerText (separator w) = footerText w"
  "pageWidth (separator w) = pageWidth w"
  "maxValueWidth (drawLogo env cp w) = maxValueWidth w"
  "footerText (drawLogo env cp w) = footerText w"
  "pageWidth (drawLogo env cp w) = pageWidth w"
  "maxValueWidth (setFooter t w) = maxValueWidth w"
  "pageWidth (setFooter t w) = pageWidth w"
  "doc (setFooter t w) = doc w"
  "ypos (setFooter t w) = ypos w"
  "footerText (setFooter t w) = t"
  by (simp_all add: labelValue_def labelBlock_def separator_def drawLogo_def setFooter_def Let_def
        split: option.split)

lemma allPages_setters [simp]:
  "allPages (setFontSize n d) = allPages d" "allPages (setFont a b d) = allPages d"
  "allPages (setTextColor c d) = allPages d" "allPages (setDrawColor c d) = allPages d"
  by (simp_all add: allPages_def)

lemma field_stays:
  "field_shown l v (allPages e) \<Longrightarrow> field_shown l v (allPages (doc_text s x y e))"
  "field_shown l v (allPages e) \<Longrightarrow> field_shown l v (allPages (line x1 y1 x2 y2 e))"
  "field_shown l v (allPages (doc w)) \<Longrightarrow> field_shown l v (allPages (doc (addFooter w)))"
  "field_shown l v (allPages (doc w)) \<Longrightarrow> field_shown l v (allPages (doc (ensureSpace m w)))"
  "field_shown l v (allPages (doc w)) \<Longrightarrow> field_shown l v (allPages (doc (separator w)))"
  "field_shown l v (allPages (doc w)) \<Longrightarrow>
     field_shown l v (allPages (doc (labelValue split label val opts w)))"
  "field_shown l v (allPages (doc w)) \<Longrightarrow> field_shown l v (allPages (doc (labelBlock label vals w)))"
  by (erule field_shown_continues [rotated],
      simp add: continues_step continues_separator continues_labelValue continues_labelBlock
        continues_refl)+

lemma field_starts:
  assumes "split (lor_num (opt_chain opts valueFontSize) 10) ''helvetica''
             (if truthy_bool (opt_chain opts valueBold) then ''bold'' else ''normal'')
             val (maxValueWidth w)
           = l # tl (split (lor_num (opt_chain opts valueFontSize) 10) ''helvetica''
             (if truthy_bool (opt_chain opts valueBold) then ''bold'' else ''normal'')
             val (maxValueWidth w))"
  shows "field_shown label l (allPages (doc (labelValue split label val opts w)))"
  using assms by (rule field_shown_labelValue)

lemma betrag_shown:
  assumes "wrap env 14 ''helvetica'' ''bold'' (amountStr device)
             (page_width env - VALUE_X - MARGIN_RIGHT) = b # bs"
  shows "field_shown ''Betrag'' b (allPages (generateEigenbeleg env device cp options))"
  unfolding generateEigenbeleg_def Let_def
  using assms
  by (simp add: field_stays field_starts new_PdfWriter_def new_jsPDF_def split: option.split)

lemma reason_shown:
  assumes "wrap env 10 ''helvetica'' ''bold'' (lor_str (reason options) defaultReason)
             (page_width env - VALUE_X - MARGIN_RIGHT) = r # rs"
  shows "field_shown (''Grund f'' @ u_uml @ ''r Eigenbeleg'') r
           (allPages (generateEigenbeleg env device cp options))"
  unfolding generateEigenbeleg_def Let_def
  using assms
  by (simp add: field_stays field_starts new_PdfWriter_def new_jsPDF_def split: option.split)


subsection \<open>The amount in German number format\<close>

lemma digit_char_digit: "n < 10 \<Longrightarrow> digit_char n \<in> set ''0123456789''"
  unfolding digit_char_def by (rule nth_mem) simp

lemma decimal_digits: "set (decimal n) \<subseteq> set ''0123456789''"
proof (induction n rule: decimal.induct)
  case (1 n)
  show ?case
  proof (cases "n < 10")
    case True
    then show ?thesis
      using digit_char_digit [of n] by (subst decimal.simps) simp
  next
    case False
    then show ?thesis
      using 1 digit_char_digit [of "n mod 10"]
      by (subst decimal.simps) simp
  qed
qed

lemma group3_chars: "set (group3 ds) \<subseteq> insert CHR ''.'' (set ds)"
  by (induction ds rule: group3.induct) auto

lemma two_decimals:
  "\<exists>whole d1 d2. toLocaleString_de2 x = whole @ [CHR '','', d1, d2]
     \<and> d1 \<in> set ''0123456789'' \<and> d2 \<in> set ''0123456789'' \<and> CHR '','' \<notin> set whole"
proof -
  define cents where "cents = nat \<lfloor>\<bar>x\<bar> * 100 + 1 / 2\<rfloor>"
  define whole where "whole = (if x < 0 then ''-'' else []) @ rev (group3 (rev (decimal (cents div 100))))"
  have "set (group3 (rev (decimal (cents div 100)))) \<subseteq> insert CHR ''.'' (set ''0123456789'')"
    using group3_chars [of "rev (decimal (cents div 100))"] decimal_digits [of "cents div 100"]
    by auto
  then have "CHR '','' \<notin> set whole"
    by (auto simp add: whole_def)
  moreover have "toLocaleString_de2 x
      = whole @ [CHR '','', digit_char (cents mod 100 div 10), digit_char (cents mod 100 mod 10)]"
    by (simp add: toLocaleString_de2_def whole_def cents_def Let_def)
  moreover have "digit_char (cents mod 100 div 10) \<in> set ''0123456789''"
    by (rule digit_char_digit) (simp add: div_less_iff_less_mult)
  moreover have "digit_char (cents mod 100 mod 10) \<in> set ''0123456789''"
    by (rule digit_char_digit) simp
  ultimately show ?thesis by blast
qed

lemma decimal_small: "n < 10 \<Longrightarrow> decimal n = [digit_char n]"
  by (subst decimal.simps) simp

lemma decimal_large: "\<not> n < 10 \<Longrightarrow> decimal n = decimal (n div 10) @ [digit_char (n mod 10)]"
  by (subst decimal.simps) simp

lemma floor_numeral_div: "\<lfloor>(numeral a :: rat) / numeral b\<rfloor> = numeral a div numeral b"
  using floor_divide_of_int_eq [of "numeral a" "numeral b", where ?'a = rat] by simp

lemmas fmt_eval = toLocaleString_de2_def decimal_small decimal_large digit_char_def Let_def
  floor_numeral_div

lemma fmt_250: "toLocaleString_de2 250 = ''250,00''"
  by (simp add: fmt_eval)

text \<open>
  Reading the formatted amount back: the digits written are those of the amount rounded to
  hundredths, so the text denotes the amount to within half a hundredth, and exactly when
  the amount is a whole number of hundredths.
\<close>

lemma digit_val_char: "n < 10 \<Longrightarrow> digit_val (digit_char n) = n"
proof -
  assume n: "n < 10"
  have "list_all (\<lambda>m. digit_val (digit_char m) = m) [0 ..< 10]"
    by code_simp
  then show ?thesis
    using n by (simp add: list_all_iff)
qed

lemma digits_val_snoc: "digits_val (s @ [c]) = 10 * digits_val s + digit_val c"
  by (simp add: digits_val_def)

lemma digits_val_decimal: "digits_val (decimal n) = n"
proof (induction n rule: decimal.induct)
  case (1 n)
  show ?case
  proof (cases "n < 10")
    case True
    then show ?thesis
      by (simp add: decimal_small digits_val_def digit_val_char)
  next
    case False
    then show ?thesis
      using 1 by (simp add: decimal_large digits_val_snoc digit_val_char)
  qed
qed

lemma group3_filter:
  "filter (\<lambda>c. c \<noteq> CHR ''.'' \<and> c \<noteq> CHR ''-'') (group3 ds)
     = filter (\<lambda>c. c \<noteq> CHR ''.'' \<and> c \<noteq> CHR ''-'') ds"
  by (induction ds rule: group3.induct) simp_all

lemma digits_filter:
  "set ds \<subseteq> set ''0123456789'' \<Longrightarrow> filter (\<lambda>c. c \<noteq> CHR ''.'' \<and> c \<noteq> CHR ''-'' ) ds = ds"
  by (rule filter_True) auto

lemma digits_no_comma:
  "set ds \<subseteq> set ''0123456789'' \<Longrightarrow> CHR '','' \<notin> set ds"
  by auto

lemma group3_dots:
  "CHR ''.'' \<notin> set ds \<Longrightarrow> i < length (group3 ds) \<Longrightarrow> (group3 ds ! i = CHR ''.'') = (i mod 4 = 3)"
proof (induction ds arbitrary: i rule: group3.induct)
  case (1 a b c d rest)
  have "i = 0 \<or> i = 1 \<or> i = 2 \<or> i = 3 \<or> (\<exists>j. i = j + 4)" by presburger
  then show ?case
  proof (elim disjE exE)
    fix j assume j: "i = j + 4"
    have "j < length (group3 (d # rest))" using "1.prems"(2) j by simp
    then have "(group3 (d # rest) ! j = CHR ''.'') = (j mod 4 = 3)"
      using "1.IH" [of j] "1.prems"(1) by simp
    then show ?thesis by (simp add: j)
  qed (use "1.prems" in auto)
qed (auto simp add: less_Suc_eq numeral_3_eq_3)


lemma takeWhile_upto:
  "c \<notin> set xs \<Longrightarrow> takeWhile (\<lambda>a. a \<noteq> c) (xs @ c # ys) = xs"
  by (induction xs) auto

lemma dropWhile_upto:
  "c \<notin> set xs \<Longrightarrow> dropWhile (\<lambda>a. a \<noteq> c) (xs @ c # ys) = c # ys"
  by (induction xs) auto

lemma digit_char_plain:
  "n < 10 \<Longrightarrow> digit_char n \<noteq> CHR ''.'' \<and> digit_char n \<noteq> CHR ''-'' \<and> digit_char n \<noteq> CHR '',''"
  using digit_char_digit [of n] by auto

lemma parse_format:
  "parse_de (toLocaleString_de2 x)
     = (if x < 0 then - 1 else 1) * of_nat (nat \<lfloor>\<bar>x\<bar> * 100 + 1 / 2\<rfloor>) / 100"
proof -
  define cents where "cents = nat \<lfloor>\<bar>x\<bar> * 100 + 1 / 2\<rfloor>"
  define ds where "ds = decimal (cents div 100)"
  define g where "g = rev (group3 (rev ds))"
  define d1 where "d1 = digit_char (cents mod 100 div 10)"
  define d2 where "d2 = digit_char (cents mod 100 mod 10)"
  define keep where "keep = (\<lambda>c. c \<noteq> CHR ''.'' \<and> c \<noteq> CHR ''-'')"
  have s: "toLocaleString_de2 x = (if x < 0 then ''-'' else []) @ g @ CHR '','' # [d1, d2]"
    by (simp add: toLocaleString_de2_def cents_def ds_def g_def d1_def d2_def Let_def)
  have digits: "set ds \<subseteq> set ''0123456789''"
    unfolding ds_def by (rule decimal_digits)
  have lt: "cents mod 100 div 10 < 10" "cents mod 100 mod 10 < 10"
    by (simp_all add: div_less_iff_less_mult)
  have d12: "keep d1" "keep d2" "d1 \<noteq> CHR '',''" "d2 \<noteq> CHR '',''"
    using digit_char_plain [OF lt(1)] digit_char_plain [OF lt(2)]
    by (simp_all add: d1_def d2_def keep_def)
  have gset: "set g \<subseteq> insert CHR ''.'' (set ds)"
    using group3_chars [of "rev ds"] by (simp add: g_def)
  have no_minus: "CHR ''-'' \<notin> set g"
    using gset digits by auto
  have sign: "CHR ''-'' \<in> set (toLocaleString_de2 x) \<longleftrightarrow> x < 0"
    using no_minus d12 by (auto simp add: s keep_def)
  have fg: "filter keep g = ds"
  proof -
    have "filter keep g = rev (filter keep (group3 (rev ds)))"
      by (simp add: g_def rev_filter)
    also have "\<dots> = rev (filter keep (rev ds))"
      unfolding keep_def by (simp add: group3_filter)
    also have "\<dots> = filter keep ds"
      by (simp add: rev_filter)
    also have "\<dots> = ds"
      unfolding keep_def using digits by (rule digits_filter)
    finally show ?thesis .
  qed
  have body: "filter keep (toLocaleString_de2 x) = ds @ CHR '','' # [d1, d2]"
    using d12 by (simp add: s fg) (simp add: keep_def)
  have nc: "CHR '','' \<notin> set ds"
    using digits by (rule digits_no_comma)
  have whole: "takeWhile (\<lambda>c. c \<noteq> CHR '','') (ds @ CHR '','' # [d1, d2]) = ds"
    using nc by (rule takeWhile_upto)
  have frac: "drop 1 (dropWhile (\<lambda>c. c \<noteq> CHR '','') (ds @ CHR '','' # [d1, d2])) = [d1, d2]"
    using nc by (simp add: dropWhile_upto)
  have vw: "digits_val ds = cents div 100"
    by (simp add: ds_def digits_val_decimal)
  have vf: "digits_val [d1, d2] = cents mod 100"
    using lt by (simp add: digits_val_def d1_def d2_def digit_val_char)
  have "parse_de (toLocaleString_de2 x)
      = (if x < 0 then - 1 else 1) * (of_nat (cents div 100) + of_nat (cents mod 100) / 100)"
    unfolding parse_de_def Let_def keep_def [symmetric] body whole frac vw vf
    using sign by simp
  also have "(of_nat (cents div 100) + of_nat (cents mod 100) / 100 :: rat) = of_nat cents / 100"
  proof -
    have "(of_nat cents :: rat) = of_nat (cents div 100 * 100 + cents mod 100)" by simp
    also have "\<dots> = of_nat (cents div 100) * 100 + of_nat (cents mod 100)"
      by (simp only: of_nat_add of_nat_mult of_nat_numeral)
    finally show ?thesis by simp
  qed
  finally show ?thesis by (simp add: cents_def)
qed

lemma parse_format_nearest:
  "\<bar>parse_de (toLocaleString_de2 x) - x\<bar> \<le> 1 / 200"
proof -
  define c where "c = \<lfloor>\<bar>x\<bar> * 100 + 1 / 2\<rfloor>"
  have c0: "0 \<le> c" unfolding c_def by (simp add: zero_le_floor)
  have lo: "of_int c \<le> \<bar>x\<bar> * 100 + 1 / 2" unfolding c_def by (rule of_int_floor_le)
  have hi: "\<bar>x\<bar> * 100 + 1 / 2 < of_int c + 1" unfolding c_def by linarith
  have near: "\<bar>(of_int c :: rat) / 100 - \<bar>x\<bar>\<bar> \<le> 1 / 200"
  proof -
    define a where "a = \<bar>x\<bar>"
    have b: "(of_int c :: rat) / 100 - a \<le> 1 / 200" "- ((of_int c :: rat) / 100 - a) \<le> 1 / 200"
      using lo hi unfolding a_def [symmetric] by linarith+
    have "\<bar>(of_int c :: rat) / 100 - a\<bar> \<le> 1 / 200"
      by (rule abs_leI) (rule b)+
    then show ?thesis unfolding a_def .
  qed
  have nat: "(of_nat (nat c) :: rat) = of_int c" using c0 by simp
  have pf: "parse_de (toLocaleString_de2 x) = (if x < 0 then - 1 else 1) * of_int c / 100"
    unfolding parse_format c_def [symmetric] nat ..
  show ?thesis
  proof (cases "x < 0")
    case True
    then have "parse_de (toLocaleString_de2 x) - x = - ((of_int c :: rat) / 100 - \<bar>x\<bar>)"
      unfolding pf by simp
    then show ?thesis using near by (simp only: abs_minus_cancel)
  next
    case False
    then have "parse_de (toLocaleString_de2 x) - x = (of_int c :: rat) / 100 - \<bar>x\<bar>"
      unfolding pf by simp
    then show ?thesis using near by (simp only:)
  qed
qed

lemma parse_format_cents:
  "parse_de (toLocaleString_de2 (of_int k / 100)) = of_int k / 100"
proof -
  have eq: "\<bar>(of_int k :: rat) / 100\<bar> * 100 + 1 / 2 = of_int \<bar>k\<bar> + 1 / 2"
    by (simp add: abs_divide)
  have "\<lfloor>(of_int \<bar>k\<bar> :: rat) + 1 / 2\<rfloor> = \<bar>k\<bar>"
    by (rule floor_unique) simp_all
  then have fl: "\<lfloor>\<bar>(of_int k :: rat) / 100\<bar> * 100 + 1 / 2\<rfloor> = \<bar>k\<bar>"
    unfolding eq .
  show ?thesis
    unfolding parse_format fl
    by (cases "k < 0") (simp_all add: divide_less_0_iff)
qed

text \<open>
  The shape of the whole part: never empty, digits and grouping points only, a point
  exactly before every group of three digits counted from the right, and no leading 0
  but for the single digit 0.
\<close>

lemma decimal_nonempty: "decimal n \<noteq> []"
  by (subst decimal.simps) simp

lemma digit_char_zero: "n < 10 \<Longrightarrow> digit_char n = CHR ''0'' \<Longrightarrow> n = 0"
  using digit_val_char [of n] by (simp add: digit_val_def)

lemma decimal_leading: "hd (decimal n) = CHR ''0'' \<Longrightarrow> n = 0"
proof (induction n rule: decimal.induct)
  case (1 n)
  show ?case
  proof (cases "n < 10")
    case True
    then show ?thesis using "1.prems" by (simp add: decimal_small digit_char_zero)
  next
    case False
    then have "hd (decimal (n div 10)) = CHR ''0''"
      using "1.prems" by (simp add: decimal_large decimal_nonempty)
    then have "n div 10 = 0" using 1 False by simp
    then show ?thesis using False by simp
  qed
qed

lemma decimal_zero: "decimal 0 = ''0''"
  by (simp add: decimal_small digit_char_def)

lemma group3_nonempty: "ds \<noteq> [] \<Longrightarrow> group3 ds \<noteq> []"
  by (induction ds rule: group3.induct) simp_all

lemma group3_last: "ds \<noteq> [] \<Longrightarrow> last (group3 ds) = last ds"
  by (induction ds rule: group3.induct) (simp_all add: group3_nonempty)

lemma format_negative: "x < 0 \<Longrightarrow> toLocaleString_de2 x = CHR ''-'' # toLocaleString_de2 (- x)"
  by (simp add: toLocaleString_de2_def Let_def)

lemma format_whole_part:
  assumes "0 \<le> x"
  shows "\<exists>whole d1 d2.
      toLocaleString_de2 x = whole @ [CHR '','', d1, d2]
    \<and> d1 \<in> set ''0123456789'' \<and> d2 \<in> set ''0123456789''
    \<and> whole \<noteq> [] \<and> set whole \<subseteq> insert CHR ''.'' (set ''0123456789'')
    \<and> (\<forall>i < length whole. (rev whole ! i = CHR ''.'') = (i mod 4 = 3))
    \<and> (hd whole = CHR ''0'' \<longrightarrow> whole = ''0'')"
proof -
  define cents where "cents = nat \<lfloor>\<bar>x\<bar> * 100 + 1 / 2\<rfloor>"
  define ds where "ds = decimal (cents div 100)"
  define g where "g = rev (group3 (rev ds))"
  have s: "toLocaleString_de2 x
      = g @ [CHR '','', digit_char (cents mod 100 div 10), digit_char (cents mod 100 mod 10)]"
    using assms by (simp add: toLocaleString_de2_def cents_def ds_def g_def Let_def)
  have digits: "set ds \<subseteq> set ''0123456789''"
    unfolding ds_def by (rule decimal_digits)
  have ne: "ds \<noteq> []" unfolding ds_def by (rule decimal_nonempty)
  have d1: "digit_char (cents mod 100 div 10) \<in> set ''0123456789''"
    by (rule digit_char_digit) (simp add: div_less_iff_less_mult)
  have d2: "digit_char (cents mod 100 mod 10) \<in> set ''0123456789''"
    by (rule digit_char_digit) simp
  have gne: "g \<noteq> []" using group3_nonempty [of "rev ds"] ne by (simp add: g_def)
  have gset: "set g \<subseteq> insert CHR ''.'' (set ''0123456789'')"
  proof -
    have "set g \<subseteq> insert CHR ''.'' (set ds)"
      using group3_chars [of "rev ds"] by (simp only: g_def set_rev)
    also have "\<dots> \<subseteq> insert CHR ''.'' (set ''0123456789'')"
      using digits by (rule insert_mono)
    finally show ?thesis .
  qed
  have nodot: "CHR ''.'' \<notin> set (rev ds)" using digits by auto
  have dots: "\<forall>i < length g. (rev g ! i = CHR ''.'') = (i mod 4 = 3)"
    using group3_dots [OF nodot] by (simp add: g_def)
  have "hd g = hd ds"
    using group3_last [of "rev ds"] ne
    by (simp add: g_def hd_rev last_rev group3_nonempty)
  then have lead: "hd g = CHR ''0'' \<longrightarrow> g = ''0''"
    using decimal_leading [of "cents div 100"]
    by (auto simp add: ds_def g_def decimal_zero)
  show ?thesis
    using s d1 d2 gne gset dots lead by blast
qed

lemma fmt_1234_50: "toLocaleString_de2 (12345 / 10) = ''1.234,50''"
  by (simp add: fmt_eval)

lemma fmt_negative_3_46: "toLocaleString_de2 (- 3456 / 1000) = ''-3,46''"
  by (simp add: fmt_eval)

lemma fmt_million: "toLocaleString_de2 (1234567891 / 1000) = ''1.234.567,89''"
  by (simp add: fmt_eval)

lemma pricedDevice_price: "d_purchase_price (pricedDevice p) = p"
  by (simp add: pricedDevice_def)

subsection \<open>Evaluating the writer on sample inputs\<close>

lemma writer_eval:
  "doc (freshWriter ft) = new_jsPDF 210" "ypos (freshWriter ft) = 25"
  "footerText (freshWriter ft) = ft" "pageWidth (freshWriter ft) = 210"
  "maxValueWidth (freshWriter ft) = 100"
  by (simp_all add: freshWriter_def new_PdfWriter_def new_jsPDF_def layout_defs)

lemma new_jsPDF_eval [simp]:
  "finished (new_jsPDF pw) = []" "current (new_jsPDF pw) = []"
  "fontName (new_jsPDF pw) = ''helvetica''" "fontStyle (new_jsPDF pw) = ''normal''"
  "fontSize (new_jsPDF pw) = 16" "textColor (new_jsPDF pw) = (0, 0, 0)"
  by (simp_all add: new_jsPDF_def)

lemmas writer_defs = labelValue_def labelBlock_def separator_def ensureSpace_def addFooter_def
  on_doc_def advance_def doc_text_def text_item_def draw_def line_def addPage_def
  setFontSize_def setFont_def setTextColor_def setDrawColor_def splitTextToSize_def
  allPages_def labelColor_def valueColor_def lineColor_def Let_def
  freshWriter_def setFooter_def new_PdfWriter_def new_jsPDF_def layout_defs

text \<open>
  A value of three wrapped lines written at height 262: the label and the first line
  are on the first page, the third line is alone on the second.
\<close>

lemma sample_labelValue:
  "allPages (doc (labelValue wrap3 ''Name'' ''v'' None (advance 237 (freshWriter ''foot''))))
     = [[Text ''Name'' 25 262 10 ''helvetica'' ''normal'' (100, 100, 100),
         Text ''v'' 85 262 10 ''helvetica'' ''normal'' (30, 30, 30),
         Text ''v2'' 85 266 10 ''helvetica'' ''normal'' (30, 30, 30),
         Text ''foot'' 25 280 8 ''helvetica'' ''normal'' (150, 150, 150)],
        [Text ''v3'' 85 25 8 ''helvetica'' ''normal'' (150, 150, 150)]]"
  by (simp add: writer_defs wrap3_def cong: let_weak_cong)

lemma sample_labelBlock:
  "allPages (doc (labelBlock ''Name'' [''a'', ''b''] (advance 238 (freshWriter ''foot''))))
     = [[Text ''Name'' 25 263 10 ''helvetica'' ''normal'' (100, 100, 100),
         Text ''a'' 85 263 10 ''helvetica'' ''normal'' (30, 30, 30),
         Text ''foot'' 25 280 8 ''helvetica'' ''normal'' (150, 150, 150)],
        [Text ''b'' 85 25 8 ''helvetica'' ''normal'' (150, 150, 150)]]"
  by (simp add: writer_defs cong: let_weak_cong)

text \<open>
  C2. With a footer text that is not empty: \<^verbatim>\<open>ensureSpace(needed)\<close> adds a page exactly
  when the cursor plus \<open>needed\<close> exceeds 270, and otherwise changes nothing; when it
  breaks, the finished page receives the footer as its last item, a new empty page
  follows and the cursor is 25. The other primitives of the writer (\<^verbatim>\<open>advance\<close>,
  \<^verbatim>\<open>addFooter\<close>, \<^verbatim>\<open>setFooter\<close>, drawing a text or a line) keep the number of pages, and
  \<^verbatim>\<open>separator\<close> has the pages of its \<^verbatim>\<open>ensureSpace(10)\<close>: pages are added by
  \<^verbatim>\<open>ensureSpace\<close> only. After any sequence of writer operations on a fresh document
  followed by the final \<^verbatim>\<open>addFooter\<close>, and in the document of \<^verbatim>\<open>generateEigenbeleg\<close>,
  every page carries the footer exactly once.
\<close>

theorem pagination_and_footer:
  assumes "ft \<noteq> []" and "footerText w = ft"
  shows
   "(length (allPages (doc (ensureSpace needed w))) = length (allPages (doc w)) + 1
       \<longleftrightarrow> ypos w + needed > PAGE_BOTTOM)
    \<and> (ensureSpace needed w = w \<longleftrightarrow> \<not> ypos w + needed > PAGE_BOTTOM)
    \<and> (ypos w + needed > PAGE_BOTTOM \<longrightarrow>
          ypos (ensureSpace needed w) = 25
        \<and> allPages (doc (ensureSpace needed w))
            = finished (doc w)
              @ [current (doc w)
                   @ [Text ft LABEL_X FOOTER_Y 8 (fontName (doc w)) (fontStyle (doc w)) (150, 150, 150)],
                 []])
    \<and> length (allPages (doc (advance amount w))) = length (allPages (doc w))
    \<and> length (allPages (doc (addFooter w))) = length (allPages (doc w))
    \<and> length (allPages (doc (setFooter t w))) = length (allPages (doc w))
    \<and> length (allPages (doc (on_doc (doc_text s x y) w))) = length (allPages (doc w))
    \<and> length (allPages (doc (on_doc (line x1 y1 x2 y2) w))) = length (allPages (doc w))
    \<and> length (allPages (doc (separator w))) = length (allPages (doc (ensureSpace 10 w)))
    \<and> list_all (\<lambda>p. footer_count ft p = 1)
          (allPages (doc (addFooter (run_ops split ops (setFooter ft (new_PdfWriter (new_jsPDF width)))))))
    \<and> (footer_of companyProfile = ft \<longrightarrow>
          list_all (\<lambda>p. footer_count ft p = 1)
            (allPages (generateEigenbeleg env device companyProfile options)))"
proof -
  have iff: "length (allPages (doc (ensureSpace needed w))) = length (allPages (doc w)) + 1
       \<longleftrightarrow> ypos w + needed > PAGE_BOTTOM"
    by (cases "ypos w + needed > PAGE_BOTTOM")
       (simp_all add: allPages_def ensureSpace_break ensureSpace_no_break)
  have same: "ensureSpace needed w = w \<longleftrightarrow> \<not> ypos w + needed > PAGE_BOTTOM"
    using iff by (cases "ypos w + needed > PAGE_BOTTOM") (auto simp add: ensureSpace_no_break)
  have break: "ypos (ensureSpace needed w) = 25
        \<and> allPages (doc (ensureSpace needed w))
            = finished (doc w)
              @ [current (doc w)
                   @ [Text ft LABEL_X FOOTER_Y 8 (fontName (doc w)) (fontStyle (doc w)) (150, 150, 150)],
                 []]"
    if "ypos w + needed > PAGE_BOTTOM"
    using assms ensureSpace_break [OF that]
    by (simp add: allPages_def addFooter_current)
  have others: "length (allPages (doc (advance amount w))) = length (allPages (doc w))"
    "length (allPages (doc (addFooter w))) = length (allPages (doc w))"
    "length (allPages (doc (setFooter t w))) = length (allPages (doc w))"
    "length (allPages (doc (on_doc (doc_text s x y) w))) = length (allPages (doc w))"
    "length (allPages (doc (on_doc (line x1 y1 x2 y2) w))) = length (allPages (doc w))"
    "length (allPages (doc (separator w))) = length (allPages (doc (ensureSpace 10 w)))"
    by (simp_all add: allPages_def separator_def Let_def)
  have run: "list_all (\<lambda>p. footer_count ft p = 1)
          (allPages (doc (addFooter (run_ops split ops (setFooter ft (new_PdfWriter (new_jsPDF width)))))))"
    using assms(1) by (intro pending_final pending_run_ops pending_initial)
  have gen: "list_all (\<lambda>p. footer_count ft p = 1)
            (allPages (generateEigenbeleg env device companyProfile options))"
    if "footer_of companyProfile = ft"
    using generateEigenbeleg_footers [of companyProfile env device options] assms(1) that by simp
  show ?thesis
    using iff same break others run gen by blast
qed

theorem pagination_and_footer_witness:
  "''info@example.com'' \<noteq> [] \<and> footerText (freshWriter ''info@example.com'') = ''info@example.com''
   \<and> ypos (freshWriter ''info@example.com'') + 300 > PAGE_BOTTOM
   \<and> ypos (ensureSpace 300 (freshWriter ''info@example.com'')) = 25
   \<and> allPages (doc (ensureSpace 300 (freshWriter ''info@example.com'')))
       = [[Text ''info@example.com'' 25 280 8 ''helvetica'' ''normal'' (150, 150, 150)], []]
   \<and> footer_of sampleProfile = ''info@example.com''
   \<and> list_all (\<lambda>p. footer_count ''info@example.com'' p = 1)
        (allPages (generateEigenbeleg plainEnv sampleDevice sampleProfile
           \<lparr>recipientName = ''Max Mustermann'', reason = Undefined\<rparr>))"
proof -
  let ?ft = "''info@example.com''"
  have ft: "?ft \<noteq> []" "footerText (freshWriter ?ft) = ?ft"
    by (simp_all add: writer_eval)
  have over: "ypos (freshWriter ?ft) + 300 > PAGE_BOTTOM"
    by (simp add: writer_eval layout_defs)
  have fo: "footer_of sampleProfile = ?ft"
    by (simp add: footer_of_def sampleProfile_def)
  note inst = pagination_and_footer [OF ft, where needed = 300 and companyProfile = sampleProfile
      and env = plainEnv and device = sampleDevice
      and options = "\<lparr>recipientName = ''Max Mustermann'', reason = Undefined\<rparr>"]
  show ?thesis
    using inst ft over fo by (simp add: writer_eval layout_defs)
qed


text \<open>
  C3. When the value of \<^verbatim>\<open>labelValue\<close> wraps to the lines \<open>l # ls\<close>, and for the lines
  \<open>v # vs\<close> given to \<^verbatim>\<open>labelBlock\<close>: the pages afterwards are the pages before, where the
  page being written either goes on or is closed (with nothing but its footer added) and
  followed by a new one; on that page the label in the label column is followed
  immediately by the first line in the value column at the same height; and the value
  texts drawn after that, on this page and on all following pages, are exactly the
  remaining lines.
\<close>

theorem label_with_first_line:
  "(split (lor_num (opt_chain opts valueFontSize) 10) ''helvetica''
        (if truthy_bool (opt_chain opts valueBold) then ''bold'' else ''normal'')
        val (maxValueWidth w) = l # ls \<longrightarrow>
     (\<exists>P pre a b tail new y.
        allPages (doc (labelValue split label val opts w)) = P @ [pre @ a # b # tail] @ new
      \<and> is_text_at label LABEL_X y a \<and> is_text_at l VALUE_X y b
      \<and> ((P = finished (doc w) \<and> pre = current (doc w)) \<or>
          (\<exists>f. P = finished (doc w) @ [current (doc w) @ f]
               \<and> list_all (is_footer (footerText w)) f \<and> pre = []))
      \<and> value_texts (tail @ concat new) = ls))
   \<and> (\<exists>P pre a b tail new y.
        allPages (doc (labelBlock label (v # vs) w)) = P @ [pre @ a # b # tail] @ new
      \<and> is_text_at label LABEL_X y a \<and> is_text_at v VALUE_X y b
      \<and> ((P = finished (doc w) \<and> pre = current (doc w)) \<or>
          (\<exists>f. P = finished (doc w) @ [current (doc w) @ f]
               \<and> list_all (is_footer (footerText w)) f \<and> pre = []))
      \<and> value_texts (tail @ concat new) = vs)"
  using labelValue_pages [where split = split and opts = opts and val = val and w = w
        and l = l and ls = ls and label = label]
    labelBlock_pages [of label v vs w]
  by blast

theorem label_with_first_line_witness:
  "wrap3 (lor_num (opt_chain None valueFontSize) 10) ''helvetica''
        (if truthy_bool (opt_chain None valueBold) then ''bold'' else ''normal'')
        ''v'' (maxValueWidth (advance 237 (freshWriter ''foot''))) = ''v'' # [''v2'', ''v3'']
   \<and> (\<exists>P pre a b tail new y.
        allPages (doc (labelValue wrap3 ''Name'' ''v'' None (advance 237 (freshWriter ''foot''))))
          = P @ [pre @ a # b # tail] @ new
      \<and> is_text_at ''Name'' LABEL_X y a \<and> is_text_at ''v'' VALUE_X y b
      \<and> ((P = finished (doc (advance 237 (freshWriter ''foot'')))
             \<and> pre = current (doc (advance 237 (freshWriter ''foot'')))) \<or>
          (\<exists>f. P = finished (doc (advance 237 (freshWriter ''foot'')))
                      @ [current (doc (advance 237 (freshWriter ''foot''))) @ f]
               \<and> list_all (is_footer (footerText (advance 237 (freshWriter ''foot'')))) f \<and> pre = []))
      \<and> value_texts (tail @ concat new) = [''v2'', ''v3''])
   \<and> allPages (doc (labelValue wrap3 ''Name'' ''v'' None (advance 237 (freshWriter ''foot''))))
     = [[Text ''Name'' 25 262 10 ''helvetica'' ''normal'' (100, 100, 100),
         Text ''v'' 85 262 10 ''helvetica'' ''normal'' (30, 30, 30),
         Text ''v2'' 85 266 10 ''helvetica'' ''normal'' (30, 30, 30),
         Text ''foot'' 25 280 8 ''helvetica'' ''normal'' (150, 150, 150)],
        [Text ''v3'' 85 25 8 ''helvetica'' ''normal'' (150, 150, 150)]]
   \<and> allPages (doc (labelBlock ''Name'' [''a'', ''b''] (advance 238 (freshWriter ''foot''))))
     = [[Text ''Name'' 25 263 10 ''helvetica'' ''normal'' (100, 100, 100),
         Text ''a'' 85 263 10 ''helvetica'' ''normal'' (30, 30, 30),
         Text ''foot'' 25 280 8 ''helvetica'' ''normal'' (150, 150, 150)],
        [Text ''b'' 85 25 8 ''helvetica'' ''normal'' (150, 150, 150)]]"
proof -
  have lines: "wrap3 (lor_num (opt_chain None valueFontSize) 10) ''helvetica''
        (if truthy_bool (opt_chain None valueBold) then ''bold'' else ''normal'')
        ''v'' (maxValueWidth (advance 237 (freshWriter ''foot''))) = ''v'' # [''v2'', ''v3'']"
    by (simp add: wrap3_def)
  note inst = label_with_first_line [where split = wrap3 and opts = None and val = "''v''"
      and w = "advance 237 (freshWriter ''foot'')" and l = "''v''" and ls = "[''v2'', ''v3'']"
      and label = "''Name''"]
  from inst lines have shape: "\<exists>P pre a b tail new y.
        allPages (doc (labelValue wrap3 ''Name'' ''v'' None (advance 237 (freshWriter ''foot''))))
          = P @ [pre @ a # b # tail] @ new
      \<and> is_text_at ''Name'' LABEL_X y a \<and> is_text_at ''v'' VALUE_X y b
      \<and> ((P = finished (doc (advance 237 (freshWriter ''foot'')))
             \<and> pre = current (doc (advance 237 (freshWriter ''foot'')))) \<or>
          (\<exists>f. P = finished (doc (advance 237 (freshWriter ''foot'')))
                      @ [current (doc (advance 237 (freshWriter ''foot''))) @ f]
               \<and> list_all (is_footer (footerText (advance 237 (freshWriter ''foot'')))) f \<and> pre = []))
      \<and> value_texts (tail @ concat new) = [''v2'', ''v3'']"
    by (rule mp [OF conjunct1])
  show ?thesis
    by (intro conjI) (rule lines shape sample_labelValue sample_labelBlock)+
qed

text \<open>
  The document for the sample device with the network down and no reason given: a single
  page.
\<close>

lemma sample_amount: "amountStr sampleDevice = ''250,00 '' @ euro"
  by (simp add: amountStr_def sampleDevice_def fmt_250)

lemma sample_document:
  "allPages (generateEigenbeleg plainEnv sampleDevice sampleProfile
       \<lparr>recipientName = ''Max Mustermann'', reason = Undefined\<rparr>)
   = [[Text ''Eigenbeleg'' 25 25 22 ''helvetica'' ''bold'' (30, 30, 30),
       Text ''Eigenbeleg-Nummer D-1'' 25 33 10 ''helvetica'' ''normal'' (100, 100, 100),
       Text ''Belegdatum'' 25 51 10 ''helvetica'' ''normal'' (100, 100, 100),
       Text ''05.01.2024'' 85 51 10 ''helvetica'' ''bold'' (30, 30, 30),
       Text ''Gegenpartei'' 25 57 10 ''helvetica'' ''normal'' (100, 100, 100),
       Text ''Max Mustermann'' 85 57 10 ''helvetica'' ''bold'' (30, 30, 30),
       Text ''Beschreibung der Leistung'' 25 63 10 ''helvetica'' ''normal'' (100, 100, 100),
       Text ''Ankauf iPhone 12 128GB black'' 85 63 10 ''helvetica'' ''normal'' (30, 30, 30),
       Text (''Ger'' @ a_uml @ ''te-ID: D-1'') 85 69 9 ''helvetica'' ''normal'' (100, 100, 100),
       Text ''Betrag'' 25 77 10 ''helvetica'' ''normal'' (100, 100, 100),
       Text (''250,00 '' @ euro) 85 77 14 ''helvetica'' ''bold'' (30, 30, 30),
       Line 25 (423 / 5) 185 (423 / 5) (200, 200, 200),
       Text (''Grund f'' @ u_uml @ ''r Eigenbeleg'') 25 (473 / 5) 10 ''helvetica'' ''normal'' (100, 100, 100),
       Text ''Kein externer Beleg vorhanden'' 85 (473 / 5) 10 ''helvetica'' ''bold'' (30, 30, 30),
       Line 25 (503 / 5) 185 (503 / 5) (200, 200, 200),
       Text ''Erstellt durch'' 25 (553 / 5) 10 ''helvetica'' ''normal'' (100, 100, 100),
       Text ''Erika Muster'' 85 (553 / 5) 10 ''helvetica'' ''normal'' (30, 30, 30),
       Text ''Handy GmbH'' 85 (578 / 5) 10 ''helvetica'' ''normal'' (30, 30, 30),
       Text ''Hauptstr. 1'' 85 (603 / 5) 10 ''helvetica'' ''normal'' (30, 30, 30),
       Text ''10115 Berlin'' 85 (628 / 5) 10 ''helvetica'' ''normal'' (30, 30, 30),
       Text ''Erstellt am'' 25 (668 / 5) 10 ''helvetica'' ''normal'' (100, 100, 100),
       Text ''05.01.2024'' 85 (668 / 5) 10 ''helvetica'' ''normal'' (30, 30, 30),
       Text ''Digitale Signatur (GUID)'' 25 (698 / 5) 10 ''helvetica'' ''normal'' (100, 100, 100),
       Text ''3b241101-e2bb-4255-8caf-4136c566a962'' 85 (698 / 5) 9 ''helvetica'' ''normal'' (30, 30, 30),
       Line 25 (766 / 5) 95 (766 / 5) (200, 200, 200),
       Text ''Inhaber Handy GmbH'' 25 (791 / 5) 9 ''helvetica'' ''normal'' (100, 100, 100),
       Text ''info@example.com'' 25 280 8 ''helvetica'' ''normal'' (150, 150, 150)]]"
  unfolding generateEigenbeleg_def
  by (simp add: writer_defs plainEnv_def sampleDevice_def sampleProfile_def drawLogo_def
        loadLogoAsBase64_def amountStr_def fmt_250 defaultReason_def
        cong: let_weak_cong)


subsection \<open>Amount and reason\<close>

lemma lor_str_default:
  "absent r \<or> r = Val [] \<Longrightarrow> lor_str r d = d"
  by (cases r) auto

text \<open>
  C7. The field "Betrag" shows the first wrapped line of \<open>amountStr\<close>, which is the
  purchase price in the German format followed by a blank and the euro sign. The format
  ends in a comma and exactly two digits; read back as a number, it is the price rounded
  to hundredths, half away from zero, hence within half a hundredth of the price and equal
  to it when the price is a whole number of hundredths; a negative price is written as a
  minus sign before the format of its absolute value; and the whole part of a price that is
  not negative consists of digits and grouping points, with a point exactly before every
  group of three digits counted from the right and no leading 0 but for the single digit 0.
  For a price of 250 the amount is \<open>250,00\<close>, a blank and the euro sign.
  When the reason is absent or empty, the field for the reason shows the first
  wrapped line of the default reason; and the route handler passes no reason when the
  reason of the request body is absent or empty after trimming.
\<close>

theorem betrag_and_reason:
  "(wrap env 14 ''helvetica'' ''bold'' (amountStr device)
        (page_width env - VALUE_X - MARGIN_RIGHT) = b # bs \<longrightarrow>
      field_shown ''Betrag'' b (allPages (generateEigenbeleg env device companyProfile options)))
   \<and> amountStr device = toLocaleString_de2 (d_purchase_price device) @ '' '' @ euro
   \<and> (\<exists>whole d1 d2.
        toLocaleString_de2 (d_purchase_price device) = whole @ [CHR '','', d1, d2]
      \<and> d1 \<in> set ''0123456789'' \<and> d2 \<in> set ''0123456789'' \<and> CHR '','' \<notin> set whole)
   \<and> (d_purchase_price device = 250 \<longrightarrow> amountStr device = ''250,00 '' @ euro)
   \<and> ((absent (reason options) \<or> reason options = Val [])
        \<and> wrap env 10 ''helvetica'' ''bold'' defaultReason
             (page_width env - VALUE_X - MARGIN_RIGHT) = r # rs \<longrightarrow>
      field_shown (''Grund f'' @ u_uml @ ''r Eigenbeleg'') r
        (allPages (generateEigenbeleg env device companyProfile options)))
   \<and> (trim (lor_str body_reason []) = [] \<longrightarrow>
        reason (POST_options trim recipient body_reason) = Undefined)
   \<and> parse_de (toLocaleString_de2 (d_purchase_price device))
        = (if d_purchase_price device < 0 then - 1 else 1)
            * of_nat (nat \<lfloor>\<bar>d_purchase_price device\<bar> * 100 + 1 / 2\<rfloor>) / 100
   \<and> \<bar>parse_de (toLocaleString_de2 (d_purchase_price device)) - d_purchase_price device\<bar>
        \<le> 1 / 200
   \<and> (d_purchase_price device = of_int k / 100 \<longrightarrow>
        parse_de (toLocaleString_de2 (d_purchase_price device)) = d_purchase_price device)
   \<and> (d_purchase_price device < 0 \<longrightarrow>
        toLocaleString_de2 (d_purchase_price device)
          = CHR ''-'' # toLocaleString_de2 (- d_purchase_price device))
   \<and> (0 \<le> d_purchase_price device \<longrightarrow>
        (\<exists>whole d1 d2.
           toLocaleString_de2 (d_purchase_price device) = whole @ [CHR '','', d1, d2]
         \<and> d1 \<in> set ''0123456789'' \<and> d2 \<in> set ''0123456789''
         \<and> whole \<noteq> [] \<and> set whole \<subseteq> insert CHR ''.'' (set ''0123456789'')
         \<and> (\<forall>i < length whole. (rev whole ! i = CHR ''.'') = (i mod 4 = 3))
         \<and> (hd whole = CHR ''0'' \<longrightarrow> whole = ''0'')))"
proof -
  have amount: "wrap env 14 ''helvetica'' ''bold'' (amountStr device)
        (page_width env - VALUE_X - MARGIN_RIGHT) = b # bs \<longrightarrow>
      field_shown ''Betrag'' b (allPages (generateEigenbeleg env device companyProfile options))"
    by (intro impI) (rule betrag_shown)
  have str: "amountStr device = toLocaleString_de2 (d_purchase_price device) @ '' '' @ euro"
    by (rule amountStr_def)
  have grund: "(absent (reason options) \<or> reason options = Val [])
        \<and> wrap env 10 ''helvetica'' ''bold'' defaultReason
             (page_width env - VALUE_X - MARGIN_RIGHT) = r # rs \<longrightarrow>
      field_shown (''Grund f'' @ u_uml @ ''r Eigenbeleg'') r
        (allPages (generateEigenbeleg env device companyProfile options))"
  proof (intro impI, elim conjE)
    assume a: "absent (reason options) \<or> reason options = Val []"
      and w: "wrap env 10 ''helvetica'' ''bold'' defaultReason
             (page_width env - VALUE_X - MARGIN_RIGHT) = r # rs"
    show "field_shown (''Grund f'' @ u_uml @ ''r Eigenbeleg'') r
        (allPages (generateEigenbeleg env device companyProfile options))"
      using w lor_str_default [OF a, of defaultReason]
      by (intro reason_shown [where rs = rs]) simp
  qed
  have fmt: "d_purchase_price device = 250 \<longrightarrow> amountStr device = ''250,00 '' @ euro"
    by (simp add: amountStr_def fmt_250)
  have route: "trim (lor_str body_reason []) = [] \<longrightarrow>
        reason (POST_options trim recipient body_reason) = Undefined"
    by (simp add: POST_options_def Let_def)
  have cents: "d_purchase_price device = of_int k / 100 \<longrightarrow>
        parse_de (toLocaleString_de2 (d_purchase_price device)) = d_purchase_price device"
    by (intro impI) (simp only: parse_format_cents)
  have neg: "d_purchase_price device < 0 \<longrightarrow>
        toLocaleString_de2 (d_purchase_price device)
          = CHR ''-'' # toLocaleString_de2 (- d_purchase_price device)"
    by (intro impI) (rule format_negative)
  have pos: "0 \<le> d_purchase_price device \<longrightarrow>
        (\<exists>whole d1 d2.
           toLocaleString_de2 (d_purchase_price device) = whole @ [CHR '','', d1, d2]
         \<and> d1 \<in> set ''0123456789'' \<and> d2 \<in> set ''0123456789''
         \<and> whole \<noteq> [] \<and> set whole \<subseteq> insert CHR ''.'' (set ''0123456789'')
         \<and> (\<forall>i < length whole. (rev whole ! i = CHR ''.'') = (i mod 4 = 3))
         \<and> (hd whole = CHR ''0'' \<longrightarrow> whole = ''0''))"
    by (intro impI) (rule format_whole_part)
  show ?thesis
    by (intro conjI)
      (rule amount str two_decimals fmt grund route parse_format parse_format_nearest
        cents neg pos)+
qed

theorem betrag_and_reason_witness:
  "wrap plainEnv 14 ''helvetica'' ''bold'' (amountStr sampleDevice)
        (page_width plainEnv - VALUE_X - MARGIN_RIGHT) = (''250,00 '' @ euro) # []
   \<and> d_purchase_price sampleDevice = 250
   \<and> trim_blanks (lor_str Undefined []) = []
   \<and> trim_blanks (lor_str (Val ''   '') []) = []
   \<and> POST_options trim_blanks ''Max Mustermann '' (Val ''   '')
        = \<lparr>recipientName = ''Max Mustermann'', reason = Undefined\<rparr>
   \<and> absent (reason (POST_options trim_blanks ''Max Mustermann '' (Val ''   '')))
   \<and> wrap plainEnv 10 ''helvetica'' ''bold'' defaultReason
        (page_width plainEnv - VALUE_X - MARGIN_RIGHT) = ''Kein externer Beleg vorhanden'' # []
   \<and> field_shown ''Betrag'' (''250,00 '' @ euro)
        (allPages (generateEigenbeleg plainEnv sampleDevice sampleProfile
           (POST_options trim_blanks ''Max Mustermann '' (Val ''   ''))))
   \<and> field_shown (''Grund f'' @ u_uml @ ''r Eigenbeleg'') ''Kein externer Beleg vorhanden''
        (allPages (generateEigenbeleg plainEnv sampleDevice sampleProfile
           (POST_options trim_blanks ''Max Mustermann '' (Val ''   ''))))
   \<and> d_purchase_price (pricedDevice (12345 / 10)) = of_int 123450 / 100
   \<and> 0 \<le> d_purchase_price (pricedDevice (12345 / 10))
   \<and> amountStr (pricedDevice (12345 / 10)) = ''1.234,50 '' @ euro
   \<and> parse_de ''1.234,50'' = 12345 / 10
   \<and> wrap plainEnv 14 ''helvetica'' ''bold'' (amountStr (pricedDevice (12345 / 10)))
        (page_width plainEnv - VALUE_X - MARGIN_RIGHT) = (''1.234,50 '' @ euro) # []
   \<and> field_shown ''Betrag'' (''1.234,50 '' @ euro)
        (allPages (generateEigenbeleg plainEnv (pricedDevice (12345 / 10)) sampleProfile
           (POST_options trim_blanks ''Max Mustermann '' (Val ''   ''))))
   \<and> d_purchase_price (pricedDevice (- 3456 / 1000)) < 0
   \<and> amountStr (pricedDevice (- 3456 / 1000)) = ''-3,46 '' @ euro
   \<and> amountStr (pricedDevice (3456 / 1000)) = ''3,46 '' @ euro
   \<and> amountStr (pricedDevice (1234567891 / 1000)) = ''1.234.567,89 '' @ euro
   \<and> amountStr (pricedDevice 0) = ''0,00 '' @ euro"
proof -
  let ?opts = "POST_options trim_blanks ''Max Mustermann '' (Val ''   '')"
  let ?dev = "pricedDevice (12345 / 10)"
  have w1: "wrap plainEnv 14 ''helvetica'' ''bold'' (amountStr sampleDevice)
        (page_width plainEnv - VALUE_X - MARGIN_RIGHT) = (''250,00 '' @ euro) # []"
    by (simp add: plainEnv_def sample_amount)
  have w2: "wrap plainEnv 10 ''helvetica'' ''bold'' defaultReason
        (page_width plainEnv - VALUE_X - MARGIN_RIGHT) = ''Kein externer Beleg vorhanden'' # []"
    by (simp add: plainEnv_def defaultReason_def)
  have t1: "trim_blanks (lor_str Undefined []) = []" "trim_blanks (lor_str (Val ''   '') []) = []"
    by (simp_all add: trim_blanks_def)
  have p: "d_purchase_price sampleDevice = 250"
    by (simp add: sampleDevice_def)
  have o: "?opts = \<lparr>recipientName = ''Max Mustermann'', reason = Undefined\<rparr>"
    by (simp add: POST_options_def trim_blanks_def)
  then have a: "absent (reason ?opts)" by simp
  note inst = betrag_and_reason [where env = plainEnv and device = sampleDevice
      and companyProfile = sampleProfile and options = ?opts
      and b = "''250,00 '' @ euro" and bs = "[]"
      and r = "''Kein externer Beleg vorhanden''" and rs = "[]"]
  have f1: "field_shown ''Betrag'' (''250,00 '' @ euro)
        (allPages (generateEigenbeleg plainEnv sampleDevice sampleProfile ?opts))"
    using inst w1 by blast
  have f2: "field_shown (''Grund f'' @ u_uml @ ''r Eigenbeleg'') ''Kein externer Beleg vorhanden''
        (allPages (generateEigenbeleg plainEnv sampleDevice sampleProfile ?opts))"
    using inst w2 a by blast
  have q: "d_purchase_price ?dev = of_int 123450 / 100" "0 \<le> d_purchase_price ?dev"
    by (simp_all add: pricedDevice_price)
  have s2: "amountStr ?dev = ''1.234,50 '' @ euro"
    by (simp only: amountStr_def pricedDevice_price fmt_1234_50) simp
  have w3: "wrap plainEnv 14 ''helvetica'' ''bold'' (amountStr ?dev)
        (page_width plainEnv - VALUE_X - MARGIN_RIGHT) = (''1.234,50 '' @ euro) # []"
    unfolding s2 by (simp add: plainEnv_def)
  note inst2 = betrag_and_reason [where env = plainEnv and device = ?dev
      and companyProfile = sampleProfile and options = ?opts
      and b = "''1.234,50 '' @ euro" and bs = "[]" and k = 123450]
  have f3: "field_shown ''Betrag'' (''1.234,50 '' @ euro)
        (allPages (generateEigenbeleg plainEnv ?dev sampleProfile ?opts))"
    using inst2 w3 by blast
  have "parse_de (toLocaleString_de2 (d_purchase_price ?dev)) = d_purchase_price ?dev"
    using inst2 q(1) by blast
  then have rd: "parse_de ''1.234,50'' = 12345 / 10"
    by (simp only: pricedDevice_price fmt_1234_50)
  have n: "d_purchase_price (pricedDevice (- 3456 / 1000)) < 0"
    by (simp add: pricedDevice_price)
  have s3: "amountStr (pricedDevice (- 3456 / 1000)) = ''-3,46 '' @ euro"
    by (simp only: amountStr_def pricedDevice_price fmt_negative_3_46) simp
  have s4: "amountStr (pricedDevice (3456 / 1000)) = ''3,46 '' @ euro"
    by (simp add: amountStr_def pricedDevice_price fmt_eval)
  have s5: "amountStr (pricedDevice (1234567891 / 1000)) = ''1.234.567,89 '' @ euro"
    by (simp only: amountStr_def pricedDevice_price fmt_million) simp
  have s6: "amountStr (pricedDevice 0) = ''0,00 '' @ euro"
    by (simp add: amountStr_def pricedDevice_price fmt_eval)
  show ?thesis
    by (intro conjI) (rule w1 w2 t1 p o a f1 f2 q s2 rd w3 f3 n s3 s4 s5 s6)+
qed


subsection \<open>The logo\<close>

lemma drawLogo_fails: "logo_fails env cp \<Longrightarrow> drawLogo env cp w = w"
  by (auto simp add: logo_fails_def logo_unavailable_def drawLogo_def loadLogoAsBase64_def
        addImage_def split: option.splits FetchResult.splits)

lemma drawLogo_no_url: "if_truthy (logo_url cp) = None \<Longrightarrow> drawLogo env cp w = w"
  by (simp add: drawLogo_def)

lemma logo_equal:
  assumes "logo_fails env cp"
  shows "generateEigenbeleg env device cp options
           = generateEigenbeleg env device (cp\<lparr>logo_url := Null\<rparr>) options"
  unfolding generateEigenbeleg_def
  by (simp add: drawLogo_fails [OF assms] drawLogo_no_url)

lemma no_image_same:
  "no_image (setFontSize n d) = no_image d" "no_image (setFont a b d) = no_image d"
  "no_image (setTextColor c d) = no_image d" "no_image (setDrawColor c d) = no_image d"
  "no_image (doc_text s x y d) = no_image d" "no_image (line x1 y1 x2 y2 d) = no_image d"
  by (simp_all add: no_image_def allPages_def text_item_def)

lemma no_image_addFooter: "no_image (doc (addFooter w)) = no_image (doc w)"
  by (simp add: no_image_def allPages_def addFooter_current)

lemma no_image_ensureSpace: "no_image (doc (ensureSpace n w)) = no_image (doc w)"
proof (cases "ypos w + n > PAGE_BOTTOM")
  case True
  show ?thesis
    using ensureSpace_break [OF True] no_image_addFooter [of w]
    by (simp add: no_image_def allPages_def)
next
  case False
  then show ?thesis by (simp add: ensureSpace_no_break)
qed

lemma no_image_loops:
  "no_image (doc (labelValue_loop lineH i ls w)) = no_image (doc w)"
  "no_image (doc (labelBlock_loop lineH vs w)) = no_image (doc w)"
proof -
  show "no_image (doc (labelValue_loop lineH i ls w)) = no_image (doc w)"
    by (induction ls arbitrary: w i) (simp_all add: Let_def no_image_same no_image_ensureSpace)
  show "no_image (doc (labelBlock_loop lineH vs w)) = no_image (doc w)"
    by (induction vs arbitrary: w) (simp_all add: Let_def no_image_same no_image_ensureSpace)
qed

lemma no_image_methods:
  "no_image (doc (labelValue split label val opts w)) = no_image (doc w)"
  "no_image (doc (labelBlock label vals w)) = no_image (doc w)"
  "no_image (doc (separator w)) = no_image (doc w)"
  by (simp_all add: labelValue_def labelBlock_def separator_def Let_def no_image_same
        no_image_ensureSpace no_image_loops)

lemma no_image_without_logo:
  assumes "if_truthy (logo_url cp) = None"
  shows "no_image (generateEigenbeleg env device cp options)"
  unfolding generateEigenbeleg_def Let_def
  by (simp add: drawLogo_no_url [OF assms] no_image_same no_image_addFooter no_image_ensureSpace
        no_image_methods split: option.split)
     (simp add: no_image_def allPages_def new_PdfWriter_def new_jsPDF_def)

text \<open>
  C8. \<^verbatim>\<open>generateEigenbeleg\<close> is a total function of its inputs and of the outside world.
  When the logo fails (the fetch rejects, the response is not OK, its body cannot be
  read, or jsPDF cannot decode the image), the document is the one generated for the
  same profile without a logo URL, and no page holds an image.
\<close>

theorem logo_failure_is_silent:
  "(logo_fails env companyProfile \<longrightarrow>
        generateEigenbeleg env device companyProfile options
          = generateEigenbeleg env device (companyProfile\<lparr>logo_url := Null\<rparr>) options
      \<and> no_image (generateEigenbeleg env device companyProfile options))
   \<and> (if_truthy (logo_url companyProfile) = Some url \<longrightarrow>
        (fetch env url = NetworkError \<longrightarrow> logo_fails env companyProfile)
      \<and> (fetch env url = Response False body content_type \<longrightarrow> logo_fails env companyProfile)
      \<and> (fetch env url = Response True None content_type \<longrightarrow> logo_fails env companyProfile)
      \<and> (fetch env url = Response True (Some base64) content_type
           \<and> \<not> decodes env (''data:'' @ lor_str content_type ''image/png'' @ '';base64,'' @ base64)
          \<longrightarrow> logo_fails env companyProfile))"
proof -
  have silent: "generateEigenbeleg env device companyProfile options
          = generateEigenbeleg env device (companyProfile\<lparr>logo_url := Null\<rparr>) options
      \<and> no_image (generateEigenbeleg env device companyProfile options)"
    if "logo_fails env companyProfile"
    using logo_equal [OF that, of device options]
      no_image_without_logo [of "companyProfile\<lparr>logo_url := Null\<rparr>" env device options]
    by simp
  have causes: "(fetch env url = NetworkError \<longrightarrow> logo_fails env companyProfile)
      \<and> (fetch env url = Response False body content_type \<longrightarrow> logo_fails env companyProfile)
      \<and> (fetch env url = Response True None content_type \<longrightarrow> logo_fails env companyProfile)
      \<and> (fetch env url = Response True (Some base64) content_type
           \<and> \<not> decodes env (''data:'' @ lor_str content_type ''image/png'' @ '';base64,'' @ base64)
          \<longrightarrow> logo_fails env companyProfile)"
    if "if_truthy (logo_url companyProfile) = Some url"
    using that by (auto simp add: logo_fails_def logo_unavailable_def split: option.split)
  show ?thesis using silent causes by blast
qed


theorem logo_failure_is_silent_witness:
  "if_truthy (logo_url sampleProfile) = Some ''https://example.com/logo.png''
   \<and> fetch plainEnv ''https://example.com/logo.png'' = NetworkError
   \<and> logo_fails plainEnv sampleProfile
   \<and> generateEigenbeleg plainEnv sampleDevice sampleProfile
         \<lparr>recipientName = ''Max Mustermann'', reason = Undefined\<rparr>
       = generateEigenbeleg plainEnv sampleDevice (sampleProfile\<lparr>logo_url := Null\<rparr>)
           \<lparr>recipientName = ''Max Mustermann'', reason = Undefined\<rparr>
   \<and> no_image (generateEigenbeleg plainEnv sampleDevice sampleProfile
         \<lparr>recipientName = ''Max Mustermann'', reason = Undefined\<rparr>)
   \<and> fetch notFoundEnv ''https://example.com/logo.png''
         = Response False (Some ''PGh0bWw+'') (Val ''text/html'')
   \<and> logo_fails notFoundEnv sampleProfile
   \<and> no_image (generateEigenbeleg notFoundEnv sampleDevice sampleProfile
         \<lparr>recipientName = ''Max Mustermann'', reason = Undefined\<rparr>)
   \<and> fetch brokenImageEnv ''https://example.com/logo.png'' = Response True (Some ''AAAA'') Null
   \<and> \<not> decodes brokenImageEnv (''data:'' @ lor_str Null ''image/png'' @ '';base64,'' @ ''AAAA'')
   \<and> logo_fails brokenImageEnv sampleProfile
   \<and> no_image (generateEigenbeleg brokenImageEnv sampleDevice sampleProfile
         \<lparr>recipientName = ''Max Mustermann'', reason = Undefined\<rparr>)
   \<and> \<not> logo_fails goodLogoEnv sampleProfile
   \<and> hd (hd (allPages (generateEigenbeleg goodLogoEnv sampleDevice sampleProfile
         \<lparr>recipientName = ''Max Mustermann'', reason = Undefined\<rparr>)))
       = Image ''data:image/jpeg;base64,AAAA'' ''PNG'' 145 15 40 20"
proof -
  let ?url = "''https://example.com/logo.png''"
  let ?opts = "\<lparr>recipientName = ''Max Mustermann'', reason = Undefined\<rparr>"
  have url: "if_truthy (logo_url sampleProfile) = Some ?url"
    by (simp add: sampleProfile_def)
  have f1: "fetch plainEnv ?url = NetworkError"
    by (simp add: plainEnv_def)
  have f2: "fetch notFoundEnv ?url = Response False (Some ''PGh0bWw+'') (Val ''text/html'')"
    by (simp add: notFoundEnv_def)
  have f3: "fetch brokenImageEnv ?url = Response True (Some ''AAAA'') Null"
    "\<not> decodes brokenImageEnv (''data:'' @ lor_str Null ''image/png'' @ '';base64,'' @ ''AAAA'')"
    by (simp_all add: brokenImageEnv_def plainEnv_def)
  have l1: "logo_fails plainEnv sampleProfile"
    using logo_failure_is_silent [where env = plainEnv and companyProfile = sampleProfile
        and url = ?url] url f1 by blast
  have l2: "logo_fails notFoundEnv sampleProfile"
    using logo_failure_is_silent [where env = notFoundEnv and companyProfile = sampleProfile
        and url = ?url and body = "Some ''PGh0bWw+''" and content_type = "Val ''text/html''"] url f2
    by blast
  have l3: "logo_fails brokenImageEnv sampleProfile"
    using logo_failure_is_silent [where env = brokenImageEnv and companyProfile = sampleProfile
        and url = ?url and ?base64.0 = "''AAAA''" and content_type = Null] url f3
    by blast
  have r1: "generateEigenbeleg plainEnv sampleDevice sampleProfile ?opts
       = generateEigenbeleg plainEnv sampleDevice (sampleProfile\<lparr>logo_url := Null\<rparr>) ?opts"
    "no_image (generateEigenbeleg plainEnv sampleDevice sampleProfile ?opts)"
    using logo_failure_is_silent [where env = plainEnv and companyProfile = sampleProfile
        and device = sampleDevice and options = ?opts] l1 by blast+
  have r2: "no_image (generateEigenbeleg notFoundEnv sampleDevice sampleProfile ?opts)"
    using logo_failure_is_silent [where env = notFoundEnv and companyProfile = sampleProfile
        and device = sampleDevice and options = ?opts] l2 by blast
  have r3: "no_image (generateEigenbeleg brokenImageEnv sampleDevice sampleProfile ?opts)"
    using logo_failure_is_silent [where env = brokenImageEnv and companyProfile = sampleProfile
        and device = sampleDevice and options = ?opts] l3 by blast
  have g: "\<not> logo_fails goodLogoEnv sampleProfile"
    by (simp add: logo_fails_def logo_unavailable_def goodLogoEnv_def plainEnv_def sampleProfile_def)
  have img: "hd (hd (allPages (generateEigenbeleg goodLogoEnv sampleDevice sampleProfile ?opts)))
       = Image ''data:image/jpeg;base64,AAAA'' ''PNG'' 145 15 40 20"
    unfolding generateEigenbeleg_def
    by (simp add: writer_defs goodLogoEnv_def plainEnv_def sampleDevice_def sampleProfile_def
          drawLogo_def loadLogoAsBase64_def addImage_def amountStr_def fmt_250 defaultReason_def
          cong: let_weak_cong)
  show ?thesis
    by (intro conjI) (rule url f1 f2 f3 l1 l2 l3 r1 r2 r3 g img)+
qed


section \<open>Properties of the spreadsheet export\<close>

lemma export_device_result:
  assumes "export_device fmt tot d = Some (tot', r)"
  shows "row_cell (''Ger'' @ a_uml @ ''te-ID'') r = Some (Str (device_id d))"
    and "totalPurchasePrice tot' = totalPurchasePrice tot + (if counted d then lor_num (purchase_price d) 0 else 0)"
    and "totalRepairCost tot' = totalRepairCost tot + (if counted d then lor_num (repair_cost d) 0 else 0)"
    and "totalShippingCost tot' = totalShippingCost tot
           + (if counted d then lor_num (shipping_buy d) 0 + lor_num (shipping_sell d) 0 else 0)"
    and "totalOtherCosts tot' = totalOtherCosts tot + (if counted d then lor_num (sales_fees d) 0 else 0)"
    and "totalSalePrice tot' = totalSalePrice tot + (if counted d then lor_num (sale_price d) 0 else 0)"
    and "totalTax tot' = totalTax tot + (if counted d then vat (calculateDeviceFinancials d) else 0)"
  using assms
  by (auto simp add: export_device_def Let_def counted_def row_cell_def a_uml_def
        split: option.splits if_splits)

lemma counted_sum_Cons:
  "counted_sum f (d # ds) = (if counted d then f d else 0) + counted_sum f ds"
  by (simp add: counted_sum_def)

lemma export_map_result:
  assumes "export_map fmt ds tot rows = Some (tot', rows')"
  shows "map (row_cell (''Ger'' @ a_uml @ ''te-ID'')) rows'
           = map (row_cell (''Ger'' @ a_uml @ ''te-ID'')) rows @ map (\<lambda>d. Some (Str (device_id d))) ds
       \<and> totalPurchasePrice tot' = totalPurchasePrice tot + counted_sum (\<lambda>d. lor_num (purchase_price d) 0) ds
       \<and> totalRepairCost tot' = totalRepairCost tot + counted_sum (\<lambda>d. lor_num (repair_cost d) 0) ds
       \<and> totalShippingCost tot' = totalShippingCost tot
           + counted_sum (\<lambda>d. lor_num (shipping_buy d) 0 + lor_num (shipping_sell d) 0) ds
       \<and> totalOtherCosts tot' = totalOtherCosts tot + counted_sum (\<lambda>d. lor_num (sales_fees d) 0) ds
       \<and> totalSalePrice tot' = totalSalePrice tot + counted_sum (\<lambda>d. lor_num (sale_price d) 0) ds
       \<and> totalTax tot' = totalTax tot + counted_sum (\<lambda>d. vat (calculateDeviceFinancials d)) ds"
  using assms
proof (induction ds arbitrary: tot rows)
  case Nil
  then show ?case by (simp add: counted_sum_def)
next
  case (Cons d ds)
  from Cons.prems obtain tot1 r where
    step: "export_device fmt tot d = Some (tot1, r)"
    and rest: "export_map fmt ds tot1 (rows @ [r]) = Some (tot', rows')"
    by (auto split: option.splits)
  note ih = Cons.IH [OF rest]
  note dev = export_device_result [OF step]
  show ?case
    using ih dev(1)
    by (simp add: counted_sum_Cons dev(2-7))
qed


lemma export_map_succeeds:
  "(\<And>s. fmt s \<noteq> None) \<Longrightarrow> \<exists>res. export_map fmt ds tot rows = Some res"
proof (induction ds arbitrary: tot rows)
  case Nil
  then show ?case by simp
next
  case (Cons d ds)
  have dc: "\<exists>c. date_cell fmt x = Some c" for x
  proof (cases "if_truthy x")
    case None
    then show ?thesis by (simp add: date_cell_def)
  next
    case (Some s)
    then show ?thesis using Cons.prems [of s] by (auto simp add: date_cell_def)
  qed
  obtain c1 c2 where "date_cell fmt (purchase_date d) = Some c1" "date_cell fmt (sale_date d) = Some c2"
    using dc by blast
  then have "\<exists>t r. export_device fmt tot d = Some (t, r)"
    by (simp add: export_device_def Let_def)
  then obtain t r where "export_device fmt tot d = Some (t, r)" by blast
  then show ?case using Cons.IH [OF Cons.prems, of t "rows @ [r]"] by simp
qed

lemma counted_sum_insert:
  "counted_sum f (xs @ d # ys) = counted_sum f (xs @ ys) + (if counted d then f d else 0)"
  by (simp add: counted_sum_def)

lemma export_result:
  assumes "exportDevicesToExcel fmt devices = Inr sheet"
  shows "map (row_cell (''Ger'' @ a_uml @ ''te-ID'')) (excelData sheet)
           = map (\<lambda>d. Some (Str (device_id d))) devices"
    and "totalsRows sheet =
        [totals_row ''Gesamte Einkaufskosten'' (counted_sum (\<lambda>d. lor_num (purchase_price d) 0) devices),
         totals_row ''Gesamte Reparaturkosten'' (counted_sum (\<lambda>d. lor_num (repair_cost d) 0) devices),
         totals_row ''Gesamte Versandkosten''
           (counted_sum (\<lambda>d. lor_num (shipping_buy d) 0 + lor_num (shipping_sell d) 0) devices),
         totals_row ''Gesamte sonstige Kosten'' (counted_sum (\<lambda>d. lor_num (sales_fees d) 0) devices),
         totals_row ''Gesamtkosten gesamt''
           (counted_sum (\<lambda>d. lor_num (purchase_price d) 0) devices
            + counted_sum (\<lambda>d. lor_num (repair_cost d) 0) devices
            + counted_sum (\<lambda>d. lor_num (shipping_buy d) 0 + lor_num (shipping_sell d) 0) devices
            + counted_sum (\<lambda>d. lor_num (sales_fees d) 0) devices),
         totals_row ''Gesamtumsatz'' (counted_sum (\<lambda>d. lor_num (sale_price d) 0) devices),
         totals_row ''Gesamtsteuer'' (counted_sum (\<lambda>d. vat (calculateDeviceFinancials d)) devices),
         totals_row ''Gesamtgewinn vor Steuern''
           (counted_sum (\<lambda>d. lor_num (sale_price d) 0) devices
            - (counted_sum (\<lambda>d. lor_num (purchase_price d) 0) devices
               + counted_sum (\<lambda>d. lor_num (repair_cost d) 0) devices
               + counted_sum (\<lambda>d. lor_num (shipping_buy d) 0 + lor_num (shipping_sell d) 0) devices
               + counted_sum (\<lambda>d. lor_num (sales_fees d) 0) devices)),
         totals_row ''Gesamtgewinn nach Steuern''
           (counted_sum (\<lambda>d. lor_num (sale_price d) 0) devices
            - (counted_sum (\<lambda>d. lor_num (purchase_price d) 0) devices
               + counted_sum (\<lambda>d. lor_num (repair_cost d) 0) devices
               + counted_sum (\<lambda>d. lor_num (shipping_buy d) 0 + lor_num (shipping_sell d) 0) devices
               + counted_sum (\<lambda>d. lor_num (sales_fees d) 0) devices)
            - counted_sum (\<lambda>d. vat (calculateDeviceFinancials d)) devices)]"
proof -
  from assms obtain tot rows where
    run: "export_map fmt devices zeroTotals [] = Some (tot, rows)"
    and sheet: "sheet = \<lparr> excelData = rows,
       totalsRows =
         [totals_row ''Gesamte Einkaufskosten'' (totalPurchasePrice tot),
          totals_row ''Gesamte Reparaturkosten'' (totalRepairCost tot),
          totals_row ''Gesamte Versandkosten'' (totalShippingCost tot),
          totals_row ''Gesamte sonstige Kosten'' (totalOtherCosts tot),
          totals_row ''Gesamtkosten gesamt''
            (totalPurchasePrice tot + totalRepairCost tot + totalShippingCost tot + totalOtherCosts tot),
          totals_row ''Gesamtumsatz'' (totalSalePrice tot),
          totals_row ''Gesamtsteuer'' (totalTax tot),
          totals_row ''Gesamtgewinn vor Steuern''
            (totalSalePrice tot
             - (totalPurchasePrice tot + totalRepairCost tot + totalShippingCost tot + totalOtherCosts tot)),
          totals_row ''Gesamtgewinn nach Steuern''
            (totalSalePrice tot
             - (totalPurchasePrice tot + totalRepairCost tot + totalShippingCost tot + totalOtherCosts tot)
             - totalTax tot)] \<rparr>"
    by (auto simp add: exportDevicesToExcel_def Let_def split: if_splits option.splits)
  note res = export_map_result [OF run]
  show "map (row_cell (''Ger'' @ a_uml @ ''te-ID'')) (excelData sheet)
           = map (\<lambda>d. Some (Str (device_id d))) devices"
    using res by (simp add: sheet)
  show "totalsRows sheet =
        [totals_row ''Gesamte Einkaufskosten'' (counted_sum (\<lambda>d. lor_num (purchase_price d) 0) devices),
         totals_row ''Gesamte Reparaturkosten'' (counted_sum (\<lambda>d. lor_num (repair_cost d) 0) devices),
         totals_row ''Gesamte Versandkosten''
           (counted_sum (\<lambda>d. lor_num (shipping_buy d) 0 + lor_num (shipping_sell d) 0) devices),
         totals_row ''Gesamte sonstige Kosten'' (counted_sum (\<lambda>d. lor_num (sales_fees d) 0) devices),
         totals_row ''Gesamtkosten gesamt''
           (counted_sum (\<lambda>d. lor_num (purchase_price d) 0) devices
            + counted_sum (\<lambda>d. lor_num (repair_cost d) 0) devices
            + counted_sum (\<lambda>d. lor_num (shipping_buy d) 0 + lor_num (shipping_sell d) 0) devices
            + counted_sum (\<lambda>d. lor_num (sales_fees d) 0) devices),
         totals_row ''Gesamtumsatz'' (counted_sum (\<lambda>d. lor_num (sale_price d) 0) devices),
         totals_row ''Gesamtsteuer'' (counted_sum (\<lambda>d. vat (calculateDeviceFinancials d)) devices),
         totals_row ''Gesamtgewinn vor Steuern''
           (counted_sum (\<lambda>d. lor_num (sale_price d) 0) devices
            - (counted_sum (\<lambda>d. lor_num (purchase_price d) 0) devices
               + counted_sum (\<lambda>d. lor_num (repair_cost d) 0) devices
               + counted_sum (\<lambda>d. lor_num (shipping_buy d) 0 + lor_num (shipping_sell d) 0) devices
               + counted_sum (\<lambda>d. lor_num (sales_fees d) 0) devices)),
         totals_row ''Gesamtgewinn nach Steuern''
           (counted_sum (\<lambda>d. lor_num (sale_price d) 0) devices
            - (counted_sum (\<lambda>d. lor_num (purchase_price d) 0) devices
               + counted_sum (\<lambda>d. lor_num (repair_cost d) 0) devices
               + counted_sum (\<lambda>d. lor_num (shipping_buy d) 0 + lor_num (shipping_sell d) 0) devices
               + counted_sum (\<lambda>d. lor_num (sales_fees d) 0) devices)
            - counted_sum (\<lambda>d. vat (calculateDeviceFinancials d)) devices)]"
    using res by (simp add: sheet zeroTotals_def)
qed

lemma export_contribution:
  assumes "exportDevicesToExcel fmt (xs @ d # ys) = Inr s1"
    and "exportDevicesToExcel fmt (xs @ ys) = Inr s2"
  shows "totalsRows s1 = totalsRows s2 \<longleftrightarrow> \<not> counted d"
proof (cases "counted d")
  case False
  then show ?thesis
    unfolding export_result(2) [OF assms(1)] export_result(2) [OF assms(2)]
    by (simp add: counted_sum_insert)
next
  case True
  then have "lor_num (sale_price d) 0 > 0" by (simp add: counted_def)
  then have "counted_sum (\<lambda>d. lor_num (sale_price d) 0) (xs @ d # ys)
      \<noteq> counted_sum (\<lambda>d. lor_num (sale_price d) 0) (xs @ ys)"
    using True by (simp add: counted_sum_insert)
  then show ?thesis
    unfolding export_result(2) [OF assms(1)] export_result(2) [OF assms(2)]
    using True by (simp add: totals_row_def)
qed

lemma export_succeeds:
  assumes "\<And>s. fmt s \<noteq> None" "devices \<noteq> []"
  shows "\<exists>sheet. exportDevicesToExcel fmt devices = Inr sheet"
proof -
  obtain tot rows where "export_map fmt devices zeroTotals [] = Some (tot, rows)"
    using export_map_succeeds [of fmt devices zeroTotals "[]"] assms(1) by force
  then show ?thesis
    using assms(2) by (simp add: exportDevicesToExcel_def Let_def)
qed


text \<open>
  C9. When the export succeeds, the sheet has one row for every fetched device, in order
  and whatever its status, and every amount of the totals section is the sum over the
  devices with status SOLD and a sale price above 0, the profit totals being derived
  from those sums. Leaving a device out of the fetched list changes the totals section
  exactly when that device has status SOLD and a sale price above 0. The export
  succeeds on every list that is not empty when the dates can be formatted.
\<close>

theorem export_totals_over_sold:
  "(exportDevicesToExcel fmt devices = Inr sheet \<longrightarrow>
       length (excelData sheet) = length devices
     \<and> map (row_cell (''Ger'' @ a_uml @ ''te-ID'')) (excelData sheet)
         = map (\<lambda>d. Some (Str (device_id d))) devices
     \<and> totalsRows sheet =
        [totals_row ''Gesamte Einkaufskosten'' (counted_sum (\<lambda>d. lor_num (purchase_price d) 0) devices),
         totals_row ''Gesamte Reparaturkosten'' (counted_sum (\<lambda>d. lor_num (repair_cost d) 0) devices),
         totals_row ''Gesamte Versandkosten''
           (counted_sum (\<lambda>d. lor_num (shipping_buy d) 0 + lor_num (shipping_sell d) 0) devices),
         totals_row ''Gesamte sonstige Kosten'' (counted_sum (\<lambda>d. lor_num (sales_fees d) 0) devices),
         totals_row ''Gesamtkosten gesamt''
           (counted_sum (\<lambda>d. lor_num (purchase_price d) 0) devices
            + counted_sum (\<lambda>d. lor_num (repair_cost d) 0) devices
            + counted_sum (\<lambda>d. lor_num (shipping_buy d) 0 + lor_num (shipping_sell d) 0) devices
            + counted_sum (\<lambda>d. lor_num (sales_fees d) 0) devices),
         totals_row ''Gesamtumsatz'' (counted_sum (\<lambda>d. lor_num (sale_price d) 0) devices),
         totals_row ''Gesamtsteuer'' (counted_sum (\<lambda>d. vat (calculateDeviceFinancials d)) devices),
         totals_row ''Gesamtgewinn vor Steuern''
           (counted_sum (\<lambda>d. lor_num (sale_price d) 0) devices
            - (counted_sum (\<lambda>d. lor_num (purchase_price d) 0) devices
               + counted_sum (\<lambda>d. lor_num (repair_cost d) 0) devices
               + counted_sum (\<lambda>d. lor_num (shipping_buy d) 0 + lor_num (shipping_sell d) 0) devices
               + counted_sum (\<lambda>d. lor_num (sales_fees d) 0) devices)),
         totals_row ''Gesamtgewinn nach Steuern''
           (counted_sum (\<lambda>d. lor_num (sale_price d) 0) devices
            - (counted_sum (\<lambda>d. lor_num (purchase_price d) 0) devices
               + counted_sum (\<lambda>d. lor_num (repair_cost d) 0) devices
               + counted_sum (\<lambda>d. lor_num (shipping_buy d) 0 + lor_num (shipping_sell d) 0) devices
               + counted_sum (\<lambda>d. lor_num (sales_fees d) 0) devices)
            - counted_sum (\<lambda>d. vat (calculateDeviceFinancials d)) devices)])
   \<and> (exportDevicesToExcel fmt (xs @ d # ys) = Inr s1 \<and> exportDevicesToExcel fmt (xs @ ys) = Inr s2 \<longrightarrow>
        (totalsRows s1 \<noteq> totalsRows s2 \<longleftrightarrow> status d = ''SOLD'' \<and> lor_num (sale_price d) 0 > 0))
   \<and> counted_sum f devices
        = sum_list (map f (filter (\<lambda>d. status d = ''SOLD'' \<and> lor_num (sale_price d) 0 > 0) devices))
   \<and> ((\<forall>s. fmt s \<noteq> None) \<and> devices \<noteq> [] \<longrightarrow> (\<exists>sh. exportDevicesToExcel fmt devices = Inr sh))"
proof -
  have rows: "length (excelData sheet) = length devices"
    if "exportDevicesToExcel fmt devices = Inr sheet"
    using export_result(1) [OF that] by (metis length_map)
  have contrib: "totalsRows s1 \<noteq> totalsRows s2 \<longleftrightarrow> status d = ''SOLD'' \<and> lor_num (sale_price d) 0 > 0"
    if "exportDevicesToExcel fmt (xs @ d # ys) = Inr s1" "exportDevicesToExcel fmt (xs @ ys) = Inr s2"
    using export_contribution [OF that] by (simp add: counted_def)
  have sums: "counted_sum f devices
        = sum_list (map f (filter (\<lambda>d. status d = ''SOLD'' \<and> lor_num (sale_price d) 0 > 0) devices))"
    by (simp add: counted_sum_def counted_def [abs_def])
  have ok: "\<exists>sh. exportDevicesToExcel fmt devices = Inr sh"
    if "\<forall>s. fmt s \<noteq> None" "devices \<noteq> []"
    using export_succeeds [of fmt devices] that by blast
  show ?thesis
    using rows export_result [of fmt devices sheet] contrib sums ok by blast
qed

lemma sample_export:
  "exportDevicesToExcel format_as_is [soldRow, stockRow] =
     Inr \<lparr>excelData =
        [[(''Ger'' @ a_uml @ ''te-ID'', Str ''D-1''),
          (''Einkaufsdatum'', Str ''2024-01-05''),
          (''Verkaufsdatum'', Str ''2024-02-01''),
          (''Besteuerungsart'', Str ''Differenzbesteuerung''),
          (''Differenzbesteuerung'', Str check_mark),
          (''Regelbesteuerung'', Str []), (''Einkaufspreis'', Num 1000),
          (''Reparaturkosten'', Num 20), (''Versandkosten'', Num 5),
          (''Sonstige Kosten'', Num 15), (''Gesamtkosten'', Num 1040),
          (''Verkaufspreis'', Num 1190),
          (''Steuerbetrag'', Num (3610 / 119)),
          (''Gewinn vor Steuern'', Num 150),
          (''Gewinn nach Steuern'', Num (14240 / 119))],
         [(''Ger'' @ a_uml @ ''te-ID'', Str ''D-2''),
          (''Einkaufsdatum'', Str ''2024-01-05''),
          (''Verkaufsdatum'', Str []),
          (''Besteuerungsart'', Str ''Differenzbesteuerung''),
          (''Differenzbesteuerung'', Str check_mark),
          (''Regelbesteuerung'', Str []), (''Einkaufspreis'', Num 300),
          (''Reparaturkosten'', Num 20), (''Versandkosten'', Num 5),
          (''Sonstige Kosten'', Num 15), (''Gesamtkosten'', Num 340),
          (''Verkaufspreis'', Str []), (''Steuerbetrag'', Str []),
          (''Gewinn vor Steuern'', Str []),
          (''Gewinn nach Steuern'', Str [])]],
        totalsRows =
          [totals_row ''Gesamte Einkaufskosten'' 1000,
           totals_row ''Gesamte Reparaturkosten'' 20,
           totals_row ''Gesamte Versandkosten'' 5,
           totals_row ''Gesamte sonstige Kosten'' 15,
           totals_row ''Gesamtkosten gesamt'' 1040,
           totals_row ''Gesamtumsatz'' 1190,
           totals_row ''Gesamtsteuer'' (3610 / 119),
           totals_row ''Gesamtgewinn vor Steuern'' 150,
           totals_row ''Gesamtgewinn nach Steuern'' (14240 / 119)]\<rparr>"
  by (simp add: exportDevicesToExcel_def export_device_def date_cell_def format_as_is_def
        calculateDeviceFinancials_def isSold_def purchasePrice_of_def repairCost_of_def
        shippingBuy_of_def shippingSell_of_def salesFees_of_def salePrice_of_def isDiffTax_of_def
        lor_def soldRow_def stockRow_def zeroTotals_def Let_def
        cong: let_weak_cong)

theorem export_totals_over_sold_witness:
  "(\<exists>sheet. exportDevicesToExcel format_as_is [soldRow, stockRow] = Inr sheet
      \<and> length (excelData sheet) = 2
      \<and> totalsRows sheet =
          [totals_row ''Gesamte Einkaufskosten'' 1000,
           totals_row ''Gesamte Reparaturkosten'' 20,
           totals_row ''Gesamte Versandkosten'' 5,
           totals_row ''Gesamte sonstige Kosten'' 15,
           totals_row ''Gesamtkosten gesamt'' 1040,
           totals_row ''Gesamtumsatz'' 1190,
           totals_row ''Gesamtsteuer'' (3610 / 119),
           totals_row ''Gesamtgewinn vor Steuern'' 150,
           totals_row ''Gesamtgewinn nach Steuern'' (14240 / 119)])
   \<and> status soldRow = ''SOLD'' \<and> lor_num (sale_price soldRow) 0 > 0
   \<and> status stockRow \<noteq> ''SOLD''
   \<and> counted_sum (\<lambda>d. lor_num (purchase_price d) 0) [soldRow, stockRow] = 1000
   \<and> (\<exists>s1 s2. exportDevicesToExcel format_as_is ([soldRow] @ stockRow # []) = Inr s1
        \<and> exportDevicesToExcel format_as_is ([soldRow] @ []) = Inr s2
        \<and> totalsRows s1 = totalsRows s2)"
proof -
  note inst = export_totals_over_sold [where fmt = format_as_is and devices = "[soldRow, stockRow]"
      and xs = "[soldRow]" and d = stockRow and ys = "[]"
      and f = "\<lambda>d. lor_num (purchase_price d) 0"]
  have facts: "status soldRow = ''SOLD''" "lor_num (sale_price soldRow) 0 > 0"
    "status stockRow \<noteq> ''SOLD''"
    by (simp_all add: soldRow_def stockRow_def)
  have fmt: "\<forall>s. format_as_is s \<noteq> None" by (simp add: format_as_is_def)
  have sum: "counted_sum (\<lambda>d. lor_num (purchase_price d) 0) [soldRow, stockRow] = 1000"
    using inst facts by (simp add: soldRow_def stockRow_def)
  obtain s2 where s2: "exportDevicesToExcel format_as_is ([soldRow] @ []) = Inr s2"
    using export_totals_over_sold [where fmt = format_as_is and devices = "[soldRow] @ []"] fmt
    by blast
  have same: "totalsRows s1 = totalsRows s2"
    if "exportDevicesToExcel format_as_is ([soldRow] @ stockRow # []) = Inr s1" for s1
    using inst [where ?s1.0 = s1 and ?s2.0 = s2] that s2 facts(3) by blast
  have first: "\<exists>sheet. exportDevicesToExcel format_as_is [soldRow, stockRow] = Inr sheet
      \<and> length (excelData sheet) = 2
      \<and> totalsRows sheet =
          [totals_row ''Gesamte Einkaufskosten'' 1000,
           totals_row ''Gesamte Reparaturkosten'' 20,
           totals_row ''Gesamte Versandkosten'' 5,
           totals_row ''Gesamte sonstige Kosten'' 15,
           totals_row ''Gesamtkosten gesamt'' 1040,
           totals_row ''Gesamtumsatz'' 1190,
           totals_row ''Gesamtsteuer'' (3610 / 119),
           totals_row ''Gesamtgewinn vor Steuern'' 150,
           totals_row ''Gesamtgewinn nach Steuern'' (14240 / 119)]"
    by (simp add: sample_export)
  have second: "\<exists>s1 s2. exportDevicesToExcel format_as_is ([soldRow] @ stockRow # []) = Inr s1
        \<and> exportDevicesToExcel format_as_is ([soldRow] @ []) = Inr s2
        \<and> totalsRows s1 = totalsRows s2"
    using same s2 sample_export by auto
  show ?thesis
    using first facts sum second by blast
qed


end
